theory Spec2Isabelle
  imports Complex_Main "HOL-Library.Multiset" "HOL-Library.AList"
    "HOL-Library.Code_Target_Numeral"
begin

section \<open>JavaScript values\<close>

text \<open>
  The gateway is TypeScript. Strings are modelled as \<^typ>\<open>string\<close>, one \<^typ>\<open>char\<close> per
  UTF-16 code unit, so \<^const>\<open>length\<close> is JavaScript's \<open>.length\<close>. A \<^typ>\<open>char\<close> has eight
  bits: the strings of the model are the JavaScript strings whose code units are below 256
  (ASCII and the Latin-1 supplement). Numbers that hold token counts are \<^typ>\<open>rat\<close> (the
  code divides lengths by 4, which is exact in a double), and \<open>T | null\<close> is
  \<^typ>\<open>'a option\<close>.
\<close>

text \<open>
  \<open>s.toLowerCase()\<close>. Among the code units below 256 the upper-case letters are \<open>A\<close> to \<open>Z\<close>
  and \<open>U+00C0\<close> to \<open>U+00DE\<close> without the multiplication sign \<open>U+00D7\<close>; the lower-case
  letter of each is 32 code units further on.
\<close>

definition upper_case :: string where
  "upper_case =
     ''ABCDEFGHIJKLMNOPQRSTUVWXYZ''
     @ [CHR 0xC0, CHR 0xC1, CHR 0xC2, CHR 0xC3, CHR 0xC4, CHR 0xC5, CHR 0xC6, CHR 0xC7,
        CHR 0xC8, CHR 0xC9, CHR 0xCA, CHR 0xCB, CHR 0xCC, CHR 0xCD, CHR 0xCE, CHR 0xCF,
        CHR 0xD0, CHR 0xD1, CHR 0xD2, CHR 0xD3, CHR 0xD4, CHR 0xD5, CHR 0xD6,
        CHR 0xD8, CHR 0xD9, CHR 0xDA, CHR 0xDB, CHR 0xDC, CHR 0xDD, CHR 0xDE]"

definition lower_case :: string where
  "lower_case =
     ''abcdefghijklmnopqrstuvwxyz''
     @ [CHR 0xE0, CHR 0xE1, CHR 0xE2, CHR 0xE3, CHR 0xE4, CHR 0xE5, CHR 0xE6, CHR 0xE7,
        CHR 0xE8, CHR 0xE9, CHR 0xEA, CHR 0xEB, CHR 0xEC, CHR 0xED, CHR 0xEE, CHR 0xEF,
        CHR 0xF0, CHR 0xF1, CHR 0xF2, CHR 0xF3, CHR 0xF4, CHR 0xF5, CHR 0xF6,
        CHR 0xF8, CHR 0xF9, CHR 0xFA, CHR 0xFB, CHR 0xFC, CHR 0xFD, CHR 0xFE]"

definition lower_char :: "char \<Rightarrow> char" where
  "lower_char c = (case map_of (zip upper_case lower_case) c of Some d \<Rightarrow> d | None \<Rightarrow> c)"

definition toLowerCase :: "string \<Rightarrow> string" where
  "toLowerCase s = map lower_char s"

text \<open>\<open>Math.round\<close>: the nearest integer, a half rounded up.\<close>

definition js_round :: "rat \<Rightarrow> int" where
  "js_round x = \<lfloor>x + 1 / 2\<rfloor>"

text \<open>\<open>!x\<close> for \<open>x: number | null\<close>: true for \<open>null\<close> and for \<open>0\<close>.\<close>

definition falsy_num :: "rat option \<Rightarrow> bool" where
  "falsy_num x = (case x of None \<Rightarrow> True | Some v \<Rightarrow> v = 0)"

text \<open>Decimal digits of a number, for the template string \<open>`chatcmpl-${Date.now()}`\<close>.\<close>

fun digits :: "nat \<Rightarrow> string" where
  "digits n =
     (if n < 10 then [''0123456789'' ! n]
      else digits (n div 10) @ [''0123456789'' ! (n mod 10)])"

declare digits.simps [simp del]

text \<open>
  A parsed JSON document (\<open>any\<close> in the source). \<open>JUndefined\<close> is what reading a missing
  property gives.
\<close>

datatype json =
    JUndefined
  | JNull
  | JBool bool
  | JNum rat
  | JStr string
  | JArr "json list"
  | JObj "(string \<times> json) list"

text \<open>\<open>x?.k\<close> and \<open>x?.[i]\<close>: \<open>undefined\<close> when there is nothing to read.\<close>

fun get :: "json \<Rightarrow> string \<Rightarrow> json" where
  "get (JObj kvs) k = (case map_of kvs k of Some v \<Rightarrow> v | None \<Rightarrow> JUndefined)"
| "get _ k = JUndefined"

fun elem :: "json \<Rightarrow> nat \<Rightarrow> json" where
  "elem (JArr xs) i = (if i < length xs then xs ! i else JUndefined)"
| "elem _ i = JUndefined"

fun truthy :: "json \<Rightarrow> bool" where
  "truthy JUndefined = False"
| "truthy JNull = False"
| "truthy (JBool b) = b"
| "truthy (JNum n) = (n \<noteq> 0)"
| "truthy (JStr s) = (s \<noteq> [])"
| "truthy (JArr xs) = True"
| "truthy (JObj kvs) = True"

text \<open>\<open>a || b\<close>\<close>

definition js_or :: "json \<Rightarrow> json \<Rightarrow> json" where
  "js_or a b = (if truthy a then a else b)"

text \<open>
  \<open>{...x, k: v}\<close>: the own properties of \<open>x\<close>, with \<open>k\<close> set. An array and a string have
  their elements and characters as properties, under the indices; \<open>null\<close>, \<open>undefined\<close>,
  numbers and booleans have none.
\<close>

definition indexed :: "'a list \<Rightarrow> (string \<times> 'a) list" where
  "indexed xs = zip (map digits [0..<length xs]) xs"

fun spread :: "json \<Rightarrow> (string \<times> json) list" where
  "spread (JObj kvs) = kvs"
| "spread (JArr xs) = indexed xs"
| "spread (JStr s) = indexed (map (\<lambda>c. JStr [c]) s)"
| "spread _ = []"

definition spread_with :: "json \<Rightarrow> string \<Rightarrow> json \<Rightarrow> json" where
  "spread_with x k v = JObj (AList.update k v (spread x))"

definition jnum_opt :: "rat option \<Rightarrow> json" where
  "jnum_opt n = (case n of None \<Rightarrow> JNull | Some v \<Rightarrow> JNum v)"

section \<open>Token estimation\<close>

text \<open>
  A chat message of the request body: \<open>content\<close> is a string or an array of parts, and
  \<open>m.content?.length\<close> is the string's length or the number of parts.
\<close>

datatype content_part = TextPart string | ImageUrlPart string

datatype msg_content = ContentString string | ContentParts "content_part list"

record message =
  m_role :: string
  m_content :: msg_content
  m_name :: "string option"

fun content_length :: "msg_content \<Rightarrow> nat" where
  "content_length (ContentString s) = length s"
| "content_length (ContentParts ps) = length ps"

text \<open>\<open>messages.reduce((acc, m) => acc + (m.content?.length || 0), 0)\<close>\<close>

definition messages_length :: "message list \<Rightarrow> nat" where
  "messages_length messages = foldl (\<lambda>acc m. acc + content_length (m_content m)) 0 messages"

text \<open>
  The tokenizer is the external package \<open>gpt-tokenizer\<close>; it is a parameter. \<open>None\<close> is a
  thrown exception.
\<close>

record tokenizer =
  encodeChat :: "message list \<Rightarrow> nat option"
  encode :: "string \<Rightarrow> nat option"

text \<open>\<open>estimateTokens\<close> (the provider argument is not used by the source).\<close>

definition estimateTokens ::
  "tokenizer \<Rightarrow> message list \<Rightarrow> string option \<Rightarrow> rat option \<Rightarrow> rat option
    \<Rightarrow> rat option \<times> rat option" where
  "estimateTokens tk messages content promptTokens completionTokens =
     (if falsy_num promptTokens \<or> falsy_num completionTokens then
        (let calculatedPromptTokens =
               (if falsy_num promptTokens \<and> messages \<noteq> [] then
                  (case encodeChat tk messages of
                     Some n \<Rightarrow> Some (of_nat n)
                   | None \<Rightarrow> Some (of_nat (messages_length messages) / 4))
                else promptTokens);
             calculatedCompletionTokens =
               (case content of
                  None \<Rightarrow> completionTokens
                | Some c \<Rightarrow>
                    (if falsy_num completionTokens \<and> c \<noteq> [] then
                       (case encode tk c of
                          Some n \<Rightarrow> Some (of_nat n)
                        | None \<Rightarrow> Some (of_nat (length c) / 4))
                     else completionTokens))
         in (calculatedPromptTokens, calculatedCompletionTokens))
      else (promptTokens, completionTokens))"

definition estimateTokensFromContent :: "string \<Rightarrow> int" where
  "estimateTokensFromContent content = max 1 (js_round (of_nat (length content) / 4))"

section \<open>Response normalization\<close>

text \<open>
  Provider ids are strings in the source (\<open>Provider\<close> is a union of string literals whose
  table is not part of this file), and so they are here. \<open>now\<close> is \<open>Date.now()\<close>.
\<close>

definition is_google :: "string \<Rightarrow> bool" where
  "is_google p = (p = ''google-vertex'' \<or> p = ''google-ai-studio'')"

text \<open>
  The finish-reason expressions of the two transformations. \<open>None\<close> is the \<open>TypeError\<close> of
  calling \<open>toLowerCase\<close> on a value that is not a string (\<open>?.\<close> guards \<open>null\<close> and
  \<open>undefined\<close> only).

  \<open>x?.toLowerCase() || "stop"\<close>
\<close>

fun lower_or_stop :: "json \<Rightarrow> json option" where
  "lower_or_stop (JStr s) = Some (JStr (if toLowerCase s = [] then ''stop'' else toLowerCase s))"
| "lower_or_stop JNull = Some (JStr ''stop'')"
| "lower_or_stop JUndefined = Some (JStr ''stop'')"
| "lower_or_stop _ = None"

text \<open>\<open>finishReason === "STOP" ? "stop" : finishReason?.toLowerCase() || "stop"\<close>\<close>

definition google_stop :: "json \<Rightarrow> json option" where
  "google_stop finishReason =
     (if finishReason = JStr ''STOP'' then Some (JStr ''stop'') else lower_or_stop finishReason)"

text \<open>\<open>finishReason === "end_turn" ? "stop" : finishReason?.toLowerCase() || "stop"\<close>\<close>

definition end_turn_stop :: "json \<Rightarrow> json option" where
  "end_turn_stop finishReason =
     (if finishReason = JStr ''end_turn'' then Some (JStr ''stop'')
      else lower_or_stop finishReason)"

text \<open>
  \<open>stopReason === "end_turn" ? "stop" : stopReason === "tool_use" ? "tool_calls"
    : stopReason?.toLowerCase() || "stop"\<close>
\<close>

definition anthropic_stop :: "json \<Rightarrow> json option" where
  "anthropic_stop stopReason =
     (if stopReason = JStr ''end_turn'' then Some (JStr ''stop'')
      else if stopReason = JStr ''tool_use'' then Some (JStr ''tool_calls'')
      else lower_or_stop stopReason)"

text \<open>
  The \<open>usage\<close> and \<open>message\<close> literals of \<open>transformToOpenAIFormat\<close>: a spread
  \<open>...(x !== null && {k: x})\<close> or \<open>...(x && {k: x})\<close> adds the property or nothing.
\<close>

definition completion_usage ::
  "rat option \<Rightarrow> rat option \<Rightarrow> rat option \<Rightarrow> json \<Rightarrow> json option \<Rightarrow> json" where
  "completion_usage promptTokens completionTokens totalTokens reasoningTokens cachedTokens =
     JObj ([(''prompt_tokens'', jnum_opt promptTokens),
            (''completion_tokens'', jnum_opt completionTokens),
            (''total_tokens'', jnum_opt totalTokens)]
           @ (if reasoningTokens \<noteq> JNull then [(''reasoning_tokens'', reasoningTokens)] else [])
           @ (case cachedTokens of
                None \<Rightarrow> []
              | Some c \<Rightarrow>
                  (if c \<noteq> JNull then [(''prompt_tokens_details'', JObj [(''cached_tokens'', c)])]
                   else [])))"

definition completion_message :: "json \<Rightarrow> json \<Rightarrow> json \<Rightarrow> json" where
  "completion_message content reasoningContent toolCalls =
     JObj ([(''role'', JStr ''assistant''), (''content'', content)]
           @ (if reasoningContent \<noteq> JNull then [(''reasoning_content'', reasoningContent)] else [])
           @ (if truthy toolCalls then [(''tool_calls'', toolCalls)] else []))"

text \<open>
  \<open>transformToOpenAIFormat\<close>. \<open>now\<close> is \<open>Date.now()\<close>. The Google and Anthropic branches
  build the same object literal and differ in the finish reason only; the third branch
  reads \<open>json.id\<close> (a \<open>TypeError\<close> when the body is \<open>null\<close>) and its literal has no
  \<open>tool_calls\<close> and no \<open>prompt_tokens_details\<close>; the bodies of all other providers are
  returned as they are.
\<close>

definition completion ::
  "nat \<Rightarrow> string \<Rightarrow> json \<Rightarrow> json \<Rightarrow> json \<Rightarrow> json" where
  "completion now usedModel message finish_reason usage =
     JObj [(''id'', JStr (''chatcmpl-'' @ digits now)),
           (''object'', JStr ''chat.completion''),
           (''created'', JNum (of_nat (now div 1000))),
           (''model'', JStr usedModel),
           (''choices'', JArr [JObj
              [(''index'', JNum 0), (''message'', message), (''finish_reason'', finish_reason)]]),
           (''usage'', usage)]"

definition transformToOpenAIFormat ::
  "nat \<Rightarrow> string \<Rightarrow> string \<Rightarrow> json \<Rightarrow> json \<Rightarrow> json \<Rightarrow> json
    \<Rightarrow> rat option \<Rightarrow> rat option \<Rightarrow> rat option \<Rightarrow> json \<Rightarrow> json \<Rightarrow> json \<Rightarrow> json option" where
  "transformToOpenAIFormat now usedProvider usedModel json content reasoningContent finishReason
       promptTokens completionTokens totalTokens reasoningTokens cachedTokens toolCalls =
     (if is_google usedProvider then
        map_option
          (\<lambda>finish_reason.
             completion now usedModel (completion_message content reasoningContent toolCalls)
               finish_reason
               (completion_usage promptTokens completionTokens totalTokens reasoningTokens
                  (Some cachedTokens)))
          (google_stop finishReason)
      else if usedProvider = ''anthropic'' then
        map_option
          (\<lambda>finish_reason.
             completion now usedModel (completion_message content reasoningContent toolCalls)
               finish_reason
               (completion_usage promptTokens completionTokens totalTokens reasoningTokens
                  (Some cachedTokens)))
          (end_turn_stop finishReason)
      else if usedProvider = ''inference.net'' \<or> usedProvider = ''together.ai''
              \<or> usedProvider = ''groq'' then
        (if json = JNull \<or> json = JUndefined then None
         else if truthy (get json ''id'') then Some json
         else
           Some (completion now usedModel (completion_message content reasoningContent JUndefined)
                   (js_or finishReason (JStr ''stop''))
                   (completion_usage promptTokens completionTokens totalTokens reasoningTokens
                      None)))
      else Some json)"

text \<open>\<open>response.choices[0].finish_reason\<close> of a normalized response or chunk.\<close>

definition finish_reason_of :: "json \<Rightarrow> json" where
  "finish_reason_of response = get (elem (get response ''choices'') 0) ''finish_reason''"

subsection \<open>Streaming chunks\<close>

text \<open>
  \<open>transformStreamingChunkToOpenAIFormat\<close>. \<open>None\<close> is a \<open>TypeError\<close>: reading a property
  of \<open>null\<close>, or calling \<open>toLowerCase\<close> or \<open>map\<close> on a value that has no such method.
  The seven Anthropic cases build one object literal with a different \<open>delta\<close> and
  \<open>finish_reason\<close>; \<open>anthropic_chunk\<close> is that literal.
\<close>

definition anthropic_chunk :: "nat \<Rightarrow> string \<Rightarrow> json \<Rightarrow> json \<Rightarrow> json \<Rightarrow> json" where
  "anthropic_chunk now usedModel data delta finish_reason =
     JObj [(''id'', js_or (get data ''id'') (JStr (''chatcmpl-'' @ digits now))),
           (''object'', JStr ''chat.completion.chunk''),
           (''created'', js_or (get data ''created'') (JNum (of_nat (now div 1000)))),
           (''model'', js_or (get data ''model'') (JStr usedModel)),
           (''choices'', JArr [JObj
              [(''index'', JNum 0), (''delta'', delta), (''finish_reason'', finish_reason)]]),
           (''usage'', js_or (get data ''usage'') JNull)]"

definition google_chunk :: "nat \<Rightarrow> string \<Rightarrow> json \<Rightarrow> json \<Rightarrow> json \<Rightarrow> json" where
  "google_chunk now usedModel data delta finish_reason =
     JObj [(''id'', JStr (''chatcmpl-'' @ digits now)),
           (''object'', JStr ''chat.completion.chunk''),
           (''created'', JNum (of_nat (now div 1000))),
           (''model'', JStr usedModel),
           (''choices'', JArr [JObj
              [(''index'', JNum 0), (''delta'', delta), (''finish_reason'', finish_reason)]]),
           (''usage'',
              (if truthy (get data ''usageMetadata'')
                  \<and> truthy (get (get data ''usageMetadata'') ''candidatesTokenCount'')
               then JObj
                 [(''prompt_tokens'',
                     js_or (get (get data ''usageMetadata'') ''promptTokenCount'') (JNum 0)),
                  (''completion_tokens'', get (get data ''usageMetadata'') ''candidatesTokenCount''),
                  (''total_tokens'',
                     js_or (get (get data ''usageMetadata'') ''totalTokenCount'') (JNum 0))]
               else JNull))]"

text \<open>The callback of \<open>data.choices?.map\<close> in the default case.\<close>

definition map_choice :: "json \<Rightarrow> json option" where
  "map_choice choice =
     (if choice = JNull \<or> choice = JUndefined then None
      else Some (spread_with choice ''delta''
        (if truthy (get choice ''delta'')
         then spread_with (get choice ''delta'') ''role''
                (js_or (get (get choice ''delta'') ''role'') (JStr ''assistant''))
         else get choice ''delta'')))"

definition transformStreamingChunkToOpenAIFormat ::
  "nat \<Rightarrow> string \<Rightarrow> string \<Rightarrow> json \<Rightarrow> json option" where
  "transformStreamingChunkToOpenAIFormat now usedProvider usedModel data =
     (if data = JNull \<or> data = JUndefined then None
      else if usedProvider = ''anthropic'' then
        (if get data ''type'' = JStr ''content_block_delta''
            \<and> truthy (get (get data ''delta'') ''text'') then
           Some (anthropic_chunk now usedModel data
             (JObj [(''content'', get (get data ''delta'') ''text''),
                    (''role'', JStr ''assistant'')])
             JNull)
         else if get data ''type'' = JStr ''content_block_start''
            \<and> get (get data ''content_block'') ''type'' = JStr ''tool_use'' then
           Some (anthropic_chunk now usedModel data
             (JObj [(''tool_calls'', JArr [JObj
                      [(''index'', js_or (get data ''index'') (JNum 0)),
                       (''id'', get (get data ''content_block'') ''id''),
                       (''type'', JStr ''function''),
                       (''function'', JObj
                          [(''name'', get (get data ''content_block'') ''name''),
                           (''arguments'', JStr [])])]]),
                    (''role'', JStr ''assistant'')])
             JNull)
         else if get data ''type'' = JStr ''content_block_delta''
            \<and> truthy (get (get data ''delta'') ''partial_json'') then
           Some (anthropic_chunk now usedModel data
             (JObj [(''tool_calls'', JArr [JObj
                      [(''index'', js_or (get data ''index'') (JNum 0)),
                       (''function'', JObj
                          [(''arguments'', get (get data ''delta'') ''partial_json'')])]]),
                    (''role'', JStr ''assistant'')])
             JNull)
         else if get data ''type'' = JStr ''message_delta''
            \<and> truthy (get (get data ''delta'') ''stop_reason'') then
           map_option
             (anthropic_chunk now usedModel data (JObj [(''role'', JStr ''assistant'')]))
             (anthropic_stop (get (get data ''delta'') ''stop_reason''))
         else if get data ''type'' = JStr ''message_stop'' \<or> truthy (get data ''stop_reason'') then
           map_option
             (anthropic_chunk now usedModel data (JObj [(''role'', JStr ''assistant'')]))
             (anthropic_stop (js_or (get data ''stop_reason'') (JStr ''end_turn'')))
         else if truthy (get (get data ''delta'') ''text'') then
           Some (anthropic_chunk now usedModel data
             (JObj [(''content'', get (get data ''delta'') ''text''),
                    (''role'', JStr ''assistant'')])
             JNull)
         else
           Some (anthropic_chunk now usedModel data (JObj [(''role'', JStr ''assistant'')]) JNull))
      else if is_google usedProvider then
        (if truthy (get (elem (get (get (elem (get data ''candidates'') 0) ''content'') ''parts'') 0)
                      ''text'') then
           Some (google_chunk now usedModel data
             (JObj [(''content'',
                       get (elem (get (get (elem (get data ''candidates'') 0) ''content'') ''parts'') 0)
                         ''text''),
                    (''role'', JStr ''assistant'')])
             JNull)
         else if truthy (get (elem (get data ''candidates'') 0) ''finishReason'') then
           map_option
             (google_chunk now usedModel data (JObj [(''role'', JStr ''assistant'')]))
             (google_stop (get (elem (get data ''candidates'') 0) ''finishReason''))
         else Some data)
      else
        (if truthy (get data ''id'') \<and> truthy (get data ''object'') then
           (case get data ''choices'' of
              JArr choices \<Rightarrow>
                map_option (\<lambda>cs. spread_with data ''choices'' (JArr cs))
                  (those (map map_choice choices))
            | JUndefined \<Rightarrow> Some (spread_with data ''choices'' JUndefined)
            | JNull \<Rightarrow> Some (spread_with data ''choices'' JNull)
            | _ \<Rightarrow> None)
         else
           Some (JObj
             [(''id'', js_or (get data ''id'') (JStr (''chatcmpl-'' @ digits now))),
              (''object'', JStr ''chat.completion.chunk''),
              (''created'', js_or (get data ''created'') (JNum (of_nat (now div 1000)))),
              (''model'', js_or (get data ''model'') (JStr usedModel)),
              (''choices'', js_or (get data ''choices'') (JArr [JObj
                 [(''index'', JNum 0),
                  (''delta'',
                     (if truthy (get data ''delta'')
                      then spread_with (get data ''delta'') ''role'' (JStr ''assistant'')
                      else JObj [(''content'', js_or (get data ''content'') (JStr [])),
                                 (''tool_calls'', js_or (get data ''tool_calls'') JNull),
                                 (''role'', JStr ''assistant'')])),
                  (''finish_reason'', js_or (get data ''finish_reason'') JNull)]])),
              (''usage'', js_or (get data ''usage'') JNull)])))"

section \<open>The chat-completions handler\<close>

subsection \<open>Catalog, database rows and the request\<close>

text \<open>
  The catalog tables \<open>models\<close> and \<open>providers\<close> and the database are not part of the handler;
  they are fields of the environment. Record fields carry a prefix (\<open>md_\<close>, \<open>pm_\<close>, \<open>pj_\<close>, ...)
  in front of the source's property name. Dates are milliseconds since the epoch.
\<close>

record provider_mapping =
  pm_providerId :: string
  pm_modelName :: string
  pm_maxOutput :: "rat option"
  pm_streaming :: bool
  pm_reasoning :: "bool option"

record model_def =
  md_id :: string
  md_providers :: "provider_mapping list"
  md_jsonOutput :: "bool option"
  md_deprecatedAt :: "nat option"
  md_deactivatedAt :: "nat option"

record provider_def =
  pv_id :: string
  pv_cancellation :: "bool option"

record project =
  pj_id :: string
  pj_organizationId :: string
  pj_mode :: string

record api_key =
  ak_id :: string
  ak_token :: string
  ak_projectId :: string
  ak_status :: string

record provider_key =
  pk_id :: string
  pk_organizationId :: string
  pk_provider :: string
  pk_name :: "string option"
  pk_token :: string
  pk_baseUrl :: "string option"
  pk_status :: string

record organization =
  org_id :: string
  org_credits :: rat
  org_retentionLevel :: string
  org_autoTopUpEnabled :: bool
  org_autoTopUpThreshold :: "rat option"
  org_autoTopUpAmount :: "rat option"
  org_plan :: string
  org_stripeCustomerId :: "string option"

text \<open>The validated JSON body and the headers of a request.\<close>

record request =
  rq_headers :: "(string \<times> string) list"
  rq_model :: string
  rq_messages :: "message list"
  rq_temperature :: "rat option"
  rq_max_tokens :: "rat option"
  rq_top_p :: "rat option"
  rq_frequency_penalty :: "rat option"
  rq_presence_penalty :: "rat option"
  rq_response_format :: "string option"
  rq_stream :: bool
  rq_tools :: json
  rq_tool_choice :: json
  rq_reasoning_effort :: "string option"

text \<open>\<open>s.startsWith(p)\<close>, \<open>s.split(sep)\<close> for a non-empty separator, and \<open>xs.join(sep)\<close>.\<close>

definition startsWith :: "string \<Rightarrow> string \<Rightarrow> bool" where
  "startsWith s p = (take (length p) s = p)"

function split_from :: "string \<Rightarrow> string \<Rightarrow> string \<Rightarrow> string list" where
  "split_from sep acc [] = [acc]"
| "split_from sep acc (c # cs) =
     (if sep \<noteq> [] \<and> startsWith (c # cs) sep
      then acc # split_from sep [] (drop (length sep) (c # cs))
      else split_from sep (acc @ [c]) cs)"
  by pat_completeness auto
termination
  by (relation "measure (\<lambda>(sep, acc, s). length s)") auto

definition split :: "string \<Rightarrow> string \<Rightarrow> string list" where
  "split s sep = split_from sep [] s"

fun join :: "string list \<Rightarrow> string \<Rightarrow> string" where
  "join [] sep = []"
| "join [x] sep = x"
| "join (x # y # ys) sep = x @ sep @ join (y # ys) sep"

text \<open>
  The headers of a request. \<open>rq_headers\<close> holds the header lines as they were received;
  the handler reads them through the platform's \<open>Headers\<close> object, whose iteration
  (\<open>entries\<close>) gives every name once, in lower case and in the order of the code units,
  with the values of the lines of that name joined by a comma and a space.
  \<open>c.req.header(name)\<close> is \<open>get\<close> on that object, which does not regard the case of the name.
\<close>

fun str_less :: "string \<Rightarrow> string \<Rightarrow> bool" where
  "str_less [] [] = False"
| "str_less [] (d # ds) = True"
| "str_less (c # cs) [] = False"
| "str_less (c # cs) (d # ds) =
     ((of_char c :: nat) < of_char d \<or> (c = d \<and> str_less cs ds))"

fun insert_name :: "string \<Rightarrow> string list \<Rightarrow> string list" where
  "insert_name n [] = [n]"
| "insert_name n (m # ms) =
     (if n = m then m # ms
      else if str_less n m then n # m # ms
      else m # insert_name n ms)"

definition entries :: "(string \<times> string) list \<Rightarrow> (string \<times> string) list" where
  "entries lines =
     map (\<lambda>n. (n, join (map snd (filter (\<lambda>(k, v). toLowerCase k = n) lines)) '', ''))
       (foldr insert_name (map (\<lambda>(k, v). toLowerCase k) lines) [])"

definition header :: "request \<Rightarrow> string \<Rightarrow> string option" where
  "header rq n = map_of (entries (rq_headers rq)) (toLowerCase n)"

text \<open>\<open>extractCustomHeaders\<close>, a loop over \<open>headers.entries()\<close>.\<close>

definition extractCustomHeaders :: "request \<Rightarrow> (string \<times> string) list" where
  "extractCustomHeaders rq =
     foldl (\<lambda>customHeaders (key, v).
              if startsWith (toLowerCase key) ''x-llmgateway-''
              then AList.update (drop (length ''x-llmgateway-'') (toLowerCase key)) v customHeaders
              else customHeaders)
       [] (entries (rq_headers rq))"

text \<open>
  A thrown \<open>HTTPException(status, {message})\<close>. A stage of the handler returns the
  exception (\<open>Inl\<close>) or its result (\<open>Inr\<close>).
\<close>

datatype http_exception = HTTPException nat string

definition bind :: "http_exception + 'a \<Rightarrow> ('a \<Rightarrow> http_exception + 'b) \<Rightarrow> http_exception + 'b" where
  "bind x f = (case x of Inl e \<Rightarrow> Inl e | Inr v \<Rightarrow> f v)"

subsection \<open>Resolving the requested model\<close>

text \<open>
  The first block of the handler: from \<open>modelInput\<close> to \<open>requestedModel\<close>,
  \<open>requestedProvider\<close> and \<open>customProviderName\<close>.
\<close>

record requested =
  rs_requestedModel :: string
  rs_requestedProvider :: "string option"
  rs_customProviderName :: "string option"

definition resolve_requested ::
  "model_def list \<Rightarrow> provider_def list \<Rightarrow> string \<Rightarrow> http_exception + requested" where
  "resolve_requested models providers modelInput =
     (if modelInput = ''auto'' \<or> modelInput = ''custom'' then
        Inr \<lparr>rs_requestedModel = modelInput, rs_requestedProvider = Some ''llmgateway'',
             rs_customProviderName = None\<rparr>
      else if CHR ''/'' \<in> set modelInput then
        (let providerCandidate = hd (split modelInput ''/'');
             modelName = join (tl (split modelInput ''/'')) ''/''
         in case find (\<lambda>p. pv_id p = providerCandidate) providers of
              None \<Rightarrow>
                Inr \<lparr>rs_requestedModel = modelName, rs_requestedProvider = Some ''custom'',
                     rs_customProviderName = Some providerCandidate\<rparr>
            | Some knownProvider \<Rightarrow>
                (if providerCandidate = ''custom'' then
                   Inr \<lparr>rs_requestedModel = modelName, rs_requestedProvider = Some ''custom'',
                        rs_customProviderName = None\<rparr>
                 else
                   (case (case find (\<lambda>m. md_id m = modelName) models of
                            Some m \<Rightarrow> Some m
                          | None \<Rightarrow>
                              find (\<lambda>m. list_ex (\<lambda>p. pm_modelName p = modelName
                                                    \<and> pm_providerId p = providerCandidate)
                                            (md_providers m)) models) of
                      None \<Rightarrow>
                        Inl (HTTPException 400
                               (''Requested model '' @ modelName @ '' not supported''))
                    | Some modelDef \<Rightarrow>
                        (case find (\<lambda>p. pm_providerId p = providerCandidate)
                                (md_providers modelDef) of
                           None \<Rightarrow>
                             Inl (HTTPException 400
                                    (''Provider '' @ providerCandidate
                                      @ '' does not support model '' @ modelName))
                         | Some providerMapping \<Rightarrow>
                             Inr \<lparr>rs_requestedModel = pm_modelName providerMapping,
                                  rs_requestedProvider = Some providerCandidate,
                                  rs_customProviderName = None\<rparr>))))
      else if find (\<lambda>m. md_id m = modelInput) models \<noteq> None then
        Inr \<lparr>rs_requestedModel = modelInput, rs_requestedProvider = None, rs_customProviderName = None\<rparr>
      else
        (case find (\<lambda>m. list_ex (\<lambda>p. pm_modelName p = modelInput) (md_providers m)) models of
           Some model \<Rightarrow>
             Inl (HTTPException 400
                    (''Model '' @ modelInput
                      @ '' must be requested with a provider prefix. Use the format: ''
                      @ (case find (\<lambda>p. pm_modelName p = modelInput) (md_providers model) of
                           Some provider \<Rightarrow> pm_providerId provider
                         | None \<Rightarrow> ''undefined'')
                      @ ''/'' @ md_id model))
         | None \<Rightarrow>
             Inl (HTTPException 400 (''Requested model '' @ modelInput @ '' not supported''))))"

text \<open>\<open>requestedProvider && requestedProvider !== "custom" && !providers.find(...)\<close>\<close>

definition check_provider :: "provider_def list \<Rightarrow> requested \<Rightarrow> http_exception + requested" where
  "check_provider providers r =
     (case rs_requestedProvider r of
        None \<Rightarrow> Inr r
      | Some p \<Rightarrow>
          (if p \<noteq> [] \<and> p \<noteq> ''custom'' \<and> find (\<lambda>q. pv_id q = p) providers = None
           then Inl (HTTPException 400 (''Requested provider '' @ p @ '' not supported''))
           else Inr r))"

text \<open>The mock model of a custom provider, and \<open>modelInfo\<close>.\<close>

definition custom_model :: "string \<Rightarrow> model_def" where
  "custom_model m =
     \<lparr>md_id = m,
      md_providers = [\<lparr>pm_providerId = ''custom'', pm_modelName = m, pm_maxOutput = Some 4096,
                       pm_streaming = True, pm_reasoning = None\<rparr>],
      md_jsonOutput = Some True, md_deprecatedAt = None, md_deactivatedAt = None\<rparr>"

definition find_modelInfo :: "model_def list \<Rightarrow> requested \<Rightarrow> http_exception + model_def" where
  "find_modelInfo models r =
     (if rs_requestedProvider r = Some ''custom'' then Inr (custom_model (rs_requestedModel r))
      else
        (case (case find (\<lambda>m. md_id m = rs_requestedModel r) models of
                 Some m \<Rightarrow> Some m
               | None \<Rightarrow>
                   find (\<lambda>m. find (\<lambda>p. pm_modelName p = rs_requestedModel r) (md_providers m) \<noteq> None)
                     models) of
           None \<Rightarrow> Inl (HTTPException 400 (''Unsupported model: '' @ rs_requestedModel r))
         | Some modelInfo \<Rightarrow> Inr modelInfo))"

text \<open>The gates on the model: deactivation, JSON output mode and reasoning effort.\<close>

definition check_model ::
  "nat \<Rightarrow> request \<Rightarrow> requested \<Rightarrow> model_def \<Rightarrow> http_exception + model_def" where
  "check_model now rq r modelInfo =
     (if (case md_deactivatedAt modelInfo of None \<Rightarrow> False | Some t \<Rightarrow> now > t) then
        Inl (HTTPException 410
               (''Model '' @ rs_requestedModel r
                 @ '' has been deactivated and is no longer available''))
      else if rq_response_format rq = Some ''json_object''
              \<and> md_jsonOutput modelInfo \<noteq> Some True then
        Inl (HTTPException 400
               (''Model '' @ rs_requestedModel r @ '' does not support JSON output mode''))
      else if rq_reasoning_effort rq \<noteq> None
              \<and> \<not> list_ex (\<lambda>provider. pm_reasoning provider = Some True)
                    (md_providers modelInfo) then
        Inl (HTTPException 400
               (''Model '' @ rs_requestedModel r
                 @ '' does not support reasoning. Remove the reasoning_effort parameter or use a reasoning-capable model.''))
      else Inr modelInfo)"

subsection \<open>Authentication\<close>

text \<open>
  The \<open>Authorization\<close> header is read after the model checks. The key is looked up by its
  token alone (\<open>findFirst\<close> with \<open>token: {eq: token}\<close>).
\<close>

definition authenticate :: "api_key list \<Rightarrow> request \<Rightarrow> http_exception + api_key" where
  "authenticate apiKeys rq =
     (case header rq ''Authorization'' of
        None \<Rightarrow>
          Inl (HTTPException 401
                 (''Unauthorized: No Authorization header provided. Expected '' @ [CHR 0x27]
                   @ ''Bearer your-api-token'' @ [CHR 0x27]))
      | Some auth \<Rightarrow>
          (if auth = [] then
             Inl (HTTPException 401
                 (''Unauthorized: No Authorization header provided. Expected '' @ [CHR 0x27]
                   @ ''Bearer your-api-token'' @ [CHR 0x27]))
           else if length (split auth ''Bearer '') \<noteq> 2 then
             Inl (HTTPException 401
                 (''Unauthorized: Invalid Authorization header format. Expected '' @ [CHR 0x27]
                   @ ''Bearer your-api-token'' @ [CHR 0x27]))
           else if split auth ''Bearer '' ! 1 = [] then
             Inl (HTTPException 401 ''Unauthorized: No token provided'')
           else
             (case find (\<lambda>k. ak_token k = split auth ''Bearer '' ! 1) apiKeys of
                None \<Rightarrow>
                  Inl (HTTPException 401
                         (''Unauthorized: Invalid LLMGateway API token. Please make sure the token is not deleted or disabled. Go to the LLMGateway ''
                           @ [CHR 0x27] @ ''API Keys'' @ [CHR 0x27] @ '' page to generate a new token.''))
              | Some apiKey \<Rightarrow> Inr apiKey)))"

subsection \<open>Log rows\<close>

text \<open>
  \<open>createLogEntry\<close> builds the common part of a log row; each call of \<open>insertLog\<close> adds the
  rest. Values taken from an upstream or cached JSON document stay \<^typ>\<open>json\<close>
  (\<open>JNull\<close> is \<open>null\<close>, \<open>JUndefined\<close> a property that the call does not set). The row's
  \<open>toolCalls\<close> property is left out of the model.
\<close>

record log_entry =
  lg_requestId :: string
  lg_organizationId :: string
  lg_projectId :: string
  lg_apiKeyId :: string
  lg_usedMode :: string
  lg_usedModel :: string
  lg_usedProvider :: string
  lg_requestedModel :: string
  lg_requestedProvider :: "string option"
  lg_messages :: "message list option"
  lg_temperature :: "rat option"
  lg_maxTokens :: "rat option"
  lg_topP :: "rat option"
  lg_frequencyPenalty :: "rat option"
  lg_presencePenalty :: "rat option"
  lg_customHeaders :: "(string \<times> string) list option"
  lg_mode :: string

record log_row = log_entry +
  lg_duration :: nat
  lg_responseSize :: nat
  lg_content :: json
  lg_reasoningContent :: json
  lg_finishReason :: json
  lg_promptTokens :: json
  lg_completionTokens :: json
  lg_totalTokens :: json
  lg_reasoningTokens :: json
  lg_cachedTokens :: json
  lg_hasError :: bool
  lg_streamed :: bool
  lg_canceled :: bool
  lg_errorDetails :: json
  lg_inputCost :: "rat option"
  lg_outputCost :: "rat option"
  lg_cachedInputCost :: "rat option"
  lg_requestCost :: "rat option"
  lg_cost :: "rat option"
  lg_estimatedCost :: bool
  lg_cached :: bool

text \<open>\<open>x || null\<close> for an optional number.\<close>

definition num_or_null :: "rat option \<Rightarrow> rat option" where
  "num_or_null x = (if falsy_num x then None else x)"

definition createLogEntry ::
  "string \<Rightarrow> project \<Rightarrow> api_key \<Rightarrow> string option \<Rightarrow> string \<Rightarrow> string \<Rightarrow> string
    \<Rightarrow> string option \<Rightarrow> message list \<Rightarrow> rat option \<Rightarrow> rat option \<Rightarrow> rat option \<Rightarrow> rat option
    \<Rightarrow> rat option \<Rightarrow> (string \<times> string) list \<Rightarrow> log_entry" where
  "createLogEntry requestId project apiKey providerKeyId usedModel usedProvider requestedModel
       requestedProvider messages temperature max_tokens top_p frequency_penalty presence_penalty
       customHeaders =
     \<lparr>lg_requestId = requestId,
      lg_organizationId = pj_organizationId project,
      lg_projectId = ak_projectId apiKey,
      lg_apiKeyId = ak_id apiKey,
      lg_usedMode =
        (case providerKeyId of
           None \<Rightarrow> ''credits''
         | Some i \<Rightarrow> (if i = [] then ''credits'' else ''api-keys'')),
      lg_usedModel = usedModel,
      lg_usedProvider = usedProvider,
      lg_requestedModel = requestedModel,
      lg_requestedProvider = requestedProvider,
      lg_messages = Some messages,
      lg_temperature = num_or_null temperature,
      lg_maxTokens = num_or_null max_tokens,
      lg_topP = num_or_null top_p,
      lg_frequencyPenalty = num_or_null frequency_penalty,
      lg_presencePenalty = num_or_null presence_penalty,
      lg_customHeaders = (if length customHeaders > 0 then Some customHeaders else None),
      lg_mode = pj_mode project\<rparr>"

subsection \<open>The database and the environment\<close>

record transaction_row =
  tx_id :: nat
  tx_organizationId :: string
  tx_type :: string
  tx_creditAmount :: rat
  tx_amount :: rat
  tx_status :: string
  tx_description :: string
  tx_stripePaymentIntentId :: "string option"
  tx_createdAt :: nat

record payment_method =
  pmt_organizationId :: string
  pmt_isDefault :: bool
  pmt_stripePaymentMethodId :: string

record lock_row =
  lock_key :: string
  lock_updatedAt :: nat

record database =
  db_apiKey :: "api_key list"
  db_project :: "project list"
  db_providerKey :: "provider_key list"
  db_organization :: "organization list"
  db_log :: "log_row list"
  db_transaction :: "transaction_row list"
  db_paymentMethod :: "payment_method list"
  db_lock :: "lock_row list"

text \<open>
  Modelled from the spec: the helpers of \<open>lib/cache\<close>, which are not among the sources. The
  spec names projects, organizations and provider keys as records found by their ids, a
  provider key by organization and provider ("must find a stored key for this org+provider
  (or org+customName)"), and counts a stored key as available when it is active.
\<close>

definition getProject :: "database \<Rightarrow> string \<Rightarrow> project option" where
  "getProject db i = find (\<lambda>p. pj_id p = i) (db_project db)"

definition getOrganization :: "database \<Rightarrow> string \<Rightarrow> organization option" where
  "getOrganization db i = find (\<lambda>p. org_id p = i) (db_organization db)"

definition getProviderKey :: "database \<Rightarrow> string \<Rightarrow> string \<Rightarrow> provider_key option" where
  "getProviderKey db organizationId provider =
     find (\<lambda>k. pk_status k = ''active'' \<and> pk_organizationId k = organizationId
               \<and> pk_provider k = provider) (db_providerKey db)"

definition getCustomProviderKey :: "database \<Rightarrow> string \<Rightarrow> string \<Rightarrow> provider_key option" where
  "getCustomProviderKey db organizationId n =
     find (\<lambda>k. pk_status k = ''active'' \<and> pk_organizationId k = organizationId
               \<and> pk_provider k = ''custom'' \<and> pk_name k = Some n) (db_providerKey db)"

definition checkCustomProviderExists :: "database \<Rightarrow> string \<Rightarrow> string \<Rightarrow> bool" where
  "checkCustomProviderExists db organizationId n =
     (getCustomProviderKey db organizationId n \<noteq> None)"

text \<open>A function of another module that may throw: \<open>Throws\<close> or the value it returns.\<close>

datatype 'a js_result = Throws | Returns 'a

record costs =
  inputCost :: "rat option"
  outputCost :: "rat option"
  cachedInputCost :: "rat option"
  requestCost :: "rat option"
  totalCost :: "rat option"
  estimatedCost :: bool

record cache_input =
  ci_model :: string
  ci_messages :: "message list"
  ci_temperature :: "rat option"
  ci_max_tokens :: "rat option"
  ci_top_p :: "rat option"
  ci_frequency_penalty :: "rat option"
  ci_presence_penalty :: "rat option"
  ci_response_format :: "string option"

text \<open>
  What \<open>fetch\<close> does: it throws an \<open>AbortError\<close>, throws another error, or returns a
  response. A response body that is read as a stream is the list of its chunks and how
  the reading ends.
\<close>

datatype stream_end = EndOfStream | ReadAborted | ReadFailed

record upstream_response =
  res_status :: nat
  res_statusText :: string
  res_text :: string
  res_json :: "json option"
  res_body :: "(string list \<times> stream_end) option"

datatype fetch_result = AbortError | FetchError | Response upstream_response

text \<open>
  The environment of a request: the catalog, the database, the process environment, the
  clock, and the functions the handler imports from modules that are not among the
  sources (each a parameter). \<open>env_now\<close> is \<open>Date.now()\<close> and \<open>env_elapsed\<close> the
  difference \<open>Date.now() - startTime\<close> when a log row is written. \<open>env_toString\<close> is the
  built-in \<open>toString\<close> of a number, and \<open>env_JSON_parse\<close>, \<open>env_JSON_stringify_length\<close> are
  \<open>JSON.parse\<close> (\<open>None\<close>: it throws) and the length of \<open>JSON.stringify\<close>.
\<close>

record env =
  env_models :: "model_def list"
  env_providers :: "provider_def list"
  env_db :: database
  env_now :: nat
  env_elapsed :: nat
  env_shortid :: string
  env_hasProviderEnvironmentToken :: "string \<Rightarrow> bool"
  env_getProviderEnvVar :: "string \<Rightarrow> string option"
  env_process_env :: "string \<Rightarrow> string option"
  env_getCheapestFromAvailableProviders ::
    "provider_mapping list \<Rightarrow> model_def \<Rightarrow> provider_mapping option"
  env_getProviderEndpoint ::
    "string \<Rightarrow> string option \<Rightarrow> string \<Rightarrow> string option \<Rightarrow> string option js_result"
  env_getModelStreamingSupport :: "string \<Rightarrow> string \<Rightarrow> bool option"
  env_isCachingEnabled :: "string \<Rightarrow> bool \<times> nat"
  env_generateCacheKey :: "cache_input \<Rightarrow> string"
  env_getCache :: "string \<Rightarrow> json option"
  env_calculateCosts ::
    "string \<Rightarrow> string \<Rightarrow> rat option \<Rightarrow> rat option \<Rightarrow> rat option \<Rightarrow> message list
      \<Rightarrow> string option \<Rightarrow> costs"
  env_tokenizer :: tokenizer
  env_toString :: "rat \<Rightarrow> string"
  env_JSON_parse :: "string \<Rightarrow> json option"
  env_JSON_stringify_length :: "json \<Rightarrow> nat"
  env_mistral_json :: "string \<Rightarrow> string"
  env_fetch :: "string \<Rightarrow> string \<Rightarrow> bool \<Rightarrow> fetch_result"

subsection \<open>Routing\<close>

text \<open>
  \<open>providers.filter((p) => p.id !== "llmgateway")
    .filter((p) => hasProviderEnvironmentToken(p.id)).map((p) => p.id)\<close>
\<close>

definition envProviders :: "env \<Rightarrow> string list" where
  "envProviders e =
     map pv_id (filter (\<lambda>p. env_hasProviderEnvironmentToken e (pv_id p))
                  (filter (\<lambda>p. pv_id p \<noteq> ''llmgateway'') (env_providers e)))"

text \<open>The providers of the organization's active provider keys.\<close>

definition databaseProviders :: "env \<Rightarrow> project \<Rightarrow> string list" where
  "databaseProviders e project =
     map pk_provider
       (filter (\<lambda>k. pk_status k = ''active'' \<and> pk_organizationId k = pj_organizationId project)
          (db_providerKey (env_db e)))"

text \<open>\<open>availableProviders\<close> of the \<open>auto\<close> branch, by project mode.\<close>

definition autoAvailableProviders :: "env \<Rightarrow> project \<Rightarrow> string list" where
  "autoAvailableProviders e project =
     (if pj_mode project = ''api-keys'' then databaseProviders e project
      else if pj_mode project = ''credits'' then envProviders e
      else if pj_mode project = ''hybrid'' then remdups (databaseProviders e project @ envProviders e)
      else [])"

definition deprecated :: "nat \<Rightarrow> model_def \<Rightarrow> bool" where
  "deprecated now modelDef =
     (case md_deprecatedAt modelDef of None \<Rightarrow> False | Some t \<Rightarrow> now > t)"

text \<open>
  The loop over the catalog in the \<open>auto\<close> branch stops at the first model that is not
  \<open>auto\<close> or \<open>custom\<close>, is not deprecated and has an available provider.
\<close>

definition autoCandidate :: "env \<Rightarrow> project \<Rightarrow> model_def \<Rightarrow> bool" where
  "autoCandidate e project modelDef =
     (\<not> (md_id modelDef = ''auto'' \<or> md_id modelDef = ''custom'')
      \<and> \<not> deprecated (env_now e) modelDef
      \<and> length (filter (\<lambda>provider. pm_providerId provider \<in> set (autoAvailableProviders e project))
                   (md_providers modelDef)) > 0)"

definition route_auto :: "env \<Rightarrow> project \<Rightarrow> string option \<Rightarrow> string \<Rightarrow> string option \<times> string" where
  "route_auto e project usedProvider usedModel =
     (let (p, m) =
            (case find (autoCandidate e project) (env_models e) of
               Some modelDef \<Rightarrow>
                 (let availableModelProviders =
                        filter (\<lambda>provider. pm_providerId provider
                                  \<in> set (autoAvailableProviders e project))
                          (md_providers modelDef)
                  in (Some (pm_providerId (hd availableModelProviders)),
                      pm_modelName (hd availableModelProviders)))
             | None \<Rightarrow> (usedProvider, usedModel))
      in if p = Some ''llmgateway'' \<or> p = None \<or> p = Some [] then (Some ''openai'', ''gpt-4o-mini'')
         else (p, m))"

text \<open>The branch for a model requested by its catalog id, without a provider.\<close>

definition route_model ::
  "env \<Rightarrow> project \<Rightarrow> model_def \<Rightarrow> string \<Rightarrow> http_exception + string option \<times> string" where
  "route_model e project modelInfo usedModel =
     (case md_providers modelInfo of
        [only] \<Rightarrow> Inr (Some (pm_providerId only), pm_modelName only)
      | _ \<Rightarrow>
          (let providerIds = map pm_providerId (md_providers modelInfo);
               providerKeys =
                 filter (\<lambda>k. pk_status k = ''active''
                            \<and> pk_organizationId k = pj_organizationId project
                            \<and> pk_provider k \<in> set providerIds)
                   (db_providerKey (env_db e));
               availableProviders =
                 (if pj_mode project = ''api-keys'' then map pk_provider providerKeys
                  else envProviders e);
               availableModelProviders =
                 filter (\<lambda>provider. pm_providerId provider \<in> set availableProviders)
                   (md_providers modelInfo)
           in case availableModelProviders of
                [] \<Rightarrow>
                  Inl (HTTPException 400
                         (if pj_mode project = ''api-keys''
                          then ''No provider key set for any of the providers that support model ''
                                 @ usedModel
                                 @ ''. Please add the provider key in the settings or switch the project mode to credits or hybrid.''
                          else ''No available provider could be found for model '' @ usedModel))
              | first # _ \<Rightarrow>
                  (case find (\<lambda>m. md_id m = usedModel) (env_models e) of
                     Some modelWithPricing \<Rightarrow>
                       (case env_getCheapestFromAvailableProviders e availableModelProviders
                               modelWithPricing of
                          Some cheapestResult \<Rightarrow>
                            Inr (Some (pm_providerId cheapestResult), pm_modelName cheapestResult)
                        | None \<Rightarrow> Inr (Some (pm_providerId first), pm_modelName first))
                   | None \<Rightarrow> Inr (Some (pm_providerId first), pm_modelName first))))"

text \<open>
  The routing block. \<open>usedProvider\<close> and \<open>usedModel\<close> start as the requested ones; the result
  is the provider and model to call, or the exception thrown.
\<close>

definition route ::
  "env \<Rightarrow> project \<Rightarrow> requested \<Rightarrow> model_def \<Rightarrow> http_exception + string \<times> string" where
  "route e project r modelInfo =
     bind
       (if rs_requestedModel r = ''auto'' then
          Inr (route_auto e project (rs_requestedProvider r) (rs_requestedModel r))
        else if rs_requestedModel r = ''custom'' then Inr (Some ''llmgateway'', ''custom'')
        else if rs_requestedProvider r = None \<or> rs_requestedProvider r = Some [] then
          route_model e project modelInfo (rs_requestedModel r)
        else Inr (rs_requestedProvider r, rs_requestedModel r))
       (\<lambda>(usedProvider, usedModel).
          case usedProvider of
            None \<Rightarrow> Inl (HTTPException 500 ''An error occurred while routing the request'')
          | Some p \<Rightarrow>
              (if p = [] then
                 Inl (HTTPException 500 ''An error occurred while routing the request'')
               else Inr (p, usedModel)))"

text \<open>\<open>finalModelInfo\<close> and \<open>baseModelName\<close>.\<close>

definition finalModelInfo :: "env \<Rightarrow> string \<Rightarrow> string \<Rightarrow> model_def option" where
  "finalModelInfo e usedProvider usedModel =
     (if usedProvider = ''custom''
      then Some ((custom_model usedModel)\<lparr>md_jsonOutput := None\<rparr>)
      else find (\<lambda>m. md_id m = usedModel
                   \<or> list_ex (\<lambda>p. pm_modelName p = usedModel) (md_providers m)) (env_models e))"

definition baseModelName :: "env \<Rightarrow> string \<Rightarrow> string \<Rightarrow> string" where
  "baseModelName e usedProvider usedModel =
     (case finalModelInfo e usedProvider usedModel of
        None \<Rightarrow> usedModel
      | Some m \<Rightarrow> (if md_id m = [] then usedModel else md_id m))"

subsection \<open>The upstream credential\<close>

definition getProviderTokenFromEnv :: "env \<Rightarrow> string \<Rightarrow> http_exception + string" where
  "getProviderTokenFromEnv e usedProvider =
     (case env_getProviderEnvVar e usedProvider of
        None \<Rightarrow>
          Inl (HTTPException 400 (''No environment variable set for provider: '' @ usedProvider))
      | Some envVar \<Rightarrow>
          (if envVar = [] then
             Inl (HTTPException 400 (''No environment variable set for provider: '' @ usedProvider))
           else
             (case env_process_env e envVar of
                None \<Rightarrow>
                  Inl (HTTPException 400
                         (''No API key set in environment for provider: '' @ usedProvider))
              | Some token \<Rightarrow>
                  (if token = [] then
                     Inl (HTTPException 400
                            (''No API key set in environment for provider: '' @ usedProvider))
                   else Inr token))))"

text \<open>The stored key of the used provider: the custom one when a custom name was given.\<close>

definition storedProviderKey :: "env \<Rightarrow> project \<Rightarrow> requested \<Rightarrow> string \<Rightarrow> provider_key option" where
  "storedProviderKey e project r usedProvider =
     (case rs_customProviderName r of
        Some n \<Rightarrow>
          (if usedProvider = ''custom'' \<and> n \<noteq> []
           then getCustomProviderKey (env_db e) (pj_organizationId project) n
           else getProviderKey (env_db e) (pj_organizationId project) usedProvider)
      | None \<Rightarrow> getProviderKey (env_db e) (pj_organizationId project) usedProvider)"

text \<open>
  The credential block: the provider key found (if any) and \<open>usedToken\<close>, by project mode.
\<close>

definition creditsToken :: "env \<Rightarrow> project \<Rightarrow> string \<Rightarrow> string \<Rightarrow> http_exception + string" where
  "creditsToken e project usedProvider insufficient =
     (case getOrganization (env_db e) (pj_organizationId project) of
        None \<Rightarrow> Inl (HTTPException 500 ''Could not find organization'')
      | Some organization \<Rightarrow>
          (if org_credits organization \<le> 0 then Inl (HTTPException 402 insufficient)
           else getProviderTokenFromEnv e usedProvider))"

definition resolve_credentials ::
  "env \<Rightarrow> project \<Rightarrow> requested \<Rightarrow> string \<Rightarrow> http_exception + provider_key option \<times> string" where
  "resolve_credentials e project r usedProvider =
     (if pj_mode project = ''credits'' \<and> usedProvider = ''custom'' then
        Inl (HTTPException 400
               ''Custom providers are not supported in credits mode. Please change your project settings to API keys or hybrid mode.'')
      else
        bind
          (if pj_mode project = ''api-keys'' then
             (case storedProviderKey e project r usedProvider of
                None \<Rightarrow>
                  Inl (HTTPException 400
                         (''No API key set for provider: ''
                           @ (case rs_customProviderName r of
                                Some n \<Rightarrow> (if usedProvider = ''custom'' \<and> n \<noteq> [] then n
                                           else usedProvider)
                              | None \<Rightarrow> usedProvider)
                           @ ''. Please add a provider key in your settings or add credits and switch to credits or hybrid mode.''))
              | Some providerKey \<Rightarrow> Inr (Some providerKey, pk_token providerKey))
           else if pj_mode project = ''credits'' then
             bind (creditsToken e project usedProvider ''Organization has insufficient credits'')
               (\<lambda>token. Inr (None, token))
           else if pj_mode project = ''hybrid'' then
             (case storedProviderKey e project r usedProvider of
                Some providerKey \<Rightarrow> Inr (Some providerKey, pk_token providerKey)
              | None \<Rightarrow>
                  bind (creditsToken e project usedProvider
                          ''No API key set for provider and organization has insufficient credits'')
                    (\<lambda>token. Inr (None, token)))
           else Inl (HTTPException 400 (''Invalid project mode: '' @ pj_mode project)))
          (\<lambda>(providerKey, usedToken).
             if usedToken = [] then Inl (HTTPException 500 ''No token'')
             else Inr (providerKey, usedToken)))"

text \<open>The upstream URL.\<close>

definition providerUrl ::
  "env \<Rightarrow> string \<Rightarrow> string \<Rightarrow> provider_key option \<Rightarrow> string \<Rightarrow> http_exception + string" where
  "providerUrl e usedProvider usedModel providerKey usedToken =
     (case env_getProviderEndpoint e usedProvider
             (case providerKey of
                None \<Rightarrow> None
              | Some k \<Rightarrow> (if pk_baseUrl k = Some [] then None else pk_baseUrl k))
             usedModel
             (if usedProvider = ''google-ai-studio'' then Some usedToken else None) of
        Throws \<Rightarrow>
          (if usedProvider = ''llmgateway'' \<and> usedModel \<noteq> ''custom'' then
             Inl (HTTPException 400
                    (''Invalid model: '' @ usedModel @ '' for provider: '' @ usedProvider))
           else Inl (HTTPException 500 (''Could not use provider: '' @ usedProvider @ ''. '')))
      | Returns None \<Rightarrow>
          Inl (HTTPException 400
                 (''No base URL set for provider: '' @ usedProvider
                   @ ''. Please add a base URL in your settings.''))
      | Returns (Some url) \<Rightarrow>
          (if url = [] then
             Inl (HTTPException 400
                    (''No base URL set for provider: '' @ usedProvider
                      @ ''. Please add a base URL in your settings.''))
           else Inr url))"

subsection \<open>From the request to the point of the cache lookup\<close>

text \<open>
  Everything the handler has established when it reaches the cache lookup. The stages run
  in the order of the source: model resolution and model gates, authentication, project,
  custom provider, routing, credential, URL. The first exception thrown ends the request.
\<close>

record routed =
  cx_requestId :: string
  cx_customHeaders :: "(string \<times> string) list"
  cx_requested :: requested
  cx_modelInfo :: model_def
  cx_apiKey :: api_key
  cx_project :: project
  cx_usedProvider :: string
  cx_usedModel :: string
  cx_providerKey :: "provider_key option"
  cx_usedToken :: string
  cx_url :: string

definition validate_model :: "env \<Rightarrow> request \<Rightarrow> http_exception + requested \<times> model_def" where
  "validate_model e rq =
     bind (resolve_requested (env_models e) (env_providers e) (rq_model rq)) (\<lambda>r0.
     bind (check_provider (env_providers e) r0) (\<lambda>r.
     bind (find_modelInfo (env_models e) r) (\<lambda>modelInfo0.
     bind (check_model (env_now e) rq r modelInfo0) (\<lambda>modelInfo.
     Inr (r, modelInfo)))))"

definition load_project :: "env \<Rightarrow> requested \<Rightarrow> api_key \<Rightarrow> http_exception + project" where
  "load_project e r apiKey =
     (case getProject (env_db e) (ak_projectId apiKey) of
        None \<Rightarrow> Inl (HTTPException 500 ''Could not find project'')
      | Some project \<Rightarrow>
          (case rs_customProviderName r of
             None \<Rightarrow> Inr project
           | Some n \<Rightarrow>
               (if rs_requestedProvider r = Some ''custom'' \<and> n \<noteq> []
                   \<and> \<not> checkCustomProviderExists (env_db e) (pj_organizationId project) n
                then Inl (HTTPException 400 (''Provider '' @ [CHR 0x27] @ n @ [CHR 0x27]
                                               @ '' not found.''))
                else Inr project)))"

definition prepare :: "env \<Rightarrow> request \<Rightarrow> http_exception + routed" where
  "prepare e rq =
     bind (validate_model e rq) (\<lambda>(r, modelInfo).
     bind (authenticate (db_apiKey (env_db e)) rq) (\<lambda>apiKey.
     bind (load_project e r apiKey) (\<lambda>project.
     bind (route e project r modelInfo) (\<lambda>(usedProvider, usedModel).
     bind (resolve_credentials e project r usedProvider) (\<lambda>(providerKey, usedToken).
     bind (providerUrl e usedProvider usedModel providerKey usedToken) (\<lambda>url.
     Inr \<lparr>cx_requestId =
            (case header rq ''x-request-id'' of
               None \<Rightarrow> env_shortid e
             | Some i \<Rightarrow> (if i = [] then env_shortid e else i)),
          cx_customHeaders = extractCustomHeaders rq,
          cx_requested = r, cx_modelInfo = modelInfo, cx_apiKey = apiKey,
          cx_project = project, cx_usedProvider = usedProvider, cx_usedModel = usedModel,
          cx_providerKey = providerKey, cx_usedToken = usedToken, cx_url = url\<rparr>))))))"

subsection \<open>Reading an upstream response\<close>

text \<open>
  Upstream documents are \<open>any\<close> in the source. Where the source goes on to treat a value
  as a number or a string (\<open>estimateTokens\<close>, \<open>calculateCosts\<close>, \<open>fullContent +=\<close>), the model
  reads it with \<open>as_num\<close> or \<open>as_str\<close>: upstream fields are taken to have the types the
  providers document.
\<close>

fun as_num :: "json \<Rightarrow> rat option" where
  "as_num (JNum n) = (if n = 0 then None else Some n)"
| "as_num _ = None"

fun as_str :: "json \<Rightarrow> string option" where
  "as_str (JStr s) = (if s = [] then None else Some s)"
| "as_str _ = None"

text \<open>\<open>a + b\<close> for two numbers.\<close>

fun js_add :: "json \<Rightarrow> json \<Rightarrow> json" where
  "js_add (JNum a) (JNum b) = JNum (a + b)"
| "js_add _ _ = JUndefined"

text \<open>\<open>x || 0\<close> for an optional number.\<close>

definition or0 :: "rat option \<Rightarrow> rat" where
  "or0 x = (case x of None \<Rightarrow> 0 | Some v \<Rightarrow> v)"

fun str_includes :: "string \<Rightarrow> string \<Rightarrow> bool" where
  "str_includes [] sub = (sub = [])"
| "str_includes (c # cs) sub = (startsWith (c # cs) sub \<or> str_includes cs sub)"

definition getFinishReasonForError :: "nat \<Rightarrow> string" where
  "getFinishReasonForError statusCode =
     (if statusCode \<ge> 500 then ''upstream_error'' else ''gateway_error'')"

record parsed_response =
  pr_content :: json
  pr_reasoningContent :: json
  pr_finishReason :: json
  pr_promptTokens :: json
  pr_completionTokens :: json
  pr_totalTokens :: json
  pr_reasoningTokens :: json
  pr_cachedTokens :: json
  pr_toolCalls :: json

text \<open>
  \<open>parseProviderResponse\<close>. Every branch begins by reading a property of \<open>json\<close> itself
  (\<open>json.content\<close>, \<open>json.candidates\<close>, \<open>json.choices\<close>), which is a \<open>TypeError\<close> when the
  body is \<open>null\<close>: the result \<open>None\<close>. All further reads are guarded by \<open>?.\<close>. The
  regular-expression match and the JSON round trip of the Mistral case are the parameter
  \<open>mistral_json\<close>.
\<close>

definition parseProviderResponse ::
  "(string \<Rightarrow> string) \<Rightarrow> string \<Rightarrow> json \<Rightarrow> parsed_response option" where
  "parseProviderResponse mistral_json usedProvider json =
     (if json = JNull \<or> json = JUndefined then None
      else Some
     (if usedProvider = ''anthropic'' then
        \<lparr>pr_content = js_or (get (elem (get json ''content'') 0) ''text'') JNull,
         pr_reasoningContent = JNull,
         pr_finishReason = js_or (get json ''stop_reason'') JNull,
         pr_promptTokens = js_or (get (get json ''usage'') ''input_tokens'') JNull,
         pr_completionTokens = js_or (get (get json ''usage'') ''output_tokens'') JNull,
         pr_totalTokens =
           (if truthy (get (get json ''usage'') ''input_tokens'')
               \<and> truthy (get (get json ''usage'') ''output_tokens'')
            then js_add (get (get json ''usage'') ''input_tokens'')
                   (get (get json ''usage'') ''output_tokens'')
            else JNull),
         pr_reasoningTokens = js_or (get (get json ''usage'') ''reasoning_output_tokens'') JNull,
         pr_cachedTokens = js_or (get (get json ''usage'') ''cache_read_input_tokens'') JNull,
         pr_toolCalls = JNull\<rparr>
      else if is_google usedProvider then
        (let promptTokens = js_or (get (get json ''usageMetadata'') ''promptTokenCount'') JNull;
             completionTokens =
               js_or (get (get json ''usageMetadata'') ''candidatesTokenCount'') JNull
         in \<lparr>pr_content =
               js_or (get (elem (get (get (elem (get json ''candidates'') 0) ''content'') ''parts'') 0)
                        ''text'') JNull,
             pr_reasoningContent = JNull,
             pr_finishReason = js_or (get (elem (get json ''candidates'') 0) ''finishReason'') JNull,
             pr_promptTokens = promptTokens,
             pr_completionTokens = completionTokens,
             pr_totalTokens =
               (if promptTokens \<noteq> JNull \<and> completionTokens \<noteq> JNull
                then js_add promptTokens completionTokens
                else js_or (get (get json ''usageMetadata'') ''totalTokenCount'') JNull),
             pr_reasoningTokens =
               js_or (get (get json ''usageMetadata'') ''thoughtsTokenCount'') JNull,
             pr_cachedTokens = JNull,
             pr_toolCalls = JNull\<rparr>)
      else if usedProvider = ''inference.net'' \<or> usedProvider = ''together.ai''
              \<or> usedProvider = ''groq'' \<or> usedProvider = ''deepseek''
              \<or> usedProvider = ''perplexity'' \<or> usedProvider = ''alibaba'' then
        (let promptTokens = js_or (get (get json ''usage'') ''prompt_tokens'') JNull;
             completionTokens = js_or (get (get json ''usage'') ''completion_tokens'') JNull
         in \<lparr>pr_content =
               js_or (get (get (elem (get json ''choices'') 0) ''message'') ''content'') JNull,
             pr_reasoningContent =
               js_or (get (get (elem (get json ''choices'') 0) ''message'') ''reasoning_content'')
                 JNull,
             pr_finishReason = js_or (get (elem (get json ''choices'') 0) ''finish_reason'') JNull,
             pr_promptTokens = promptTokens,
             pr_completionTokens = completionTokens,
             pr_totalTokens =
               (if promptTokens \<noteq> JNull \<and> completionTokens \<noteq> JNull
                then js_add promptTokens completionTokens
                else js_or (get (get json ''usage'') ''total_tokens'') JNull),
             pr_reasoningTokens = js_or (get (get json ''usage'') ''reasoning_tokens'') JNull,
             pr_cachedTokens = JNull,
             pr_toolCalls = JNull\<rparr>)
      else if usedProvider = ''mistral'' then
        \<lparr>pr_content =
           (case js_or (get (get (elem (get json ''choices'') 0) ''message'') ''content'') JNull of
              JStr s \<Rightarrow>
                (if str_includes s [CHR 0x60, CHR 0x60, CHR 0x60, CHR ''j'', CHR ''s'', CHR ''o'', CHR ''n'']
                 then JStr (mistral_json s) else JStr s)
            | other \<Rightarrow> other),
         pr_reasoningContent = JNull,
         pr_finishReason = js_or (get (elem (get json ''choices'') 0) ''finish_reason'') JNull,
         pr_promptTokens = js_or (get (get json ''usage'') ''prompt_tokens'') JNull,
         pr_completionTokens = js_or (get (get json ''usage'') ''completion_tokens'') JNull,
         pr_totalTokens = js_or (get (get json ''usage'') ''total_tokens'') JNull,
         pr_reasoningTokens = js_or (get (get json ''usage'') ''reasoning_tokens'') JNull,
         pr_cachedTokens = JNull,
         pr_toolCalls = JNull\<rparr>
      else
        \<lparr>pr_content =
           js_or (get (get (elem (get json ''choices'') 0) ''message'') ''content'') JNull,
         pr_reasoningContent =
           js_or (get (get (elem (get json ''choices'') 0) ''message'') ''reasoning_content'') JNull,
         pr_finishReason = js_or (get (elem (get json ''choices'') 0) ''finish_reason'') JNull,
         pr_promptTokens = js_or (get (get json ''usage'') ''prompt_tokens'') JNull,
         pr_completionTokens = js_or (get (get json ''usage'') ''completion_tokens'') JNull,
         pr_totalTokens = js_or (get (get json ''usage'') ''total_tokens'') JNull,
         pr_reasoningTokens = js_or (get (get json ''usage'') ''reasoning_tokens'') JNull,
         pr_cachedTokens =
           js_or (get (get (get json ''usage'') ''prompt_tokens_details'') ''cached_tokens'') JNull,
         pr_toolCalls =
           js_or (get (get (elem (get json ''choices'') 0) ''message'') ''tool_calls'') JNull\<rparr>))"

subsection \<open>Reading a streamed chunk\<close>

definition extractContentFromProvider :: "json \<Rightarrow> string \<Rightarrow> string" where
  "extractContentFromProvider data provider =
     (case as_str
             (if is_google provider then
                get (elem (get (get (elem (get data ''candidates'') 0) ''content'') ''parts'') 0)
                  ''text''
              else if provider = ''anthropic'' then get (get data ''delta'') ''text''
              else get (get (elem (get data ''choices'') 0) ''delta'') ''content'') of
        None \<Rightarrow> []
      | Some s \<Rightarrow> s)"

definition extractReasoningContentFromProvider :: "json \<Rightarrow> string \<Rightarrow> string" where
  "extractReasoningContentFromProvider data provider =
     (case as_str (get (get (elem (get data ''choices'') 0) ''delta'') ''reasoning_content'') of
        None \<Rightarrow> []
      | Some s \<Rightarrow> s)"

record token_usage =
  tu_promptTokens :: "rat option"
  tu_completionTokens :: "rat option"
  tu_totalTokens :: "rat option"
  tu_reasoningTokens :: "rat option"
  tu_cachedTokens :: "rat option"

definition extractTokenUsage :: "json \<Rightarrow> string \<Rightarrow> token_usage" where
  "extractTokenUsage data provider =
     (if is_google provider then
        (if truthy (get data ''usageMetadata'') then
           \<lparr>tu_promptTokens = as_num (get (get data ''usageMetadata'') ''promptTokenCount''),
            tu_completionTokens = as_num (get (get data ''usageMetadata'') ''candidatesTokenCount''),
            tu_totalTokens = as_num (get (get data ''usageMetadata'') ''totalTokenCount''),
            tu_reasoningTokens = None, tu_cachedTokens = None\<rparr>
         else \<lparr>tu_promptTokens = None, tu_completionTokens = None, tu_totalTokens = None,
                tu_reasoningTokens = None, tu_cachedTokens = None\<rparr>)
      else if provider = ''anthropic'' then
        (if truthy (get data ''usage'') then
           \<lparr>tu_promptTokens = as_num (get (get data ''usage'') ''input_tokens''),
            tu_completionTokens = as_num (get (get data ''usage'') ''output_tokens''),
            tu_totalTokens =
              Some (or0 (as_num (get (get data ''usage'') ''input_tokens''))
                    + or0 (as_num (get (get data ''usage'') ''output_tokens''))),
            tu_reasoningTokens = as_num (get (get data ''usage'') ''reasoning_output_tokens''),
            tu_cachedTokens = as_num (get (get data ''usage'') ''cache_read_input_tokens'')\<rparr>
         else \<lparr>tu_promptTokens = None, tu_completionTokens = None, tu_totalTokens = None,
                tu_reasoningTokens = None, tu_cachedTokens = None\<rparr>)
      else if provider = ''inference.net'' \<or> provider = ''together.ai'' \<or> provider = ''groq''
              \<or> provider = ''deepseek'' \<or> provider = ''perplexity'' \<or> provider = ''alibaba'' then
        (if truthy (get data ''usage'') then
           \<lparr>tu_promptTokens = as_num (get (get data ''usage'') ''prompt_tokens''),
            tu_completionTokens = as_num (get (get data ''usage'') ''completion_tokens''),
            tu_totalTokens = as_num (get (get data ''usage'') ''total_tokens''),
            tu_reasoningTokens = as_num (get (get data ''usage'') ''reasoning_tokens''),
            tu_cachedTokens = None\<rparr>
         else \<lparr>tu_promptTokens = None, tu_completionTokens = None, tu_totalTokens = None,
                tu_reasoningTokens = None, tu_cachedTokens = None\<rparr>)
      else
        (if truthy (get data ''usage'') then
           \<lparr>tu_promptTokens = as_num (get (get data ''usage'') ''prompt_tokens''),
            tu_completionTokens = as_num (get (get data ''usage'') ''completion_tokens''),
            tu_totalTokens = as_num (get (get data ''usage'') ''total_tokens''),
            tu_reasoningTokens = as_num (get (get data ''usage'') ''reasoning_tokens''),
            tu_cachedTokens =
              as_num (get (get (get data ''usage'') ''prompt_tokens_details'') ''cached_tokens'')\<rparr>
         else \<lparr>tu_promptTokens = None, tu_completionTokens = None, tu_totalTokens = None,
                tu_reasoningTokens = None, tu_cachedTokens = None\<rparr>))"

subsection \<open>The streaming read loop\<close>

text \<open>
  What the handler writes to the client's event stream, and the variables of the read
  loop. \<open>ss_stopped\<close> records that an exception has left the \<open>while\<close> loop (it is caught
  by the \<open>catch\<close> around the loop, and no further chunk is read). The tool calls that
  the loop collects for the log row (\<open>fullToolCalls\<close>) are left out of the model.
\<close>

datatype sse_payload = Text string | Json json

record sse_message =
  sse_event :: "string option"
  sse_data :: sse_payload
  sse_id :: nat

record stream_state =
  ss_events :: "sse_message list"
  ss_eventId :: nat
  ss_fullContent :: string
  ss_fullReasoningContent :: string
  ss_finishReason :: json
  ss_promptTokens :: "rat option"
  ss_completionTokens :: "rat option"
  ss_totalTokens :: "rat option"
  ss_reasoningTokens :: "rat option"
  ss_cachedTokens :: "rat option"
  ss_buffer :: string
  ss_stopped :: bool

text \<open>\<open>await stream.writeSSE({event, data, id: String(eventId++)})\<close>\<close>

definition writeSSE :: "stream_state \<Rightarrow> string option \<Rightarrow> sse_payload \<Rightarrow> stream_state" where
  "writeSSE st ev d =
     st\<lparr>ss_events := ss_events st @ [\<lparr>sse_event = ev, sse_data = d, sse_id = ss_eventId st\<rparr>],
        ss_eventId := Suc (ss_eventId st)\<rparr>"

definition done_event :: "stream_state \<Rightarrow> stream_state" where
  "done_event st = writeSSE st (Some ''done'') (Text ''[DONE]'')"

definition usage_chunk :: "nat \<Rightarrow> string \<Rightarrow> (string \<times> json) list \<Rightarrow> json" where
  "usage_chunk now usedModel usage =
     JObj [(''id'', JStr (''chatcmpl-'' @ digits now)),
           (''object'', JStr ''chat.completion.chunk''),
           (''created'', JNum (of_nat (now div 1000))),
           (''model'', JStr usedModel),
           (''choices'', JArr [JObj
              [(''index'', JNum 0), (''delta'', JObj []), (''finish_reason'', JNull)]]),
           (''usage'', JObj usage)]"

text \<open>\<open>if (usage.x !== null) { x = usage.x; }\<close> for each counter of the loop.\<close>

definition keep_or :: "rat option \<Rightarrow> rat option \<Rightarrow> rat option" where
  "keep_or new old = (case new of None \<Rightarrow> old | Some v \<Rightarrow> Some v)"

text \<open>\<open>Math.round(messages.reduce(...) / 4)\<close>\<close>

definition roundedPromptEstimate :: "request \<Rightarrow> rat" where
  "roundedPromptEstimate rq = of_int (js_round (of_nat (messages_length (rq_messages rq)) / 4))"

text \<open>One line of an SSE body (every provider but Google).\<close>

definition process_line ::
  "env \<Rightarrow> request \<Rightarrow> string \<Rightarrow> string \<Rightarrow> stream_state \<Rightarrow> string \<Rightarrow> stream_state" where
  "process_line e rq usedProvider usedModel st line =
     (if \<not> startsWith line ''data: '' then st
      else if line = ''data: [DONE]'' then
        (let finalPromptTokens =
               (case ss_promptTokens st of
                  None \<Rightarrow> Some (roundedPromptEstimate rq)
                | Some v \<Rightarrow> Some v);
             finalCompletionTokens =
               (case ss_completionTokens st of
                  None \<Rightarrow> Some (of_int (estimateTokensFromContent (ss_fullContent st)))
                | Some v \<Rightarrow> Some v);
             finalTotalTokens =
               (case ss_totalTokens st of
                  None \<Rightarrow> Some (or0 finalPromptTokens + or0 finalCompletionTokens)
                | Some v \<Rightarrow> Some v)
         in done_event
              (if finalPromptTokens \<noteq> None \<or> finalCompletionTokens \<noteq> None
                  \<or> finalTotalTokens \<noteq> None
               then writeSSE st None
                      (Json (usage_chunk (env_now e) usedModel
                         [(''prompt_tokens'', JNum (or0 finalPromptTokens)),
                          (''completion_tokens'', JNum (or0 finalCompletionTokens)),
                          (''total_tokens'', JNum (or0 finalTotalTokens))]))
               else st))
      else
        (case env_JSON_parse e (drop 6 line) of
           None \<Rightarrow> st
         | Some data \<Rightarrow>
             (case transformStreamingChunkToOpenAIFormat (env_now e) usedProvider usedModel data of
                None \<Rightarrow> st
              | Some transformedData \<Rightarrow>
                  (let usage = get transformedData ''usage'';
                       st1 = writeSSE st None
                         (Json (if usedProvider = ''anthropic'' \<and> truthy usage
                                   \<and> get usage ''output_tokens'' \<noteq> JUndefined
                                   \<and> get usage ''prompt_tokens'' = JUndefined
                                then spread_with transformedData ''usage''
                                  (JObj [(''prompt_tokens'', JNum (roundedPromptEstimate rq)),
                                         (''completion_tokens'', get usage ''output_tokens''),
                                         (''total_tokens'',
                                            js_add (JNum (roundedPromptEstimate rq))
                                              (get usage ''output_tokens''))])
                                else transformedData));
                       fullContent = ss_fullContent st1 @ extractContentFromProvider data usedProvider;
                       fullReasoningContent =
                         ss_fullReasoningContent st1
                           @ extractReasoningContentFromProvider data usedProvider;
                       finishReason =
                         (if usedProvider = ''anthropic'' then
                            (if get data ''type'' = JStr ''message_delta''
                                \<and> truthy (get (get data ''delta'') ''stop_reason'')
                             then get (get data ''delta'') ''stop_reason''
                             else if get data ''type'' = JStr ''message_stop''
                                     \<or> truthy (get data ''stop_reason'')
                             then js_or (get data ''stop_reason'') (JStr ''end_turn'')
                             else if truthy (get (get data ''delta'') ''stop_reason'')
                             then get (get data ''delta'') ''stop_reason''
                             else ss_finishReason st1)
                          else if truthy (get data ''choices'')
                                  \<and> truthy (get (elem (get data ''choices'') 0) ''finish_reason'')
                          then get (elem (get data ''choices'') 0) ''finish_reason''
                          else ss_finishReason st1);
                       u = extractTokenUsage data usedProvider;
                       promptTokens = keep_or (tu_promptTokens u) (ss_promptTokens st1);
                       completionTokens = keep_or (tu_completionTokens u) (ss_completionTokens st1);
                       totalTokens = keep_or (tu_totalTokens u) (ss_totalTokens st1);
                       estimate = (truthy finishReason
                                   \<and> (falsy_num promptTokens \<or> falsy_num completionTokens));
                       promptTokens' =
                         (if estimate \<and> falsy_num promptTokens
                          then Some (roundedPromptEstimate rq) else promptTokens);
                       completionTokens' =
                         (if estimate \<and> falsy_num completionTokens
                          then Some (of_int (estimateTokensFromContent fullContent))
                          else completionTokens)
                   in st1\<lparr>ss_fullContent := fullContent,
                          ss_fullReasoningContent := fullReasoningContent,
                          ss_finishReason := finishReason,
                          ss_promptTokens := promptTokens',
                          ss_completionTokens := completionTokens',
                          ss_totalTokens :=
                            (if estimate then Some (or0 promptTokens' + or0 completionTokens')
                             else totalTokens),
                          ss_reasoningTokens :=
                            keep_or (tu_reasoningTokens u) (ss_reasoningTokens st1),
                          ss_cachedTokens :=
                            keep_or (tu_cachedTokens u) (ss_cachedTokens st1)\<rparr>))))"

text \<open>
  Google sends raw JSON objects. \<open>tryParseJSON\<close> tries the prefixes that start at
  \<open>startIndex\<close>, the shortest first; \<open>google_object\<close> is the body of the loop for a parsed
  object, and \<open>google_scan\<close> the \<open>while (buffer.length > 0)\<close> loop.
\<close>

fun first_parse ::
  "(string \<Rightarrow> json option) \<Rightarrow> string \<Rightarrow> nat \<Rightarrow> nat list \<Rightarrow> (json \<times> nat) option" where
  "first_parse parse str startIndex [] = None"
| "first_parse parse str startIndex (i # rest) =
     (case parse (take (i + 1 - startIndex) (drop startIndex str)) of
        Some data \<Rightarrow> Some (data, i)
      | None \<Rightarrow> first_parse parse str startIndex rest)"

definition tryParseJSON :: "env \<Rightarrow> string \<Rightarrow> nat \<Rightarrow> (json \<times> nat) option" where
  "tryParseJSON e str startIndex =
     first_parse (env_JSON_parse e) str startIndex [startIndex..<length str]"

text \<open>\<open>str.indexOf("{", from)\<close>\<close>

definition indexOf_brace :: "string \<Rightarrow> nat \<Rightarrow> nat option" where
  "indexOf_brace str from = find (\<lambda>i. str ! i = CHR ''{'') [from..<length str]"

definition google_object ::
  "env \<Rightarrow> string \<Rightarrow> string \<Rightarrow> stream_state \<Rightarrow> json \<Rightarrow> stream_state" where
  "google_object e usedProvider usedModel st data =
     (case transformStreamingChunkToOpenAIFormat (env_now e) usedProvider usedModel data of
        None \<Rightarrow> st\<lparr>ss_stopped := True\<rparr>
      | Some transformedData \<Rightarrow>
          (let st1 = writeSSE st None (Json transformedData);
               fullContent = ss_fullContent st1 @ extractContentFromProvider data usedProvider;
               fullReasoningContent =
                 ss_fullReasoningContent st1
                   @ extractReasoningContentFromProvider data usedProvider;
               finished = (truthy (get data ''candidates'')
                           \<and> truthy (get (elem (get data ''candidates'') 0) ''finishReason''));
               st2 = (if finished then done_event st1 else st1);
               u = extractTokenUsage data usedProvider
           in st2\<lparr>ss_fullContent := fullContent,
                  ss_fullReasoningContent := fullReasoningContent,
                  ss_finishReason :=
                    (if finished then get (elem (get data ''candidates'') 0) ''finishReason''
                     else ss_finishReason st1),
                  ss_promptTokens := keep_or (tu_promptTokens u) (ss_promptTokens st1),
                  ss_completionTokens :=
                    (if falsy_num (tu_completionTokens u) \<and> fullContent \<noteq> [] then None
                     else keep_or (tu_completionTokens u) (ss_completionTokens st1)),
                  ss_totalTokens := keep_or (tu_totalTokens u) (ss_totalTokens st1),
                  ss_reasoningTokens :=
                    keep_or (tu_reasoningTokens u) (ss_reasoningTokens st1)\<rparr>))"

function google_scan ::
  "env \<Rightarrow> string \<Rightarrow> string \<Rightarrow> string \<Rightarrow> stream_state \<Rightarrow> string \<times> stream_state" where
  "google_scan e usedProvider usedModel buffer st =
     (if ss_stopped st \<or> buffer = [] then (buffer, st)
      else
        (case indexOf_brace buffer 0 of
           None \<Rightarrow> ([], st)
         | Some jsonStartIndex \<Rightarrow>
             (case tryParseJSON e buffer jsonStartIndex of
                Some (data, endIndex) \<Rightarrow>
                  google_scan e usedProvider usedModel (drop (endIndex + 1) buffer)
                    (google_object e usedProvider usedModel st data)
              | None \<Rightarrow>
                  (case indexOf_brace buffer (jsonStartIndex + 1) of
                     Some nextStart \<Rightarrow>
                       google_scan e usedProvider usedModel (drop nextStart buffer) st
                   | None \<Rightarrow> (buffer, st)))))"
  by pat_completeness auto
termination
proof (relation "measure (\<lambda>(e, usedProvider, usedModel, buffer, st). length buffer)")
  show "wf (measure (\<lambda>(e, usedProvider, usedModel, buffer, st). length buffer))"
    by simp
next
  fix e :: env and usedProvider usedModel buffer :: string and st :: stream_state
    and jsonStartIndex x data endIndex
  assume "\<not> (ss_stopped st \<or> buffer = [])"
  then show "((e, usedProvider, usedModel, drop (endIndex + 1) buffer,
               google_object e usedProvider usedModel st data),
              e, usedProvider, usedModel, buffer, st)
             \<in> measure (\<lambda>(e, usedProvider, usedModel, buffer, st). length buffer)"
    by simp
next
  fix e :: env and usedProvider usedModel buffer :: string and st :: stream_state
    and jsonStartIndex nextStart
  assume "\<not> (ss_stopped st \<or> buffer = [])"
    and "indexOf_brace buffer (jsonStartIndex + 1) = Some nextStart"
  then have "0 < nextStart" "buffer \<noteq> []"
    by (auto simp add: indexOf_brace_def find_Some_iff)
  then show "((e, usedProvider, usedModel, drop nextStart buffer, st),
              e, usedProvider, usedModel, buffer, st)
             \<in> measure (\<lambda>(e, usedProvider, usedModel, buffer, st). length buffer)"
    by simp
qed

text \<open>One chunk of the body: the \<open>while (true)\<close> loop's body after \<open>reader.read()\<close>.\<close>

definition MAX_BUFFER_SIZE :: nat where
  "MAX_BUFFER_SIZE = 10 * 1024 * 1024"

definition process_chunk ::
  "env \<Rightarrow> request \<Rightarrow> string \<Rightarrow> string \<Rightarrow> stream_state \<Rightarrow> string \<Rightarrow> stream_state" where
  "process_chunk e rq usedProvider usedModel st chunk =
     (if ss_stopped st then st
      else if length (ss_buffer st @ chunk) > MAX_BUFFER_SIZE then st\<lparr>ss_buffer := []\<rparr>
      else if is_google usedProvider then
        (case google_scan e usedProvider usedModel (ss_buffer st @ chunk) st of
           (buffer, st') \<Rightarrow> st'\<lparr>ss_buffer := buffer\<rparr>)
      else
        (let buffer = ss_buffer st @ chunk;
             lines = split buffer [CHR 0x0A];
             incomplete = (length buffer > 0 \<and> last buffer \<noteq> CHR 0x0A \<and> length lines > 1)
         in foldl (process_line e rq usedProvider usedModel)
              (st\<lparr>ss_buffer := (if incomplete then last lines else [])\<rparr>)
              (if incomplete then butlast lines else lines)))"

definition initial_stream_state :: stream_state where
  "initial_stream_state =
     \<lparr>ss_events = [], ss_eventId = 0, ss_fullContent = [], ss_fullReasoningContent = [],
      ss_finishReason = JNull, ss_promptTokens = None, ss_completionTokens = None,
      ss_totalTokens = None, ss_reasoningTokens = None, ss_cachedTokens = None,
      ss_buffer = [], ss_stopped = False\<rparr>"

text \<open>
  The token counts the \<open>finally\<close> block computes for the log row, and whether it sends a
  last usage chunk followed by \<open>done\<close>.
\<close>

definition calculatedPromptTokens :: "env \<Rightarrow> request \<Rightarrow> stream_state \<Rightarrow> rat option" where
  "calculatedPromptTokens e rq st =
     (if (falsy_num (ss_promptTokens st) \<or> falsy_num (ss_completionTokens st))
         \<and> falsy_num (ss_promptTokens st) \<and> length (rq_messages rq) > 0
      then (case encodeChat (env_tokenizer e) (rq_messages rq) of
              Some n \<Rightarrow> Some (of_nat n)
            | None \<Rightarrow> Some (of_nat (messages_length (rq_messages rq)) / 4))
      else ss_promptTokens st)"

definition calculatedCompletionTokens :: "env \<Rightarrow> stream_state \<Rightarrow> rat option" where
  "calculatedCompletionTokens e st =
     (if (falsy_num (ss_promptTokens st) \<or> falsy_num (ss_completionTokens st))
         \<and> falsy_num (ss_completionTokens st) \<and> ss_fullContent st \<noteq> []
      then (case encode (env_tokenizer e) (ss_fullContent st) of
              Some n \<Rightarrow> Some (of_nat n)
            | None \<Rightarrow> Some (of_int (estimateTokensFromContent (ss_fullContent st))))
      else ss_completionTokens st)"

definition calculatedTotalTokens :: "env \<Rightarrow> request \<Rightarrow> stream_state \<Rightarrow> rat option" where
  "calculatedTotalTokens e rq st =
     (if falsy_num (ss_promptTokens st) \<or> falsy_num (ss_completionTokens st)
      then Some (or0 (calculatedPromptTokens e rq st) + or0 (calculatedCompletionTokens e st))
      else ss_totalTokens st)"

definition needsUsageChunk :: "env \<Rightarrow> request \<Rightarrow> stream_state \<Rightarrow> bool" where
  "needsUsageChunk e rq st =
     ((ss_promptTokens st = None \<and> ss_completionTokens st = None \<and> ss_totalTokens st = None
       \<and> (calculatedPromptTokens e rq st \<noteq> None \<or> calculatedCompletionTokens e st \<noteq> None))
      \<or> (ss_completionTokens st = None \<and> calculatedCompletionTokens e st \<noteq> None))"

text \<open>\<open>Math.round(a || b || 0)\<close>\<close>

definition round_first :: "rat option \<Rightarrow> rat option \<Rightarrow> json" where
  "round_first a b =
     JNum (of_int (js_round (if falsy_num a then (if falsy_num b then 0 else or0 b) else or0 a)))"

definition final_events :: "env \<Rightarrow> request \<Rightarrow> string \<Rightarrow> stream_state \<Rightarrow> stream_state" where
  "final_events e rq usedModel st =
     (if needsUsageChunk e rq st then
        done_event
          (writeSSE st None
             (Json (usage_chunk (env_now e) usedModel
                ([(''prompt_tokens'',
                     round_first (ss_promptTokens st) (calculatedPromptTokens e rq st)),
                  (''completion_tokens'',
                     round_first (ss_completionTokens st) (calculatedCompletionTokens e st)),
                  (''total_tokens'',
                     round_first (ss_totalTokens st) (calculatedTotalTokens e rq st))]
                 @ (case ss_cachedTokens st of
                      None \<Rightarrow> []
                    | Some c \<Rightarrow>
                        [(''prompt_tokens_details'', JObj [(''cached_tokens'', JNum c)])])))))
      else st)"

subsection \<open>The outcome of a request\<close>

text \<open>
  What a request leaves behind: the response, the log rows passed to \<open>insertLog\<close> (in
  order), the number of upstream \<open>fetch\<close> calls and the \<open>setCache\<close> calls. A response is
  a thrown \<open>HTTPException\<close>, another exception that leaves the handler (\<open>Uncaught\<close>), a JSON
  body with its status, or an event stream; \<open>BrokenStream\<close> is an event stream whose
  callback ended with an exception.
\<close>

datatype response =
    Thrown http_exception
  | Uncaught
  | JsonResponse nat json
  | EventStream "sse_message list"
  | BrokenStream "sse_message list"

record outcome =
  out_response :: response
  out_logs :: "log_row list"
  out_fetches :: nat
  out_setCache :: "(string \<times> json \<times> nat) list"

text \<open>
  A row in which no property beyond those of \<open>createLogEntry\<close> is set; every \<open>insertLog\<close>
  call below sets the properties that the source's call sets.
\<close>

definition unset_row :: "log_entry \<Rightarrow> log_row" where
  "unset_row baseLogEntry =
     log_entry.extend baseLogEntry
       (log_row.fields 0 0 JUndefined JUndefined JUndefined JUndefined JUndefined JUndefined
          JUndefined JUndefined False False False JUndefined None None None None None False
          False)"

text \<open>\<open>x?.toString() || null\<close> for \<open>x: number | null\<close>\<close>

definition text_or_null :: "env \<Rightarrow> rat option \<Rightarrow> json" where
  "text_or_null e x =
     (case x of
        None \<Rightarrow> JNull
      | Some n \<Rightarrow> (if env_toString e n = [] then JNull else JStr (env_toString e n)))"

definition baseLogEntry :: "request \<Rightarrow> routed \<Rightarrow> log_entry" where
  "baseLogEntry rq cx =
     createLogEntry (cx_requestId cx) (cx_project cx) (cx_apiKey cx)
       (map_option pk_id (cx_providerKey cx)) (cx_usedModel cx) (cx_usedProvider cx)
       (rs_requestedModel (cx_requested cx)) (rs_requestedProvider (cx_requested cx))
       (rq_messages rq) (rq_temperature rq) (rq_max_tokens rq) (rq_top_p rq)
       (rq_frequency_penalty rq) (rq_presence_penalty rq) (cx_customHeaders cx)"

definition canceled_row :: "env \<Rightarrow> request \<Rightarrow> routed \<Rightarrow> bool \<Rightarrow> log_row" where
  "canceled_row e rq cx streamed =
     (unset_row (baseLogEntry rq cx))
       \<lparr>lg_duration := env_elapsed e, lg_responseSize := 0, lg_content := JNull,
        lg_reasoningContent := JNull, lg_finishReason := JStr ''canceled'',
        lg_promptTokens := JNull, lg_completionTokens := JNull, lg_totalTokens := JNull,
        lg_reasoningTokens := JNull, lg_cachedTokens := JNull, lg_hasError := False,
        lg_streamed := streamed, lg_canceled := True, lg_errorDetails := JNull,
        lg_cachedInputCost := None, lg_requestCost := None, lg_estimatedCost := False,
        lg_cached := False\<rparr>"

definition error_row :: "env \<Rightarrow> request \<Rightarrow> routed \<Rightarrow> bool \<Rightarrow> upstream_response \<Rightarrow> log_row" where
  "error_row e rq cx streamed res =
     (unset_row (baseLogEntry rq cx))
       \<lparr>lg_duration := env_elapsed e, lg_responseSize := length (res_text res),
        lg_content := JNull, lg_reasoningContent := JNull,
        lg_finishReason := JStr (getFinishReasonForError (res_status res)),
        lg_promptTokens := JNull, lg_completionTokens := JNull, lg_totalTokens := JNull,
        lg_reasoningTokens := JNull, lg_cachedTokens := JNull, lg_hasError := True,
        lg_streamed := streamed, lg_canceled := False,
        lg_errorDetails :=
          JObj [(''statusCode'', JNum (of_nat (res_status res))),
                (''statusText'', JStr (res_statusText res)),
                (''responseText'', JStr (res_text res))],
        lg_cachedInputCost := None, lg_requestCost := None, lg_estimatedCost := False,
        lg_cached := False\<rparr>"

subsection \<open>The response cache\<close>

definition cacheKey :: "env \<Rightarrow> request \<Rightarrow> routed \<Rightarrow> string option" where
  "cacheKey e rq cx =
     (if fst (env_isCachingEnabled e (pj_id (cx_project cx))) \<and> \<not> rq_stream rq then
        Some (env_generateCacheKey e
                \<lparr>ci_model = cx_usedModel cx, ci_messages = rq_messages rq,
                 ci_temperature = rq_temperature rq, ci_max_tokens = rq_max_tokens rq,
                 ci_top_p = rq_top_p rq, ci_frequency_penalty = rq_frequency_penalty rq,
                 ci_presence_penalty = rq_presence_penalty rq,
                 ci_response_format = rq_response_format rq\<rparr>)
      else None)"

definition cachedResponse :: "env \<Rightarrow> request \<Rightarrow> routed \<Rightarrow> json option" where
  "cachedResponse e rq cx =
     (case cacheKey e rq cx of
        None \<Rightarrow> None
      | Some k \<Rightarrow>
          (if k = [] then None
           else (case env_getCache e k of
                   None \<Rightarrow> None
                 | Some r \<Rightarrow> (if truthy r then Some r else None))))"

definition cached_row :: "env \<Rightarrow> request \<Rightarrow> routed \<Rightarrow> json \<Rightarrow> log_row" where
  "cached_row e rq cx r =
     (unset_row (baseLogEntry rq cx))
       \<lparr>lg_duration := 0, lg_responseSize := env_JSON_stringify_length e r,
        lg_content := js_or (get (get (elem (get r ''choices'') 0) ''message'') ''content'') JNull,
        lg_reasoningContent :=
          js_or (get (get (elem (get r ''choices'') 0) ''message'') ''reasoning_content'') JNull,
        lg_finishReason := js_or (get (elem (get r ''choices'') 0) ''finish_reason'') JNull,
        lg_promptTokens := js_or (get (get r ''usage'') ''prompt_tokens'') JNull,
        lg_completionTokens := js_or (get (get r ''usage'') ''completion_tokens'') JNull,
        lg_totalTokens := js_or (get (get r ''usage'') ''total_tokens'') JNull,
        lg_reasoningTokens := js_or (get (get r ''usage'') ''reasoning_tokens'') JNull,
        lg_cachedTokens := JNull, lg_hasError := False, lg_streamed := False,
        lg_canceled := False, lg_errorDetails := JNull, lg_inputCost := Some 0,
        lg_outputCost := Some 0, lg_cachedInputCost := Some 0, lg_requestCost := Some 0,
        lg_cost := Some 0, lg_estimatedCost := False, lg_cached := True\<rparr>"

subsection \<open>The gates before dispatch\<close>

text \<open>
  The \<open>max_tokens\<close> limit of the used mapping and the streaming capability. (The numbers
  that the source prints into the first message are left out of the text.)
\<close>

definition dispatch_gates :: "env \<Rightarrow> request \<Rightarrow> routed \<Rightarrow> http_exception + unit" where
  "dispatch_gates e rq cx =
     (if (case rq_max_tokens rq of
            None \<Rightarrow> False
          | Some max_tokens \<Rightarrow>
              (case finalModelInfo e (cx_usedProvider cx) (cx_usedModel cx) of
                 None \<Rightarrow> False
               | Some info \<Rightarrow>
                   (case find (\<lambda>p. pm_providerId p = cx_usedProvider cx
                                   \<and> pm_modelName p = cx_usedModel cx) (md_providers info) of
                      None \<Rightarrow> False
                    | Some providerMapping \<Rightarrow>
                        (case pm_maxOutput providerMapping of
                           None \<Rightarrow> False
                         | Some maxOutput \<Rightarrow> max_tokens > maxOutput)))) then
        Inl (HTTPException 400
               (''The requested max_tokens exceeds the maximum output tokens allowed for model ''
                 @ cx_usedModel cx))
      else if rq_stream rq
              \<and> env_getModelStreamingSupport e
                    (baseModelName e (cx_usedProvider cx) (cx_usedModel cx)) (cx_usedProvider cx)
                  = Some False then
        Inl (HTTPException 400
               (''Model '' @ cx_usedModel cx @ '' with provider '' @ cx_usedProvider cx
                 @ '' does not support streaming''))
      else Inr ())"

definition requestCanBeCanceled :: "env \<Rightarrow> routed \<Rightarrow> bool" where
  "requestCanBeCanceled e cx =
     (case find (\<lambda>p. pv_id p = cx_usedProvider cx) (env_providers e) of
        None \<Rightarrow> False
      | Some p \<Rightarrow> pv_cancellation p = Some True)"

definition ok :: "upstream_response \<Rightarrow> bool" where
  "ok res = (200 \<le> res_status res \<and> res_status res \<le> 299)"

definition provider_error :: "upstream_response \<Rightarrow> (string \<times> json) list" where
  "provider_error res =
     [(''message'', JStr (''Error from provider: '' @ digits (res_status res) @ '' ''
                          @ res_statusText res)),
      (''type'', JStr (getFinishReasonForError (res_status res))),
      (''param'', JNull),
      (''code'', JStr (getFinishReasonForError (res_status res)))]"

subsection \<open>The streaming path\<close>

definition streamed_row :: "env \<Rightarrow> request \<Rightarrow> routed \<Rightarrow> stream_state \<Rightarrow> bool \<Rightarrow> log_row" where
  "streamed_row e rq cx st canceled =
     (let c = env_calculateCosts e (cx_usedModel cx) (cx_usedProvider cx)
                (calculatedPromptTokens e rq st) (calculatedCompletionTokens e st)
                (ss_cachedTokens st) (rq_messages rq) (Some (ss_fullContent st))
      in (unset_row (baseLogEntry rq cx))
           \<lparr>lg_duration := env_elapsed e, lg_responseSize := length (ss_fullContent st),
            lg_content := JStr (ss_fullContent st),
            lg_reasoningContent :=
              (if ss_fullReasoningContent st = [] then JNull
               else JStr (ss_fullReasoningContent st)),
            lg_finishReason := ss_finishReason st,
            lg_promptTokens := text_or_null e (calculatedPromptTokens e rq st),
            lg_completionTokens := text_or_null e (calculatedCompletionTokens e st),
            lg_totalTokens := text_or_null e (calculatedTotalTokens e rq st),
            lg_reasoningTokens := jnum_opt (ss_reasoningTokens st),
            lg_cachedTokens := text_or_null e (ss_cachedTokens st),
            lg_hasError := False, lg_streamed := True, lg_canceled := canceled,
            lg_errorDetails := JNull, lg_inputCost := inputCost c, lg_outputCost := outputCost c,
            lg_cachedInputCost := cachedInputCost c, lg_requestCost := requestCost c,
            lg_cost := totalCost c, lg_estimatedCost := estimatedCost c, lg_cached := False\<rparr>)"

definition streaming :: "env \<Rightarrow> request \<Rightarrow> routed \<Rightarrow> outcome" where
  "streaming e rq cx =
     (case env_fetch e (cx_url cx) (cx_usedToken cx) (requestCanBeCanceled e cx) of
        AbortError \<Rightarrow>
          \<lparr>out_response =
             EventStream (ss_events (done_event
               (writeSSE initial_stream_state (Some ''canceled'')
                  (Json (JObj [(''message'', JStr ''Request canceled by client'')]))))),
           out_logs = [canceled_row e rq cx True], out_fetches = 1, out_setCache = []\<rparr>
      | FetchError \<Rightarrow>
          \<lparr>out_response = BrokenStream [], out_logs = [], out_fetches = 1, out_setCache = []\<rparr>
      | Response res \<Rightarrow>
          (if \<not> ok res then
             \<lparr>out_response =
                EventStream (ss_events (done_event
                  (writeSSE initial_stream_state (Some ''error'')
                     (Json (JObj [(''error'', JObj (provider_error res
                                     @ [(''responseText'', JStr (res_text res))]))]))))),
              out_logs = [error_row e rq cx True res], out_fetches = 1, out_setCache = []\<rparr>
           else
             (case res_body res of
                None \<Rightarrow>
                  \<lparr>out_response =
                     EventStream (ss_events (done_event
                       (writeSSE initial_stream_state (Some ''error'')
                          (Json (JObj [(''error'', JObj
                             [(''message'', JStr ''No response body from provider''),
                              (''type'', JStr ''gateway_error''),
                              (''param'', JNull),
                              (''code'', JStr ''gateway_error'')])]))))),
                   out_logs = [], out_fetches = 1, out_setCache = []\<rparr>
              | Some (chunks, ending) \<Rightarrow>
                  (let st = foldl (process_chunk e rq (cx_usedProvider cx) (cx_usedModel cx))
                              initial_stream_state chunks;
                       canceled = (\<not> ss_stopped st \<and> ending = ReadAborted)
                   in \<lparr>out_response =
                          EventStream (ss_events (final_events e rq (cx_usedModel cx) st)),
                        out_logs = [streamed_row e rq cx st canceled],
                        out_fetches = 1, out_setCache = []\<rparr>))))"

subsection \<open>The non-streaming path\<close>

text \<open>
  The log row of a response that was read: \<open>p\<close> is the result of \<open>parseProviderResponse\<close>,
  \<open>est\<close> that of \<open>estimateTokens\<close> and \<open>c\<close> that of \<open>calculateCosts\<close>.
\<close>

definition unary_row ::
  "env \<Rightarrow> request \<Rightarrow> routed \<Rightarrow> json \<Rightarrow> parsed_response \<Rightarrow> rat option \<times> rat option \<Rightarrow> costs
    \<Rightarrow> log_row" where
  "unary_row e rq cx json p est c =
     (unset_row (baseLogEntry rq cx))
       \<lparr>lg_duration := env_elapsed e,
        lg_responseSize := env_JSON_stringify_length e json,
        lg_content := pr_content p,
        lg_reasoningContent := pr_reasoningContent p,
        lg_finishReason := pr_finishReason p,
        lg_promptTokens := text_or_null e (fst est),
        lg_completionTokens := text_or_null e (snd est),
        lg_totalTokens :=
          (if truthy (pr_totalTokens p) then pr_totalTokens p
           else JStr (env_toString e (or0 (fst est) + or0 (snd est)))),
        lg_reasoningTokens := pr_reasoningTokens p,
        lg_cachedTokens := text_or_null e (as_num (pr_cachedTokens p)),
        lg_hasError := False, lg_streamed := False, lg_canceled := False,
        lg_errorDetails := JNull, lg_inputCost := inputCost c,
        lg_outputCost := outputCost c,
        lg_cachedInputCost := cachedInputCost c,
        lg_requestCost := requestCost c, lg_cost := totalCost c,
        lg_estimatedCost := estimatedCost c, lg_cached := False\<rparr>"

text \<open>
  The handler after the gates, for \<open>stream: false\<close>. An exception that is not an
  \<open>HTTPException\<close> leaves the handler (\<open>Uncaught\<close>): a \<open>fetch\<close> error other than an abort, a
  body that is not JSON, the \<open>TypeError\<close> of \<open>parseProviderResponse\<close> (before \<open>insertLog\<close>)
  and that of \<open>transformToOpenAIFormat\<close> (after it).
\<close>

definition unary :: "env \<Rightarrow> request \<Rightarrow> routed \<Rightarrow> outcome" where
  "unary e rq cx =
     (case env_fetch e (cx_url cx) (cx_usedToken cx) (requestCanBeCanceled e cx) of
        AbortError \<Rightarrow>
          \<lparr>out_response =
             JsonResponse 400 (JObj [(''error'', JObj
               [(''message'', JStr ''Request canceled by client''),
                (''type'', JStr ''canceled''),
                (''param'', JNull),
                (''code'', JStr ''request_canceled'')])]),
           out_logs = [canceled_row e rq cx False], out_fetches = 1, out_setCache = []\<rparr>
      | FetchError \<Rightarrow>
          \<lparr>out_response = Uncaught, out_logs = [], out_fetches = 1, out_setCache = []\<rparr>
      | Response res \<Rightarrow>
          (if \<not> ok res then
             \<lparr>out_response =
                JsonResponse 500 (JObj [(''error'', JObj (provider_error res
                  @ (case rs_requestedProvider (cx_requested cx) of
                       None \<Rightarrow> []
                     | Some requestedProvider \<Rightarrow>
                         [(''requestedProvider'', JStr requestedProvider)])
                  @ [(''usedProvider'', JStr (cx_usedProvider cx)),
                     (''requestedModel'', JStr (rs_requestedModel (cx_requested cx))),
                     (''usedModel'', JStr (cx_usedModel cx)),
                     (''responseText'', JStr (res_text res))]))]),
              out_logs = [error_row e rq cx False res], out_fetches = 1, out_setCache = []\<rparr>
           else
             (case res_json res of
                None \<Rightarrow>
                  \<lparr>out_response = Uncaught, out_logs = [], out_fetches = 1, out_setCache = []\<rparr>
              | Some json \<Rightarrow>
                  (case parseProviderResponse (env_mistral_json e) (cx_usedProvider cx) json of
                     None \<Rightarrow>
                       \<lparr>out_response = Uncaught, out_logs = [], out_fetches = 1,
                        out_setCache = []\<rparr>
                   | Some p \<Rightarrow>
                       (let est = estimateTokens (env_tokenizer e) (rq_messages rq)
                                    (as_str (pr_content p)) (as_num (pr_promptTokens p))
                                    (as_num (pr_completionTokens p));
                            c = env_calculateCosts e (cx_usedModel cx) (cx_usedProvider cx)
                                  (fst est) (snd est) (as_num (pr_cachedTokens p))
                                  (rq_messages rq) (as_str (pr_content p));
                            row = unary_row e rq cx json p est c
                        in case transformToOpenAIFormat (env_now e) (cx_usedProvider cx)
                                  (cx_usedModel cx) json (pr_content p) (pr_reasoningContent p)
                                  (pr_finishReason p) (fst est) (snd est)
                                  (Some (or0 (fst est) + or0 (snd est)))
                                  (pr_reasoningTokens p) (pr_cachedTokens p) (pr_toolCalls p) of
                             None \<Rightarrow>
                               \<lparr>out_response = Uncaught, out_logs = [row], out_fetches = 1,
                                out_setCache = []\<rparr>
                           | Some transformedResponse \<Rightarrow>
                               \<lparr>out_response = JsonResponse 200 transformedResponse,
                                out_logs = [row], out_fetches = 1,
                                out_setCache =
                                  (case cacheKey e rq cx of
                                     None \<Rightarrow> []
                                   | Some k \<Rightarrow>
                                       (if k = [] then []
                                        else [(k, transformedResponse,
                                               snd (env_isCachingEnabled e
                                                      (pj_id (cx_project cx))))]))\<rparr>)))))"

subsection \<open>The handler\<close>

definition thrown :: "http_exception \<Rightarrow> outcome" where
  "thrown ex = \<lparr>out_response = Thrown ex, out_logs = [], out_fetches = 0, out_setCache = []\<rparr>"

definition handler :: "env \<Rightarrow> request \<Rightarrow> outcome" where
  "handler e rq =
     (case prepare e rq of
        Inl ex \<Rightarrow> thrown ex
      | Inr cx \<Rightarrow>
          (case cachedResponse e rq cx of
             Some r \<Rightarrow>
               \<lparr>out_response = JsonResponse 200 r, out_logs = [cached_row e rq cx r],
                out_fetches = 0, out_setCache = []\<rparr>
           | None \<Rightarrow>
               (case dispatch_gates e rq cx of
                  Inl ex \<Rightarrow> thrown ex
                | Inr u \<Rightarrow> (if rq_stream rq then streaming e rq cx else unary e rq cx))))"

section \<open>The worker\<close>

subsection \<open>Auto top-up\<close>

text \<open>
  The payment processor and the fee calculator are parameters. A date is a number of
  milliseconds; differences of dates are taken in \<^typ>\<open>int\<close>. The amounts that the source
  prints into a transaction's description are left out of the text.
\<close>

record fee_breakdown =
  baseAmount :: rat
  totalFees :: rat
  totalAmount :: rat

record topup_env =
  te_now :: nat
  te_paymentMethods_retrieve :: "string \<Rightarrow> string option js_result"
  te_paymentIntents_create :: "string \<Rightarrow> string \<Rightarrow> rat \<Rightarrow> (string \<times> string) js_result"
  te_calculateFees :: "rat \<Rightarrow> string \<Rightarrow> string option \<Rightarrow> fee_breakdown"

definition AUTO_TOPUP_LOCK_KEY :: string where
  "AUTO_TOPUP_LOCK_KEY = ''auto_topup_check''"

definition LOCK_DURATION_MINUTES :: int where
  "LOCK_DURATION_MINUTES = 10"

text \<open>
  \<open>acquireLock\<close>: stale locks of the key are deleted, then the lock is inserted; the
  insert throws, and the function returns \<open>false\<close>, when a lock of the key is left.
\<close>

definition acquireLock :: "string \<Rightarrow> nat \<Rightarrow> database \<Rightarrow> bool \<times> database" where
  "acquireLock key now db =
     (let locks = filter (\<lambda>l. \<not> (lock_key l = key
                                 \<and> int (lock_updatedAt l) < int now - LOCK_DURATION_MINUTES * 60 * 1000))
                    (db_lock db)
      in if list_ex (\<lambda>l. lock_key l = key) locks then (False, db\<lparr>db_lock := locks\<rparr>)
         else (True, db\<lparr>db_lock := locks @ [\<lparr>lock_key = key, lock_updatedAt = now\<rparr>]\<rparr>))"

definition releaseLock :: "string \<Rightarrow> database \<Rightarrow> database" where
  "releaseLock key db = db\<lparr>db_lock := filter (\<lambda>l. lock_key l \<noteq> key) (db_lock db)\<rparr>"

text \<open>
  \<open>findFirst\<close> over the organization's \<open>credit_topup\<close> transactions, \<open>orderBy createdAt desc\<close>:
  the latest one (the first of them in the table, among equally late ones).
\<close>

definition recentTransaction :: "database \<Rightarrow> string \<Rightarrow> transaction_row option" where
  "recentTransaction db organizationId =
     (case filter (\<lambda>t. tx_organizationId t = organizationId \<and> tx_type t = ''credit_topup'')
             (db_transaction db) of
        [] \<Rightarrow> None
      | t # ts \<Rightarrow>
          Some (foldl (\<lambda>latest u. if tx_createdAt u > tx_createdAt latest then u else latest) t ts))"

text \<open>
  The check on the recent transaction: created within the last hour, and \<open>pending\<close> or
  \<open>failed\<close>.
\<close>

definition skipsForRecent :: "nat \<Rightarrow> transaction_row option \<Rightarrow> bool" where
  "skipsForRecent now recent =
     (case recent of
        None \<Rightarrow> False
      | Some t \<Rightarrow>
          int (tx_createdAt t) > int now - 60 * 60 * 1000
          \<and> (tx_status t = ''pending'' \<or> tx_status t = ''failed''))"

definition fresh_id :: "transaction_row list \<Rightarrow> nat" where
  "fresh_id txs = Suc (foldr max (map tx_id txs) 0)"

definition update_transaction ::
  "nat \<Rightarrow> (transaction_row \<Rightarrow> transaction_row) \<Rightarrow> database \<Rightarrow> database" where
  "update_transaction i f db =
     db\<lparr>db_transaction := map (\<lambda>t. if tx_id t = i then f t else t) (db_transaction db)\<rparr>"

text \<open>The body of the loop over the organizations that need a top-up.\<close>

definition topUpOrganization :: "topup_env \<Rightarrow> database \<Rightarrow> organization \<Rightarrow> database" where
  "topUpOrganization env db org =
     (if skipsForRecent (te_now env) (recentTransaction db (org_id org)) then db
      else
        (case find (\<lambda>p. pmt_organizationId p = org_id org \<and> pmt_isDefault p)
                (db_paymentMethod db) of
           None \<Rightarrow> db
         | Some defaultPaymentMethod \<Rightarrow>
             (case te_paymentMethods_retrieve env
                     (pmt_stripePaymentMethodId defaultPaymentMethod) of
                Throws \<Rightarrow> db
              | Returns cardCountry \<Rightarrow>
                  (let topUpAmount =
                         (case org_autoTopUpAmount org of None \<Rightarrow> 10 | Some a \<Rightarrow> a);
                       feeBreakdown = te_calculateFees env topUpAmount (org_plan org) cardCountry;
                       pendingTransaction =
                         \<lparr>tx_id = fresh_id (db_transaction db),
                          tx_organizationId = org_id org,
                          tx_type = ''credit_topup'',
                          tx_creditAmount = baseAmount feeBreakdown,
                          tx_amount = totalAmount feeBreakdown,
                          tx_status = ''pending'',
                          tx_description = ''Auto top-up'',
                          tx_stripePaymentIntentId = None,
                          tx_createdAt = te_now env\<rparr>;
                       db1 = db\<lparr>db_transaction := db_transaction db @ [pendingTransaction]\<rparr>
                   in case te_paymentIntents_create env
                             (pmt_stripePaymentMethodId defaultPaymentMethod)
                             (case org_stripeCustomerId org of None \<Rightarrow> [] | Some c \<Rightarrow> c)
                             (totalAmount feeBreakdown) of
                        Throws \<Rightarrow>
                          update_transaction (tx_id pendingTransaction)
                            (\<lambda>t. t\<lparr>tx_status := ''failed'',
                                    tx_description := ''Auto top-up failed''\<rparr>) db1
                      | Returns (intentId, status) \<Rightarrow>
                          (let db2 = update_transaction (tx_id pendingTransaction)
                                       (\<lambda>t. t\<lparr>tx_stripePaymentIntentId := Some intentId\<rparr>) db1
                           in if status = ''succeeded'' \<or> status = ''requires_action'' then db2
                              else update_transaction (tx_id pendingTransaction)
                                     (\<lambda>t. t\<lparr>tx_status := ''failed'',
                                             tx_description := ''Auto top-up failed''\<rparr>) db2)))))"

text \<open>
  \<open>Number(org.autoTopUpThreshold || 10)\<close>; the credits and the threshold are decimal
  columns.
\<close>

definition needsTopUp :: "organization \<Rightarrow> bool" where
  "needsTopUp org =
     (org_autoTopUpEnabled org
      \<and> org_credits org < (case org_autoTopUpThreshold org of None \<Rightarrow> 10 | Some t \<Rightarrow> t))"

definition processAutoTopUp :: "topup_env \<Rightarrow> database \<Rightarrow> database" where
  "processAutoTopUp env db =
     (case acquireLock AUTO_TOPUP_LOCK_KEY (te_now env) db of
        (False, db') \<Rightarrow> db'
      | (True, db1) \<Rightarrow>
          releaseLock AUTO_TOPUP_LOCK_KEY
            (foldl (topUpOrganization env) db1 (filter needsTopUp (db_organization db1))))"

subsection \<open>The log queue\<close>

text \<open>
  Modelled from the spec: the queue operations of \<open>lib/redis\<close>, which are not among the
  sources. The spec has a main and a processing queue; "claim batch: atomically move up
  to N messages from main to processing", "acknowledge: remove the batch from
  processing", and recovery: "any messages still in the processing queue are atomically
  moved back to the main queue". A queue is the list of its messages, oldest first;
  claiming returns nothing when the main queue is empty. The source acknowledges a batch
  by the number of its messages: that many messages are taken from the end of the
  processing queue, where the claim has put the batch.
\<close>

record queues =
  q_main :: "string list"
  q_processing :: "string list"

definition moveToProcessingQueue :: "nat \<Rightarrow> queues \<Rightarrow> (string list \<times> queues) option" where
  "moveToProcessingQueue n q =
     (if q_main q = [] then None
      else Some (take n (q_main q),
                 \<lparr>q_main = drop n (q_main q), q_processing = q_processing q @ take n (q_main q)\<rparr>))"

definition removeFromProcessingQueue :: "nat \<Rightarrow> queues \<Rightarrow> queues" where
  "removeFromProcessingQueue n q =
     q\<lparr>q_processing := take (length (q_processing q) - n) (q_processing q)\<rparr>"

definition recoverProcessingQueue :: "queues \<Rightarrow> queues" where
  "recoverProcessingQueue q = \<lparr>q_main = q_main q @ q_processing q, q_processing = []\<rparr>"

text \<open>
  The state of the worker, and what can go wrong in one pass: the first operation on the
  queue or the database that throws (\<open>UpdateThrows k\<close>: the \<open>k\<close>-th credit update,
  counting from 0), and whether \<open>recoverProcessingQueue\<close> throws in the \<open>catch\<close> block.
\<close>

record worker_state =
  ws_queues :: queues
  ws_db :: database

datatype fault =
    NoFault
  | ClaimThrows
  | GetOrganizationThrows
  | InsertThrows
  | GetProjectThrows
  | UpdateThrows nat
  | RemoveThrows

record faults =
  f_fault :: fault
  f_recover_throws :: bool

text \<open>The retention policy applied to a row before it is inserted.\<close>

definition applyRetention :: "database \<Rightarrow> log_row \<Rightarrow> log_row" where
  "applyRetention db data =
     (case getOrganization db (lg_organizationId data) of
        None \<Rightarrow> data
      | Some organization \<Rightarrow>
          (if org_retentionLevel organization = ''none''
           then data\<lparr>lg_messages := None, lg_content := JUndefined\<rparr>
           else data))"

text \<open>
  \<open>creditUpdates\<close>: the costs of the rows that are billed, summed per organization in the
  order in which the organizations first occur. The sums are those of the rationals; the
  source adds doubles, which rounds them.
\<close>

definition billed :: "log_row \<Rightarrow> bool" where
  "billed data = (\<not> falsy_num (lg_cost data) \<and> \<not> lg_cached data)"

definition creditUpdates :: "database \<Rightarrow> log_row list \<Rightarrow> (string \<times> rat) list" where
  "creditUpdates db logData =
     foldl (\<lambda>updates data.
              if \<not> billed data then updates
              else if map_option pj_mode (getProject db (lg_projectId data)) = Some ''api-keys''
              then updates
              else AList.update (lg_organizationId data)
                     ((case map_of updates (lg_organizationId data) of
                         None \<Rightarrow> 0
                       | Some currentCost \<Rightarrow> currentCost)
                      + or0 (lg_cost data))
                     updates)
       [] logData"

definition debit :: "database \<Rightarrow> string \<times> rat \<Rightarrow> database" where
  "debit db u =
     db\<lparr>db_organization :=
          map (\<lambda>organization.
                 if org_id organization = fst u
                 then organization\<lparr>org_credits := org_credits organization - snd u\<rparr>
                 else organization)
            (db_organization db)\<rparr>"

text \<open>
  The \<open>try\<close> block of \<open>processLogQueue\<close> for a claimed batch: the state it reaches, and
  whether it has thrown. \<open>parse\<close> is \<open>JSON.parse\<close> on a message (\<open>None\<close>: it throws, or the
  value is not a row).
\<close>

definition persist ::
  "(string \<Rightarrow> log_row option) \<Rightarrow> fault \<Rightarrow> worker_state \<Rightarrow> string list \<Rightarrow> worker_state \<times> bool" where
  "persist parse flt st messages =
     (let logData = List.map_filter parse messages in
      if logData = [] then
        (if flt = RemoveThrows then (st, True)
         else (st\<lparr>ws_queues := removeFromProcessingQueue (length messages) (ws_queues st)\<rparr>,
               False))
      else if flt = GetOrganizationThrows then (st, True)
      else if flt = InsertThrows then (st, True)
      else
        (let db1 = (ws_db st)\<lparr>db_log := db_log (ws_db st) @ map (applyRetention (ws_db st)) logData\<rparr>;
             updates = creditUpdates db1 logData
         in if flt = GetProjectThrows \<and> list_ex billed logData then
              (st\<lparr>ws_db := db1\<rparr>, True)
            else
              (case flt of
                 UpdateThrows k \<Rightarrow>
                   (if k < length updates
                    then (st\<lparr>ws_db := foldl debit db1 (take k updates)\<rparr>, True)
                    else (st\<lparr>ws_db := foldl debit db1 updates,
                             ws_queues :=
                               removeFromProcessingQueue (length messages) (ws_queues st)\<rparr>,
                          False))
               | RemoveThrows \<Rightarrow> (st\<lparr>ws_db := foldl debit db1 updates\<rparr>, True)
               | _ \<Rightarrow>
                   (st\<lparr>ws_db := foldl debit db1 updates,
                       ws_queues := removeFromProcessingQueue (length messages) (ws_queues st)\<rparr>,
                    False))))"

text \<open>
  \<open>processLogQueue\<close>. It ends by returning (\<open>Completed\<close>) or, when
  \<open>moveToProcessingQueue\<close> throws, by an exception that the worker loop catches (\<open>Failed\<close>).
\<close>

datatype pass = Completed worker_state | Failed worker_state

definition processLogQueue :: "(string \<Rightarrow> log_row option) \<Rightarrow> faults \<Rightarrow> worker_state \<Rightarrow> pass" where
  "processLogQueue parse f st =
     (if f_fault f = ClaimThrows then Failed st
      else
        (case moveToProcessingQueue 10 (ws_queues st) of
           None \<Rightarrow> Completed st
         | Some (messages, q) \<Rightarrow>
             (case persist parse (f_fault f) (st\<lparr>ws_queues := q\<rparr>) messages of
                (st', False) \<Rightarrow> Completed st'
              | (st', True) \<Rightarrow>
                  Completed
                    (if f_recover_throws f then st'
                     else st'\<lparr>ws_queues := recoverProcessingQueue (ws_queues st')\<rparr>))))"

text \<open>
  \<open>startWorker\<close>: the recovery at startup and the loop. The loop runs once for every
  element of the list of faults (afterwards \<open>shouldStop\<close> is set); \<open>interval\<close> is the
  source's \<open>count\<close>, 120 in production and 5 otherwise. Whether a pass returns or throws, the loop goes on.
\<close>

definition startup_recovery :: "bool \<Rightarrow> worker_state \<Rightarrow> worker_state" where
  "startup_recovery recover_throws st =
     (if recover_throws then st
      else st\<lparr>ws_queues := recoverProcessingQueue (ws_queues st)\<rparr>)"

fun worker_loop ::
  "(string \<Rightarrow> log_row option) \<Rightarrow> topup_env \<Rightarrow> nat \<Rightarrow> nat \<Rightarrow> faults list \<Rightarrow> worker_state
    \<Rightarrow> worker_state" where
  "worker_loop parse env interval autoTopUpCounter [] st = st"
| "worker_loop parse env interval autoTopUpCounter (f # fs) st =
     (case processLogQueue parse f st of
        Failed st' \<Rightarrow> worker_loop parse env interval autoTopUpCounter fs st'
      | Completed st' \<Rightarrow>
          (if Suc autoTopUpCounter \<ge> interval
           then worker_loop parse env interval 0 fs
                  (st'\<lparr>ws_db := processAutoTopUp env (ws_db st')\<rparr>)
           else worker_loop parse env interval (Suc autoTopUpCounter) fs st'))"

definition startWorker ::
  "(string \<Rightarrow> log_row option) \<Rightarrow> topup_env \<Rightarrow> nat \<Rightarrow> bool \<Rightarrow> faults list \<Rightarrow> worker_state
    \<Rightarrow> worker_state" where
  "startWorker parse env interval recover_throws fs st =
     worker_loop parse env interval 0 fs (startup_recovery recover_throws st)"

section \<open>Sample data\<close>

subsection \<open>A sample deployment\<close>

text \<open>
  A small catalog, database and environment on which the handler can be run: one project
  in \<open>credits\<close> mode whose organization has credit, environment keys for OpenAI and
  Anthropic, no stored provider keys, caching switched off, and an upstream that fails.
  The examples below change single fields of it.
\<close>

definition sample_models :: "model_def list" where
  "sample_models =
     [\<lparr>md_id = ''auto'',
       md_providers = [\<lparr>pm_providerId = ''llmgateway'', pm_modelName = ''auto'',
                        pm_maxOutput = None, pm_streaming = True, pm_reasoning = None\<rparr>],
       md_jsonOutput = None, md_deprecatedAt = None, md_deactivatedAt = None\<rparr>,
      \<lparr>md_id = ''custom'',
       md_providers = [\<lparr>pm_providerId = ''llmgateway'', pm_modelName = ''custom'',
                        pm_maxOutput = None, pm_streaming = True, pm_reasoning = None\<rparr>],
       md_jsonOutput = None, md_deprecatedAt = None, md_deactivatedAt = None\<rparr>,
      \<lparr>md_id = ''gpt-4o-mini'',
       md_providers = [\<lparr>pm_providerId = ''openai'', pm_modelName = ''gpt-4o-mini'',
                        pm_maxOutput = Some 16384, pm_streaming = True, pm_reasoning = None\<rparr>],
       md_jsonOutput = Some True, md_deprecatedAt = None, md_deactivatedAt = None\<rparr>,
      \<lparr>md_id = ''claude-3-5-sonnet'',
       md_providers = [\<lparr>pm_providerId = ''anthropic'', pm_modelName = ''claude-3-5-sonnet-latest'',
                        pm_maxOutput = Some 8192, pm_streaming = True, pm_reasoning = None\<rparr>],
       md_jsonOutput = None, md_deprecatedAt = None, md_deactivatedAt = None\<rparr>]"

definition sample_providers :: "provider_def list" where
  "sample_providers =
     [\<lparr>pv_id = ''llmgateway'', pv_cancellation = None\<rparr>,
      \<lparr>pv_id = ''openai'', pv_cancellation = Some True\<rparr>,
      \<lparr>pv_id = ''anthropic'', pv_cancellation = Some True\<rparr>]"

definition sample_organization :: organization where
  "sample_organization =
     \<lparr>org_id = ''org-1'', org_credits = 5, org_retentionLevel = ''retain'',
      org_autoTopUpEnabled = True, org_autoTopUpThreshold = Some 10,
      org_autoTopUpAmount = Some 5, org_plan = ''free'',
      org_stripeCustomerId = Some ''cus-1''\<rparr>"

definition sample_project :: project where
  "sample_project = \<lparr>pj_id = ''proj-1'', pj_organizationId = ''org-1'', pj_mode = ''credits''\<rparr>"

definition sample_db :: database where
  "sample_db =
     \<lparr>db_apiKey = [\<lparr>ak_id = ''key-1'', ak_token = ''secret'', ak_projectId = ''proj-1'',
                      ak_status = ''active''\<rparr>],
      db_project = [sample_project],
      db_providerKey = [],
      db_organization = [sample_organization],
      db_log = [], db_transaction = [],
      db_paymentMethod = [\<lparr>pmt_organizationId = ''org-1'', pmt_isDefault = True,
                             pmt_stripePaymentMethodId = ''pm-1''\<rparr>],
      db_lock = []\<rparr>"

text \<open>
  \<open>toString\<close> on the numbers that occur as token counts: a natural number, or one with the
  fraction \<open>.25\<close>, \<open>.5\<close> or \<open>.75\<close> of an estimate.
\<close>

definition sample_toString :: "rat \<Rightarrow> string" where
  "sample_toString n =
     digits (nat \<lfloor>n\<rfloor>)
     @ (if n - of_int \<lfloor>n\<rfloor> = 1 / 4 then ''.25''
        else if n - of_int \<lfloor>n\<rfloor> = 1 / 2 then ''.5''
        else if n - of_int \<lfloor>n\<rfloor> = 3 / 4 then ''.75''
        else [])"

definition sample_env :: env where
  "sample_env =
     \<lparr>env_models = sample_models,
      env_providers = sample_providers,
      env_db = sample_db,
      env_now = 1700000000000,
      env_elapsed = 120,
      env_shortid = ''generated-request-id'',
      env_hasProviderEnvironmentToken = (\<lambda>p. p = ''openai'' \<or> p = ''anthropic''),
      env_getProviderEnvVar =
        (\<lambda>p. if p = ''openai'' then Some ''OPENAI_API_KEY''
              else if p = ''anthropic'' then Some ''ANTHROPIC_API_KEY'' else None),
      env_process_env =
        (\<lambda>v. if v = ''OPENAI_API_KEY'' then Some ''sk-openai''
              else if v = ''ANTHROPIC_API_KEY'' then Some ''sk-anthropic'' else None),
      env_getCheapestFromAvailableProviders = (\<lambda>ps m. None),
      env_getProviderEndpoint = (\<lambda>p b m t. Returns (Some (''https://upstream/'' @ p))),
      env_getModelStreamingSupport = (\<lambda>m p. Some True),
      env_isCachingEnabled = (\<lambda>p. (False, 0)),
      env_generateCacheKey = ci_model,
      env_getCache = (\<lambda>k. None),
      env_calculateCosts =
        (\<lambda>m p pt ct cat ms c.
           \<lparr>inputCost = None, outputCost = None, cachedInputCost = None, requestCost = None,
            totalCost = None, estimatedCost = False\<rparr>),
      env_tokenizer = \<lparr>encodeChat = (\<lambda>ms. Some 8), encode = (\<lambda>s. Some 2)\<rparr>,
      env_toString = sample_toString,
      env_JSON_parse = (\<lambda>s. None),
      env_JSON_stringify_length = (\<lambda>j. 0),
      env_mistral_json = (\<lambda>s. s),
      env_fetch = (\<lambda>url token cancel. FetchError)\<rparr>"

definition sample_request :: request where
  "sample_request =
     \<lparr>rq_headers = [(''Authorization'', ''Bearer secret'')],
      rq_model = ''gpt-4o-mini'',
      rq_messages = [\<lparr>m_role = ''user'', m_content = ContentString ''hello'', m_name = None\<rparr>],
      rq_temperature = None, rq_max_tokens = None, rq_top_p = None,
      rq_frequency_penalty = None, rq_presence_penalty = None, rq_response_format = None,
      rq_stream = False, rq_tools = JUndefined, rq_tool_choice = JUndefined,
      rq_reasoning_effort = None\<rparr>"

text \<open>Variations of the sample deployment and request.\<close>

definition with_fetch :: "fetch_result \<Rightarrow> env" where
  "with_fetch r = sample_env\<lparr>env_fetch := (\<lambda>url token cancel. r)\<rparr>"

definition ok_response :: upstream_response where
  "ok_response =
     \<lparr>res_status = 200, res_statusText = ''OK'', res_text = [],
      res_json = Some (JObj
        [(''id'', JStr ''chatcmpl-1''), (''object'', JStr ''chat.completion''),
         (''choices'', JArr [JObj
            [(''index'', JNum 0),
             (''message'', JObj [(''role'', JStr ''assistant''), (''content'', JStr ''Hi'')]),
             (''finish_reason'', JStr ''stop'')]]),
         (''usage'', JObj [(''prompt_tokens'', JNum 9), (''completion_tokens'', JNum 1),
                          (''total_tokens'', JNum 10)])]),
      res_body = None\<rparr>"

definition failed_response :: upstream_response where
  "failed_response =
     \<lparr>res_status = 503, res_statusText = ''Service Unavailable'', res_text = ''overloaded'',
      res_json = None, res_body = None\<rparr>"

text \<open>No provider has an environment key.\<close>

definition no_keys_env :: env where
  "no_keys_env =
     sample_env\<lparr>env_hasProviderEnvironmentToken := (\<lambda>p. False),
                 env_process_env := (\<lambda>v. None)\<rparr>"

text \<open>
  Caching is switched on and holds a response under the key of the sample request;
  \<open>broke_cached_env\<close> is the same deployment after the organization has used up its credits.
\<close>

definition cached_json :: json where
  "cached_json =
     JObj [(''id'', JStr ''chatcmpl-0''), (''object'', JStr ''chat.completion''),
           (''choices'', JArr [JObj
              [(''index'', JNum 0),
               (''message'', JObj [(''role'', JStr ''assistant''), (''content'', JStr ''Hello'')]),
               (''finish_reason'', JStr ''stop'')]]),
           (''usage'', JObj [(''prompt_tokens'', JNum 9), (''completion_tokens'', JNum 1),
                            (''total_tokens'', JNum 10)])]"

definition cached_env :: env where
  "cached_env =
     sample_env\<lparr>env_isCachingEnabled := (\<lambda>p. (True, 60)),
                 env_getCache := (\<lambda>k. if k = ''gpt-4o-mini'' then Some cached_json else None)\<rparr>"

definition broke_cached_env :: env where
  "broke_cached_env =
     cached_env\<lparr>env_db := sample_db\<lparr>db_organization := [sample_organization\<lparr>org_credits := 0\<rparr>]\<rparr>\<rparr>"

text \<open>
  A project in \<open>hybrid\<close> mode whose organization has stored an OpenAI key; the upstream
  answers 503.
\<close>

definition stored_key :: provider_key where
  "stored_key =
     \<lparr>pk_id = ''pk-1'', pk_organizationId = ''org-1'', pk_provider = ''openai'', pk_name = None,
      pk_token = ''sk-stored'', pk_baseUrl = None, pk_status = ''active''\<rparr>"

definition hybrid_env :: env where
  "hybrid_env =
     (with_fetch (Response failed_response))
       \<lparr>env_db := sample_db\<lparr>db_project := [sample_project\<lparr>pj_mode := ''hybrid''\<rparr>],
                            db_providerKey := [stored_key]\<rparr>\<rparr>"

text \<open>
  An Anthropic upstream that streams a short answer: four SSE events in three chunks,
  the usual sequence \<open>message_start\<close>, \<open>content_block_delta\<close>, \<open>message_delta\<close>,
  \<open>message_stop\<close>. \<open>JSON.parse\<close> is given by its value on the four \<open>data:\<close> lines.
\<close>

definition anthropic_body :: "string list" where
  \<open>anthropic_body =
     [''event: message_start'' @ [CHR 0x0A]
        @ ''data: {"type":"message_start","message":{"usage":{"input_tokens":9}}}''
        @ [CHR 0x0A, CHR 0x0A],
      ''event: content_block_delta'' @ [CHR 0x0A]
        @ ''data: {"type":"content_block_delta","index":0,"delta":{"type":"text_delta","text":"Hi"}}''
        @ [CHR 0x0A, CHR 0x0A]
        @ ''event: message_delta'' @ [CHR 0x0A]
        @ ''data: {"type":"message_delta","delta":{"stop_reason":"end_turn"},"usage":{"output_tokens":3}}''
        @ [CHR 0x0A, CHR 0x0A],
      ''event: message_stop'' @ [CHR 0x0A]
        @ ''data: {"type":"message_stop"}''
        @ [CHR 0x0A, CHR 0x0A]]\<close>

definition anthropic_parse :: "string \<Rightarrow> json option" where
  \<open>anthropic_parse =
     map_of
       [(''{"type":"message_start","message":{"usage":{"input_tokens":9}}}'',
         JObj [(''type'', JStr ''message_start''),
               (''message'', JObj [(''usage'', JObj [(''input_tokens'', JNum 9)])])]),
        (''{"type":"content_block_delta","index":0,"delta":{"type":"text_delta","text":"Hi"}}'',
         JObj [(''type'', JStr ''content_block_delta''), (''index'', JNum 0),
               (''delta'', JObj [(''type'', JStr ''text_delta''), (''text'', JStr ''Hi'')])]),
        (''{"type":"message_delta","delta":{"stop_reason":"end_turn"},"usage":{"output_tokens":3}}'',
         JObj [(''type'', JStr ''message_delta''),
               (''delta'', JObj [(''stop_reason'', JStr ''end_turn'')]),
               (''usage'', JObj [(''output_tokens'', JNum 3)])]),
        (''{"type":"message_stop"}'', JObj [(''type'', JStr ''message_stop'')])]\<close>

definition anthropic_env :: env where
  "anthropic_env =
     (with_fetch (Response
        \<lparr>res_status = 200, res_statusText = ''OK'', res_text = [], res_json = None,
         res_body = Some (anthropic_body, EndOfStream)\<rparr>))
       \<lparr>env_JSON_parse := anthropic_parse\<rparr>"

definition anthropic_request :: request where
  "anthropic_request = sample_request\<lparr>rq_model := ''claude-3-5-sonnet'', rq_stream := True\<rparr>"

subsection \<open>A sample worker\<close>

text \<open>
  Two queued messages that parse to a billed log row, and a payment processor that
  accepts every payment method and leaves every payment intent in \<open>requires_action\<close>.
\<close>

definition sample_row :: log_row where
  "sample_row =
     (unset_row (createLogEntry ''req-1'' sample_project
        \<lparr>ak_id = ''key-1'', ak_token = ''secret'', ak_projectId = ''proj-1'',
         ak_status = ''active''\<rparr>
        None ''gpt-4o-mini'' ''openai'' ''gpt-4o-mini'' None (rq_messages sample_request)
        None None None None None []))
       \<lparr>lg_cost := Some (1 / 100)\<rparr>"

definition sample_parse :: "string \<Rightarrow> log_row option" where
  "sample_parse s = (if s = ''not json'' then None else Some sample_row)"

definition sample_worker :: worker_state where
  "sample_worker =
     \<lparr>ws_queues = \<lparr>q_main = [''message 1'', ''message 2''], q_processing = []\<rparr>,
      ws_db = sample_db\<rparr>"

definition sample_topup_env :: topup_env where
  "sample_topup_env =
     \<lparr>te_now = 1700000000000,
      te_paymentMethods_retrieve = (\<lambda>m. Returns (Some ''US'')),
      te_paymentIntents_create = (\<lambda>m c a. Returns (''pi-1'', ''requires_action'')),
      te_calculateFees =
        (\<lambda>amount plan country. \<lparr>baseAmount = amount, totalFees = 1, totalAmount = amount + 1\<rparr>)\<rparr>"

text \<open>
  The sample organization (credits 5, threshold 10, top-up amount 5) five minutes after
  a top-up of it has succeeded.
\<close>

definition topped_up_db :: database where
  "topped_up_db =
     sample_db\<lparr>db_transaction :=
       [\<lparr>tx_id = 1, tx_organizationId = ''org-1'', tx_type = ''credit_topup'',
         tx_creditAmount = 5, tx_amount = 6, tx_status = ''succeeded'',
         tx_description = ''Auto top-up'', tx_stripePaymentIntentId = Some ''pi-0'',
         tx_createdAt = 1700000000000 - 5 * 60 * 1000\<rparr>]\<rparr>"

text \<open>The same, with the top-up still pending.\<close>

definition pending_db :: database where
  "pending_db =
     sample_db\<lparr>db_transaction :=
       [\<lparr>tx_id = 1, tx_organizationId = ''org-1'', tx_type = ''credit_topup'',
         tx_creditAmount = 5, tx_amount = 6, tx_status = ''pending'',
         tx_description = ''Auto top-up'', tx_stripePaymentIntentId = Some ''pi-0'',
         tx_createdAt = 1700000000000 - 5 * 60 * 1000\<rparr>]\<rparr>"

text \<open>The transactions of an organization.\<close>

definition transactions_of :: "database \<Rightarrow> string \<Rightarrow> transaction_row list" where
  "transactions_of db organizationId =
     filter (\<lambda>t. tx_organizationId t = organizationId) (db_transaction db)"

subsection \<open>Notions used in the statements\<close>

text \<open>
  A request that does not present the token of an api key as \<open>Authorization: Bearer <token>\<close>:
  it has no \<open>Authorization\<close> header, or the header does not contain \<open>Bearer\<close> and a space,
  or it is \<open>Bearer\<close> and a space with nothing after them, or it is \<open>Bearer\<close>, a space and a
  token that no api key has.
\<close>

definition unauthorized :: "env \<Rightarrow> request \<Rightarrow> bool" where
  "unauthorized e rq =
     (case header rq ''Authorization'' of
        None \<Rightarrow> True
      | Some auth \<Rightarrow>
          \<not> str_includes auth ''Bearer ''
          \<or> auth = ''Bearer ''
          \<or> (startsWith auth ''Bearer ''
              \<and> \<not> list_ex (\<lambda>k. ak_token k = drop (length ''Bearer '') auth)
                    (db_apiKey (env_db e))))"

text \<open>The finish reasons of the choices of a response or chunk, in their order.\<close>

definition finish_reasons :: "json \<Rightarrow> json list" where
  "finish_reasons response =
     (case get response ''choices'' of
        JArr choices \<Rightarrow> map (\<lambda>choice. get choice ''finish_reason'') choices
      | _ \<Rightarrow> [])"

text \<open>The messages that the worker holds, in the main and in the processing queue.\<close>

definition queued :: "worker_state \<Rightarrow> string list" where
  "queued st = q_main (ws_queues st) @ q_processing (ws_queues st)"

text \<open>
  A message is persisted when it does not parse or its row, with the retention policy
  applied, is in the log; it is kept when it is still in a queue or persisted.
\<close>

definition persisted :: "(string \<Rightarrow> log_row option) \<Rightarrow> database \<Rightarrow> worker_state \<Rightarrow> string \<Rightarrow> bool" where
  "persisted parse db w m =
     (case parse m of
        None \<Rightarrow> True
      | Some row \<Rightarrow> applyRetention db row \<in> set (db_log (ws_db w)))"

definition kept :: "(string \<Rightarrow> log_row option) \<Rightarrow> database \<Rightarrow> worker_state \<Rightarrow> string \<Rightarrow> bool" where
  "kept parse db w m = (m \<in> set (queued w) \<or> persisted parse db w m)"

text \<open>A pass of the worker in which nothing throws.\<close>

definition no_fault :: faults where
  "no_fault = \<lparr>f_fault = NoFault, f_recover_throws = False\<rparr>"

text \<open>The events of a response, and the names of the events.\<close>

fun events_of :: "response \<Rightarrow> sse_message list" where
  "events_of (EventStream evs) = evs"
| "events_of (BrokenStream evs) = evs"
| "events_of _ = []"

text \<open>The \<open>auto\<close> request as the handler's first block resolves it.\<close>

definition auto_requested :: requested where
  "auto_requested =
     \<lparr>rs_requestedModel = ''auto'', rs_requestedProvider = Some ''llmgateway'',
      rs_customProviderName = None\<rparr>"

section \<open>Properties of token estimation\<close>

lemma js_round_quarter: "js_round (of_nat n / 4) = (int n + 2) div 4"
proof -
  have "(of_nat n :: rat) / 4 + 1 / 2 = of_int (int n + 2) / of_int 4"
    by (simp add: field_simps)
  then show ?thesis
    unfolding js_round_def by (simp only: floor_divide_of_int_eq)
qed

text \<open>
  C8, as stated, fails: for a text of five characters \<open>estimateTokensFromContent\<close> gives
  \<open>round(5/4) = 1\<close> where the ceiling is 2, and the fallback inside \<open>estimateTokens\<close> gives
  the quotient \<open>5/4\<close> itself.
\<close>

theorem fallback_estimate_not_ceiling:
  "estimateTokensFromContent ''abcde'' = 1
   \<and> \<lceil>(of_nat (length ''abcde'') :: rat) / 4\<rceil> = 2
   \<and> snd (estimateTokens \<lparr>encodeChat = (\<lambda>ms. None), encode = (\<lambda>s. None)\<rparr> []
           (Some ''abcde'') (Some 7) None) = Some (5 / 4)"
  by code_simp

text \<open>
  C8 (amended): \<open>estimateTokensFromContent\<close> returns the length divided by four and rounded
  to the nearest integer (a half rounds up), and never less than 1. When the tokenizer
  throws, \<open>estimateTokens\<close> falls back to the unrounded quotient: the length of a non-empty
  completion divided by four, and the summed content lengths of the messages divided by
  four for the prompt.
\<close>

theorem fallback_token_estimate:
  "estimateTokensFromContent s = max 1 ((int (length s) + 2) div 4)
   \<and> 1 \<le> estimateTokensFromContent s
   \<and> (encode tk s = None \<and> s \<noteq> [] \<and> falsy_num ct \<longrightarrow>
        snd (estimateTokens tk ms (Some s) pt ct) = Some (of_nat (length s) / 4))
   \<and> (encodeChat tk ms = None \<and> ms \<noteq> [] \<and> falsy_num pt \<longrightarrow>
        fst (estimateTokens tk ms c pt ct) = Some (of_nat (messages_length ms) / 4))"
  by (simp add: estimateTokensFromContent_def js_round_quarter estimateTokens_def Let_def)

theorem fallback_token_estimate_witness:
  "estimateTokensFromContent ''abcdef'' = 2
   \<and> snd (estimateTokens \<lparr>encodeChat = (\<lambda>ms. None), encode = (\<lambda>s. None)\<rparr>
           [\<lparr>m_role = ''user'', m_content = ContentString ''hello'', m_name = None\<rparr>]
           (Some ''abcdef'') None None) = Some (3 / 2)
   \<and> fst (estimateTokens \<lparr>encodeChat = (\<lambda>ms. None), encode = (\<lambda>s. None)\<rparr>
           [\<lparr>m_role = ''user'', m_content = ContentString ''hello'', m_name = None\<rparr>]
           (Some ''abcdef'') None None) = Some (5 / 4)"
  using fallback_token_estimate
    [of "''abcdef''" "\<lparr>encodeChat = (\<lambda>ms. None), encode = (\<lambda>s. None)\<rparr>" None
        "[\<lparr>m_role = ''user'', m_content = ContentString ''hello'', m_name = None\<rparr>]" None
        "Some ''abcdef''"]
  by (simp add: falsy_num_def messages_length_def)

section \<open>Properties of finish-reason normalization\<close>

lemma toLowerCase_Nil_iff: "toLowerCase s = [] \<longleftrightarrow> s = []"
  by (simp add: toLowerCase_def)

lemma digits_chars: "set (digits n) \<subseteq> set ''0123456789''"
proof (induction n rule: digits.induct)
  case (1 n)
  have "''0123456789'' ! k \<in> set ''0123456789''" if "k < 10" for k
    using that by (intro nth_mem) simp
  then have a: "''0123456789'' ! (n mod 10) \<in> set ''0123456789''"
    "n < 10 \<Longrightarrow> ''0123456789'' ! n \<in> set ''0123456789''"
    by simp_all
  show ?case
  proof (cases "n < 10")
    case True
    with a show ?thesis
      by (subst digits.simps) simp
  next
    case False
    with 1 a show ?thesis
      by (subst digits.simps) simp
  qed
qed

lemma map_of_indexed:
  assumes "\<not> set k \<subseteq> set ''0123456789''"
  shows "map_of (indexed xs) k = None"
proof -
  have "k \<notin> set (map digits [0..<length xs])"
    using assms digits_chars by auto
  then have "k \<notin> fst ` set (indexed xs)"
    unfolding indexed_def by (auto dest: set_zip_leftD)
  then show ?thesis
    by (simp add: map_of_eq_None_iff)
qed

lemma get_spread_with_same: "get (spread_with x k v) k = v"
  by (simp add: spread_with_def update_conv')

lemma get_spread_with:
  "\<not> set k' \<subseteq> set ''0123456789'' \<Longrightarrow>
   get (spread_with x k v) k' = (if k' = k then v else get x k')"
  by (cases x) (simp_all add: spread_with_def update_conv' map_of_indexed)

lemma finish_reason_of_completion:
  "finish_reason_of (completion now m message f usage) = f"
  by (simp add: finish_reason_of_def completion_def)

lemma lower_or_stop_JStr:
  "lower_or_stop (JStr s) = Some (JStr (if s = [] then ''stop'' else toLowerCase s))"
  by (simp add: toLowerCase_Nil_iff)

lemma unary_google:
  assumes "is_google p"
  shows "map_option finish_reason_of
           (transformToOpenAIFormat now p m j c rc (JStr s) pt ct tt rt cat tc)
         = Some (JStr (if s = ''STOP'' \<or> s = [] then ''stop'' else toLowerCase s))"
    and "map_option finish_reason_of
           (transformToOpenAIFormat now p m j c rc JNull pt ct tt rt cat tc)
         = Some (JStr ''stop'')"
  using assms
  by (simp_all add: transformToOpenAIFormat_def google_stop_def lower_or_stop_JStr
      finish_reason_of_completion del: lower_or_stop.simps(1))

lemma unary_anthropic:
  "map_option finish_reason_of
     (transformToOpenAIFormat now ''anthropic'' m j c rc (JStr s) pt ct tt rt cat tc)
   = Some (JStr (if s = ''end_turn'' \<or> s = [] then ''stop'' else toLowerCase s))"
  "map_option finish_reason_of
     (transformToOpenAIFormat now ''anthropic'' m j c rc JNull pt ct tt rt cat tc)
   = Some (JStr ''stop'')"
  by (simp_all add: transformToOpenAIFormat_def end_turn_stop_def lower_or_stop_JStr
      is_google_def finish_reason_of_completion del: lower_or_stop.simps(1))

lemma unary_without_id:
  assumes "p = ''inference.net'' \<or> p = ''together.ai'' \<or> p = ''groq''"
    and "j \<noteq> JNull" and "j \<noteq> JUndefined" and "\<not> truthy (get j ''id'')"
  shows "map_option finish_reason_of
           (transformToOpenAIFormat now p m j c rc fr pt ct tt rt cat tc)
         = Some (if truthy fr then fr else JStr ''stop'')"
  using assms
  by (auto simp add: transformToOpenAIFormat_def is_google_def finish_reason_of_completion
      js_or_def)

lemma unary_passthrough:
  assumes "\<not> is_google p" and "p \<noteq> ''anthropic''"
    and "p = ''inference.net'' \<or> p = ''together.ai'' \<or> p = ''groq'' \<longrightarrow> truthy (get j ''id'')"
  shows "transformToOpenAIFormat now p m j c rc fr pt ct tt rt cat tc = Some j"
proof -
  have "j \<noteq> JNull \<and> j \<noteq> JUndefined" if "truthy (get j ''id'')"
    using that by auto
  with assms show ?thesis
    by (auto simp add: transformToOpenAIFormat_def)
qed

lemma data_not_null: "get data k = JStr s \<Longrightarrow> data \<noteq> JNull \<and> data \<noteq> JUndefined"
  by auto

lemma anthropic_stop_JStr:
  "s \<noteq> [] \<Longrightarrow>
   anthropic_stop (JStr s)
     = Some (JStr (if s = ''end_turn'' then ''stop''
                   else if s = ''tool_use'' then ''tool_calls'' else toLowerCase s))"
  by (simp add: anthropic_stop_def toLowerCase_Nil_iff)

lemma finish_reason_of_anthropic_chunk:
  "finish_reason_of (anthropic_chunk now m data delta f) = f"
  by (simp add: finish_reason_of_def anthropic_chunk_def)

lemma finish_reason_of_google_chunk:
  "finish_reason_of (google_chunk now m data delta f) = f"
  by (simp add: finish_reason_of_def google_chunk_def)

lemma stream_anthropic_delta:
  assumes "get data ''type'' = JStr ''message_delta''"
    and "get (get data ''delta'') ''stop_reason'' = JStr s" and "s \<noteq> []"
  shows "map_option finish_reason_of (transformStreamingChunkToOpenAIFormat now ''anthropic'' m data)
     = Some (JStr (if s = ''end_turn'' then ''stop''
                   else if s = ''tool_use'' then ''tool_calls'' else toLowerCase s))"
proof -
  have "transformStreamingChunkToOpenAIFormat now ''anthropic'' m data
      = map_option (anthropic_chunk now m data (JObj [(''role'', JStr ''assistant'')]))
          (anthropic_stop (JStr s))"
    using assms data_not_null [OF assms(1)]
    by (simp add: transformStreamingChunkToOpenAIFormat_def)
  then show ?thesis
    using assms(3) by (simp add: anthropic_stop_JStr finish_reason_of_anthropic_chunk)
qed

lemma stream_anthropic_stop:
  assumes "get data ''type'' = JStr ''message_stop''"
  shows "\<not> truthy (get data ''stop_reason'') \<Longrightarrow>
     map_option finish_reason_of (transformStreamingChunkToOpenAIFormat now ''anthropic'' m data)
     = Some (JStr ''stop'')"
    and "get data ''stop_reason'' = JStr s \<Longrightarrow> s \<noteq> [] \<Longrightarrow>
     map_option finish_reason_of (transformStreamingChunkToOpenAIFormat now ''anthropic'' m data)
     = Some (JStr (if s = ''end_turn'' then ''stop''
                   else if s = ''tool_use'' then ''tool_calls'' else toLowerCase s))"
proof -
  have t: "transformStreamingChunkToOpenAIFormat now ''anthropic'' m data
      = map_option (anthropic_chunk now m data (JObj [(''role'', JStr ''assistant'')]))
          (anthropic_stop (js_or (get data ''stop_reason'') (JStr ''end_turn'')))"
    using assms data_not_null [OF assms]
    by (simp add: transformStreamingChunkToOpenAIFormat_def)
  show "map_option finish_reason_of (transformStreamingChunkToOpenAIFormat now ''anthropic'' m data)
     = Some (JStr ''stop'')" if "\<not> truthy (get data ''stop_reason'')"
    using that unfolding t
    by (simp add: js_or_def anthropic_stop_def finish_reason_of_anthropic_chunk)
  show "map_option finish_reason_of (transformStreamingChunkToOpenAIFormat now ''anthropic'' m data)
     = Some (JStr (if s = ''end_turn'' then ''stop''
                   else if s = ''tool_use'' then ''tool_calls'' else toLowerCase s))"
    if "get data ''stop_reason'' = JStr s" "s \<noteq> []"
    using that unfolding t
    by (simp add: js_or_def anthropic_stop_JStr finish_reason_of_anthropic_chunk)
qed

lemma stream_google:
  assumes "is_google p"
    and "\<not> truthy (get (elem (get (get (elem (get data ''candidates'') 0) ''content'') ''parts'') 0)
               ''text'')"
    and "get (elem (get data ''candidates'') 0) ''finishReason'' = JStr s" and "s \<noteq> []"
  shows "map_option finish_reason_of (transformStreamingChunkToOpenAIFormat now p m data)
     = Some (JStr (if s = ''STOP'' then ''stop'' else toLowerCase s))"
proof -
  have nn: "data \<noteq> JNull" "data \<noteq> JUndefined"
    using assms(3) by auto
  have pa: "p \<noteq> ''anthropic''"
    using assms(1) by (auto simp add: is_google_def)
  have "transformStreamingChunkToOpenAIFormat now p m data
      = map_option (google_chunk now m data (JObj [(''role'', JStr ''assistant'')]))
          (google_stop (JStr s))"
    using assms nn pa by (simp add: transformStreamingChunkToOpenAIFormat_def)
  then show ?thesis
    using assms(4)
    by (simp add: google_stop_def toLowerCase_Nil_iff finish_reason_of_google_chunk)
qed

lemma those_map_Some:
  "(\<And>x. x \<in> set xs \<Longrightarrow> f x \<noteq> None) \<Longrightarrow> those (map f xs) = Some (map (\<lambda>x. the (f x)) xs)"
  by (induction xs) (auto split: option.splits)

lemma map_choice_finish:
  assumes "choice \<noteq> JNull" and "choice \<noteq> JUndefined"
  shows "map_choice choice \<noteq> None"
    and "get (the (map_choice choice)) ''finish_reason'' = get choice ''finish_reason''"
  using assms by (simp_all add: map_choice_def get_spread_with)

lemma stream_passthrough:
  assumes "p \<noteq> ''anthropic''" and "\<not> is_google p"
    and "truthy (get data ''id'')" and "truthy (get data ''object'')"
    and "case get data ''choices'' of
           JArr choices \<Rightarrow> \<forall>choice \<in> set choices. choice \<noteq> JNull \<and> choice \<noteq> JUndefined
         | JNull \<Rightarrow> True | JUndefined \<Rightarrow> True | _ \<Rightarrow> False"
  shows "\<exists>out. transformStreamingChunkToOpenAIFormat now p m data = Some out
           \<and> finish_reasons out = finish_reasons data"
proof -
  have nn: "data \<noteq> JNull" "data \<noteq> JUndefined"
    using assms(3) by auto
  show ?thesis
  proof (cases "get data ''choices''")
    case (JArr cs)
    with assms(5) have "\<And>x. x \<in> set cs \<Longrightarrow> map_choice x \<noteq> None"
      by (simp add: map_choice_finish(1))
    then have t: "those (map map_choice cs) = Some (map (\<lambda>x. the (map_choice x)) cs)"
      by (rule those_map_Some)
    have "map (\<lambda>choice. get choice ''finish_reason'') (map (\<lambda>x. the (map_choice x)) cs)
          = map (\<lambda>choice. get choice ''finish_reason'') cs"
      using assms(5) JArr by (simp add: map_choice_finish(2))
    with t JArr assms(1-4) nn show ?thesis
      by (simp add: transformStreamingChunkToOpenAIFormat_def finish_reasons_def
          get_spread_with_same)
  qed (use assms nn in \<open>simp_all add: transformStreamingChunkToOpenAIFormat_def
      finish_reasons_def get_spread_with_same\<close>)
qed

lemma stream_completed:
  assumes "p \<noteq> ''anthropic''" and "\<not> is_google p"
    and "data \<noteq> JNull" and "data \<noteq> JUndefined"
    and "\<not> (truthy (get data ''id'') \<and> truthy (get data ''object''))"
  shows "\<exists>out. transformStreamingChunkToOpenAIFormat now p m data = Some out
           \<and> (if truthy (get data ''choices'') then get out ''choices'' = get data ''choices''
               else finish_reasons out
                    = [if truthy (get data ''finish_reason'') then get data ''finish_reason''
                       else JNull])"
  using assms
  by (auto simp add: transformStreamingChunkToOpenAIFormat_def finish_reasons_def js_or_def)

text \<open>
  C3, as stated, fails: no path maps \<open>MAX_TOKENS\<close> to \<open>length\<close>. Google's \<open>MAX_TOKENS\<close> is
  lowercased to \<open>max_tokens\<close>, in the unary response and in the streamed chunk.
\<close>

theorem max_tokens_not_mapped_to_length:
  "map_option finish_reason_of
     (transformToOpenAIFormat 0 ''google-ai-studio'' ''gemini-2.5-flash'' JNull JNull JNull
        (JStr ''MAX_TOKENS'') None None None JNull JNull JNull)
     = Some (JStr ''max_tokens'')
   \<and> map_option finish_reason_of
       (transformStreamingChunkToOpenAIFormat 0 ''google-ai-studio'' ''gemini-2.5-flash''
          (JObj [(''candidates'', JArr [JObj [(''finishReason'', JStr ''MAX_TOKENS'')]])]))
     = Some (JStr ''max_tokens'')"
  by code_simp

text \<open>
  C3 (amended): the finish reason is normalized per provider, and the unary and the
  streaming path differ. In the unary path (\<open>transformToOpenAIFormat\<close>):
  \<^item> Google (\<open>google-vertex\<close>, \<open>google-ai-studio\<close>): \<open>STOP\<close> maps to \<open>stop\<close>, any other non-empty
    string to its lowercase form (\<open>MAX_TOKENS\<close> to \<open>max_tokens\<close>), an empty string or \<open>null\<close>
    to \<open>stop\<close>.
  \<^item> Anthropic: \<open>end_turn\<close> maps to \<open>stop\<close>, any other non-empty string except \<open>tool_use\<close> to its
    lowercase form, an empty string or \<open>null\<close> to \<open>stop\<close>.
  \<^item> \<open>inference.net\<close>, \<open>together.ai\<close> and \<open>groq\<close>, when the body has no \<open>id\<close>: a finish reason
    that is truthy is passed on as it is, any other becomes \<open>stop\<close>.
  \<^item> These three when the body has an \<open>id\<close>, and every other provider: the body is returned
    as it is.

  In the streaming path (\<open>transformStreamingChunkToOpenAIFormat\<close>):
  \<^item> Anthropic, a \<open>message_delta\<close> event with a non-empty stop reason and a \<open>message_stop\<close>
    event with one: \<open>end_turn\<close> maps to \<open>stop\<close>, \<open>tool_use\<close> to \<open>tool_calls\<close>, any other string to
    its lowercase form; a \<open>message_stop\<close> event without a stop reason gives \<open>stop\<close>.
  \<^item> Google, a chunk without text whose first candidate has a non-empty finish reason:
    \<open>STOP\<close> maps to \<open>stop\<close>, any other string to its lowercase form.
  \<^item> Every other provider: in a chunk that has \<open>id\<close> and \<open>object\<close> every choice keeps its
    finish reason; a chunk that lacks one of the two keeps its choices if it has any, and
    otherwise gets one choice with the chunk's own \<open>finish_reason\<close> if that is truthy and
    \<open>null\<close> if not.
\<close>

theorem finish_reason_normalization:
  "(is_google p \<longrightarrow>
      map_option finish_reason_of
        (transformToOpenAIFormat now p m j c rc (JStr s) pt ct tt rt cat tc)
        = Some (JStr (if s = ''STOP'' \<or> s = [] then ''stop'' else toLowerCase s))
      \<and> map_option finish_reason_of
          (transformToOpenAIFormat now p m j c rc JNull pt ct tt rt cat tc)
        = Some (JStr ''stop''))
   \<and> (s \<noteq> ''tool_use'' \<longrightarrow>
      map_option finish_reason_of
        (transformToOpenAIFormat now ''anthropic'' m j c rc (JStr s) pt ct tt rt cat tc)
        = Some (JStr (if s = ''end_turn'' \<or> s = [] then ''stop'' else toLowerCase s)))
   \<and> map_option finish_reason_of
        (transformToOpenAIFormat now ''anthropic'' m j c rc JNull pt ct tt rt cat tc)
      = Some (JStr ''stop'')
   \<and> ((q = ''inference.net'' \<or> q = ''together.ai'' \<or> q = ''groq'')
        \<and> j \<noteq> JNull \<and> j \<noteq> JUndefined \<and> \<not> truthy (get j ''id'') \<longrightarrow>
      map_option finish_reason_of
        (transformToOpenAIFormat now q m j c rc fr pt ct tt rt cat tc)
        = Some (if truthy fr then fr else JStr ''stop''))
   \<and> (\<not> is_google q \<and> q \<noteq> ''anthropic''
        \<and> (q = ''inference.net'' \<or> q = ''together.ai'' \<or> q = ''groq''
             \<longrightarrow> truthy (get j ''id'')) \<longrightarrow>
      transformToOpenAIFormat now q m j c rc fr pt ct tt rt cat tc = Some j)
   \<and> (get d1 ''type'' = JStr ''message_delta''
        \<and> get (get d1 ''delta'') ''stop_reason'' = JStr s1 \<and> s1 \<noteq> [] \<longrightarrow>
      map_option finish_reason_of (transformStreamingChunkToOpenAIFormat now ''anthropic'' m d1)
        = Some (JStr (if s1 = ''end_turn'' then ''stop''
                      else if s1 = ''tool_use'' then ''tool_calls'' else toLowerCase s1)))
   \<and> (get d2 ''type'' = JStr ''message_stop''
        \<and> get d2 ''stop_reason'' = JStr s2 \<and> s2 \<noteq> [] \<longrightarrow>
      map_option finish_reason_of (transformStreamingChunkToOpenAIFormat now ''anthropic'' m d2)
        = Some (JStr (if s2 = ''end_turn'' then ''stop''
                      else if s2 = ''tool_use'' then ''tool_calls'' else toLowerCase s2)))
   \<and> (get d3 ''type'' = JStr ''message_stop'' \<and> \<not> truthy (get d3 ''stop_reason'') \<longrightarrow>
      map_option finish_reason_of (transformStreamingChunkToOpenAIFormat now ''anthropic'' m d3)
        = Some (JStr ''stop''))
   \<and> (is_google p
        \<and> \<not> truthy (get (elem (get (get (elem (get d4 ''candidates'') 0) ''content'') ''parts'') 0)
                      ''text'')
        \<and> get (elem (get d4 ''candidates'') 0) ''finishReason'' = JStr s4 \<and> s4 \<noteq> [] \<longrightarrow>
      map_option finish_reason_of (transformStreamingChunkToOpenAIFormat now p m d4)
        = Some (JStr (if s4 = ''STOP'' then ''stop'' else toLowerCase s4)))
   \<and> (\<not> is_google q \<and> q \<noteq> ''anthropic''
        \<and> truthy (get d5 ''id'') \<and> truthy (get d5 ''object'')
        \<and> (case get d5 ''choices'' of
              JArr choices \<Rightarrow> \<forall>choice \<in> set choices. choice \<noteq> JNull \<and> choice \<noteq> JUndefined
            | JNull \<Rightarrow> True | JUndefined \<Rightarrow> True | _ \<Rightarrow> False) \<longrightarrow>
      (\<exists>out. transformStreamingChunkToOpenAIFormat now q m d5 = Some out
          \<and> finish_reasons out = finish_reasons d5))
   \<and> (\<not> is_google q \<and> q \<noteq> ''anthropic'' \<and> d6 \<noteq> JNull \<and> d6 \<noteq> JUndefined
        \<and> \<not> (truthy (get d6 ''id'') \<and> truthy (get d6 ''object'')) \<longrightarrow>
      (\<exists>out. transformStreamingChunkToOpenAIFormat now q m d6 = Some out
          \<and> (if truthy (get d6 ''choices'') then get out ''choices'' = get d6 ''choices''
              else finish_reasons out
                   = [if truthy (get d6 ''finish_reason'') then get d6 ''finish_reason''
                      else JNull])))"
proof -
  have g: "(is_google p \<longrightarrow>
          map_option finish_reason_of
            (transformToOpenAIFormat now p m j c rc (JStr s) pt ct tt rt cat tc)
            = Some (JStr (if s = ''STOP'' \<or> s = [] then ''stop'' else toLowerCase s))
          \<and> map_option finish_reason_of
              (transformToOpenAIFormat now p m j c rc JNull pt ct tt rt cat tc)
            = Some (JStr ''stop''))"
    using unary_google [where p = p and now = now and m = m and j = j and c = c and rc = rc
        and pt = pt and ct = ct and tt = tt and rt = rt and cat = cat and tc = tc]
    by blast
  have a1: "(s \<noteq> ''tool_use'' \<longrightarrow>
          map_option finish_reason_of
            (transformToOpenAIFormat now ''anthropic'' m j c rc (JStr s) pt ct tt rt cat tc)
            = Some (JStr (if s = ''end_turn'' \<or> s = [] then ''stop'' else toLowerCase s)))"
    using unary_anthropic(1) [where now = now and m = m and j = j and c = c and rc = rc
        and s = s and pt = pt and ct = ct and tt = tt and rt = rt and cat = cat and tc = tc]
    by blast
  have a2: "map_option finish_reason_of
            (transformToOpenAIFormat now ''anthropic'' m j c rc JNull pt ct tt rt cat tc)
          = Some (JStr ''stop'')"
    using unary_anthropic(2) [where now = now and m = m and j = j and c = c and rc = rc
        and pt = pt and ct = ct and tt = tt and rt = rt and cat = cat and tc = tc]
    by blast
  have w: "((q = ''inference.net'' \<or> q = ''together.ai'' \<or> q = ''groq'')
            \<and> j \<noteq> JNull \<and> j \<noteq> JUndefined \<and> \<not> truthy (get j ''id'') \<longrightarrow>
          map_option finish_reason_of
            (transformToOpenAIFormat now q m j c rc fr pt ct tt rt cat tc)
            = Some (if truthy fr then fr else JStr ''stop''))"
    using unary_without_id [where p = q and now = now and m = m and j = j and c = c and rc = rc
        and fr = fr and pt = pt and ct = ct and tt = tt and rt = rt and cat = cat and tc = tc]
    by blast
  have u: "(\<not> is_google q \<and> q \<noteq> ''anthropic''
            \<and> (q = ''inference.net'' \<or> q = ''together.ai'' \<or> q = ''groq''
                 \<longrightarrow> truthy (get j ''id'')) \<longrightarrow>
          transformToOpenAIFormat now q m j c rc fr pt ct tt rt cat tc = Some j)"
    using unary_passthrough [where p = q and now = now and m = m and j = j and c = c and rc = rc
        and fr = fr and pt = pt and ct = ct and tt = tt and rt = rt and cat = cat and tc = tc]
    by blast
  have s1: "(get d1 ''type'' = JStr ''message_delta''
            \<and> get (get d1 ''delta'') ''stop_reason'' = JStr s1 \<and> s1 \<noteq> [] \<longrightarrow>
          map_option finish_reason_of (transformStreamingChunkToOpenAIFormat now ''anthropic'' m d1)
            = Some (JStr (if s1 = ''end_turn'' then ''stop''
                          else if s1 = ''tool_use'' then ''tool_calls'' else toLowerCase s1)))"
    using stream_anthropic_delta [where data = d1 and s = s1 and now = now and m = m]
    by blast
  have s2: "(get d2 ''type'' = JStr ''message_stop''
            \<and> get d2 ''stop_reason'' = JStr s2 \<and> s2 \<noteq> [] \<longrightarrow>
          map_option finish_reason_of (transformStreamingChunkToOpenAIFormat now ''anthropic'' m d2)
            = Some (JStr (if s2 = ''end_turn'' then ''stop''
                          else if s2 = ''tool_use'' then ''tool_calls'' else toLowerCase s2)))"
    using stream_anthropic_stop(2) [where data = d2 and s = s2 and now = now and m = m]
    by blast
  have s3: "(get d3 ''type'' = JStr ''message_stop'' \<and> \<not> truthy (get d3 ''stop_reason'') \<longrightarrow>
          map_option finish_reason_of (transformStreamingChunkToOpenAIFormat now ''anthropic'' m d3)
            = Some (JStr ''stop''))"
    using stream_anthropic_stop(1) [where data = d3 and now = now and m = m]
    by blast
  have s4: "(is_google p
            \<and> \<not> truthy (get (elem (get (get (elem (get d4 ''candidates'') 0) ''content'') ''parts'') 0)
                          ''text'')
            \<and> get (elem (get d4 ''candidates'') 0) ''finishReason'' = JStr s4 \<and> s4 \<noteq> [] \<longrightarrow>
          map_option finish_reason_of (transformStreamingChunkToOpenAIFormat now p m d4)
            = Some (JStr (if s4 = ''STOP'' then ''stop'' else toLowerCase s4)))"
    using stream_google [where p = p and data = d4 and s = s4 and now = now and m = m]
    by blast
  have s5: "(\<not> is_google q \<and> q \<noteq> ''anthropic''
            \<and> truthy (get d5 ''id'') \<and> truthy (get d5 ''object'')
            \<and> (case get d5 ''choices'' of
                  JArr choices \<Rightarrow> \<forall>choice \<in> set choices. choice \<noteq> JNull \<and> choice \<noteq> JUndefined
                | JNull \<Rightarrow> True | JUndefined \<Rightarrow> True | _ \<Rightarrow> False) \<longrightarrow>
          (\<exists>out. transformStreamingChunkToOpenAIFormat now q m d5 = Some out
              \<and> finish_reasons out = finish_reasons d5))"
    using stream_passthrough [where p = q and data = d5 and now = now and m = m]
    by blast
  have s6: "(\<not> is_google q \<and> q \<noteq> ''anthropic'' \<and> d6 \<noteq> JNull \<and> d6 \<noteq> JUndefined
            \<and> \<not> (truthy (get d6 ''id'') \<and> truthy (get d6 ''object'')) \<longrightarrow>
          (\<exists>out. transformStreamingChunkToOpenAIFormat now q m d6 = Some out
              \<and> (if truthy (get d6 ''choices'') then get out ''choices'' = get d6 ''choices''
                  else finish_reasons out
                       = [if truthy (get d6 ''finish_reason'') then get d6 ''finish_reason''
                          else JNull])))"
    using stream_completed [where p = q and data = d6 and now = now and m = m]
    by blast
  show ?thesis
    by (intro conjI g a1 a2 w u s1 s2 s3 s4 s5 s6)
qed

theorem finish_reason_normalization_witness:
  "map_option finish_reason_of
     (transformToOpenAIFormat 0 ''google-vertex'' ''gemini'' (JObj []) JNull JNull (JStr ''SAFETY'')
        None None None JNull JNull JNull)
     = Some (JStr ''safety'')
   \<and> map_option finish_reason_of
       (transformToOpenAIFormat 0 ''anthropic'' ''gemini'' (JObj []) JNull JNull (JStr ''SAFETY'')
          None None None JNull JNull JNull)
     = Some (JStr ''safety'')
   \<and> map_option finish_reason_of
       (transformToOpenAIFormat 0 ''groq'' ''gemini'' (JObj []) JNull JNull (JStr ''LENGTH'')
          None None None JNull JNull JNull)
     = Some (JStr ''LENGTH'')
   \<and> transformToOpenAIFormat 0 ''openai'' ''gemini'' (JObj []) JNull JNull (JStr ''LENGTH'')
        None None None JNull JNull JNull
     = Some (JObj [])
   \<and> map_option finish_reason_of (transformStreamingChunkToOpenAIFormat 0 ''anthropic'' ''gemini''
        (JObj [(''type'', JStr ''message_delta''),
               (''delta'', JObj [(''stop_reason'', JStr ''tool_use'')])]))
      = Some (JStr ''tool_calls'')
   \<and> map_option finish_reason_of (transformStreamingChunkToOpenAIFormat 0 ''anthropic'' ''gemini''
        (JObj [(''type'', JStr ''message_stop''), (''stop_reason'', JStr ''end_turn'')]))
      = Some (JStr ''stop'')
   \<and> map_option finish_reason_of (transformStreamingChunkToOpenAIFormat 0 ''anthropic'' ''gemini''
        (JObj [(''type'', JStr ''message_stop'')]))
      = Some (JStr ''stop'')
   \<and> map_option finish_reason_of (transformStreamingChunkToOpenAIFormat 0 ''google-vertex'' ''gemini''
        (JObj [(''candidates'', JArr [JObj [(''finishReason'', JStr ''STOP'')]])]))
      = Some (JStr ''stop'')
   \<and> (\<exists>out. transformStreamingChunkToOpenAIFormat 0 ''openai'' ''gemini''
               (JObj [(''id'', JStr ''x''), (''object'', JStr ''chat.completion.chunk''),
                      (''choices'', JArr [JObj [(''finish_reason'', JStr ''length'')]])])
             = Some out
          \<and> finish_reasons out = [JStr ''length''])
   \<and> (\<exists>out. transformStreamingChunkToOpenAIFormat 0 ''openai'' ''gemini''
               (JObj [(''finish_reason'', JStr ''length'')])
             = Some out
          \<and> finish_reasons out = [JStr ''length''])"
proof -
  have lc: "toLowerCase ''SAFETY'' = ''safety''"
    by code_simp
  from finish_reason_normalization
    [where p = "''google-vertex''" and q = "''openai''" and now = 0 and m = "''gemini''"
       and j = "JObj []" and c = JNull and rc = JNull and s = "''SAFETY''"
       and fr = "JStr ''LENGTH''"
       and pt = None and ct = None and tt = None and rt = JNull and cat = JNull and tc = JNull
       and ?d1.0 = "JObj [(''type'', JStr ''message_delta''),
                         (''delta'', JObj [(''stop_reason'', JStr ''tool_use'')])]"
       and ?s1.0 = "''tool_use''"
       and ?d2.0 = "JObj [(''type'', JStr ''message_stop''), (''stop_reason'', JStr ''end_turn'')]"
       and ?s2.0 = "''end_turn''"
       and ?d3.0 = "JObj [(''type'', JStr ''message_stop'')]"
       and ?d4.0 = "JObj [(''candidates'', JArr [JObj [(''finishReason'', JStr ''STOP'')]])]"
       and ?s4.0 = "''STOP''"
       and ?d5.0 = "JObj [(''id'', JStr ''x''), (''object'', JStr ''chat.completion.chunk''),
                         (''choices'', JArr [JObj [(''finish_reason'', JStr ''length'')]])]"
       and ?d6.0 = "JObj [(''finish_reason'', JStr ''length'')]"]
  have a: "map_option finish_reason_of
     (transformToOpenAIFormat 0 ''google-vertex'' ''gemini'' (JObj []) JNull JNull (JStr ''SAFETY'')
        None None None JNull JNull JNull)
     = Some (JStr ''safety'')
   \<and> map_option finish_reason_of
       (transformToOpenAIFormat 0 ''anthropic'' ''gemini'' (JObj []) JNull JNull (JStr ''SAFETY'')
          None None None JNull JNull JNull)
     = Some (JStr ''safety'')
   \<and> transformToOpenAIFormat 0 ''openai'' ''gemini'' (JObj []) JNull JNull (JStr ''LENGTH'')
        None None None JNull JNull JNull
     = Some (JObj [])
   \<and> map_option finish_reason_of (transformStreamingChunkToOpenAIFormat 0 ''anthropic'' ''gemini''
        (JObj [(''type'', JStr ''message_delta''),
               (''delta'', JObj [(''stop_reason'', JStr ''tool_use'')])]))
      = Some (JStr ''tool_calls'')
   \<and> map_option finish_reason_of (transformStreamingChunkToOpenAIFormat 0 ''anthropic'' ''gemini''
        (JObj [(''type'', JStr ''message_stop''), (''stop_reason'', JStr ''end_turn'')]))
      = Some (JStr ''stop'')
   \<and> map_option finish_reason_of (transformStreamingChunkToOpenAIFormat 0 ''anthropic'' ''gemini''
        (JObj [(''type'', JStr ''message_stop'')]))
      = Some (JStr ''stop'')
   \<and> map_option finish_reason_of (transformStreamingChunkToOpenAIFormat 0 ''google-vertex'' ''gemini''
        (JObj [(''candidates'', JArr [JObj [(''finishReason'', JStr ''STOP'')]])]))
      = Some (JStr ''stop'')
   \<and> (\<exists>out. transformStreamingChunkToOpenAIFormat 0 ''openai'' ''gemini''
               (JObj [(''id'', JStr ''x''), (''object'', JStr ''chat.completion.chunk''),
                      (''choices'', JArr [JObj [(''finish_reason'', JStr ''length'')]])])
             = Some out
          \<and> finish_reasons out = [JStr ''length''])
   \<and> (\<exists>out. transformStreamingChunkToOpenAIFormat 0 ''openai'' ''gemini''
               (JObj [(''finish_reason'', JStr ''length'')])
             = Some out
          \<and> finish_reasons out = [JStr ''length''])"
    by (simp add: is_google_def lc finish_reasons_def)
  from finish_reason_normalization
    [where q = "''groq''" and now = 0 and m = "''gemini''"
       and j = "JObj []" and c = JNull and rc = JNull and fr = "JStr ''LENGTH''"
       and pt = None and ct = None and tt = None and rt = JNull and cat = JNull and tc = JNull]
  have "map_option finish_reason_of
       (transformToOpenAIFormat 0 ''groq'' ''gemini'' (JObj []) JNull JNull (JStr ''LENGTH'')
          None None None JNull JNull JNull)
     = Some (JStr ''LENGTH'')"
    by simp
  with a show ?thesis
    by simp
qed

section \<open>Properties of the handler\<close>

lemma bind_Inl [simp]: "bind (Inl ex) f = Inl ex"
  by (simp add: bind_def)

lemma bind_Inr [simp]: "bind (Inr v) f = f v"
  by (simp add: bind_def)

lemma bind_eq_Inr: "bind x f = Inr y \<longleftrightarrow> (\<exists>v. x = Inr v \<and> f v = Inr y)"
  by (cases x) simp_all

lemma prepare_validate_Inl: "validate_model e rq = Inl ex \<Longrightarrow> prepare e rq = Inl ex"
  by (simp add: prepare_def)

lemma split_from_not_included:
  "sep \<noteq> [] \<Longrightarrow> \<not> str_includes s sep \<Longrightarrow> split_from sep acc s = [acc @ s]"
  by (induction s arbitrary: acc) simp_all

lemma split_from_separator:
  assumes "sep \<noteq> []"
  shows "split_from sep acc (sep @ t) = acc # split_from sep [] t"
proof -
  from assms obtain c cs where c: "sep @ t = c # cs"
    by (cases sep) auto
  have "startsWith (sep @ t) sep"
    by (simp add: startsWith_def)
  with c have "startsWith (c # cs) sep"
    by simp
  with assms have "split_from sep acc (c # cs)
                   = acc # split_from sep [] (drop (length sep) (c # cs))"
    by simp
  then show ?thesis
    unfolding c [symmetric] by simp
qed

lemma split_from_not_Nil: "split_from sep acc s \<noteq> []"
  by (induction sep acc s rule: split_from.induct) simp_all

lemma split_from_single:
  "length (split_from sep acc s) = Suc 0 \<Longrightarrow> split_from sep acc s = [acc @ s]"
proof (induction sep acc s rule: split_from.induct)
  case (1 sep acc)
  then show ?case by simp
next
  case (2 sep acc c cs)
  show ?case
  proof (cases "sep \<noteq> [] \<and> startsWith (c # cs) sep")
    case True
    with 2(3) have "split_from sep [] (drop (length sep) (c # cs)) = []"
      by simp
    then show ?thesis
      by (simp add: split_from_not_Nil)
  next
    case False
    with 2 show ?thesis
      by simp
  qed
qed

lemma startsWith_append: "startsWith s p \<Longrightarrow> s = p @ drop (length p) s"
  unfolding startsWith_def by (metis append_take_drop_id)

lemma split_not_included:
  "sep \<noteq> [] \<Longrightarrow> \<not> str_includes s sep \<Longrightarrow> length (split s sep) \<noteq> 2"
  by (simp add: split_def split_from_not_included del: str_includes.simps)

lemma split_token:
  assumes "sep \<noteq> []" and "length (split (sep @ token) sep) = 2"
  shows "split (sep @ token) sep ! 1 = token"
proof -
  have s: "split (sep @ token) sep = [] # split_from sep [] token"
    unfolding split_def using assms(1) by (rule split_from_separator)
  with assms(2) have "length (split_from sep [] token) = Suc 0"
    by simp
  then have "split_from sep [] token = [token]"
    by (simp add: split_from_single)
  with s show ?thesis
    by simp
qed

lemma authenticate_cases:
  assumes "header rq ''Authorization'' = Some auth"
    and "length (split auth sep) \<noteq> 2 \<or> split auth sep ! 1 = []
         \<or> find (\<lambda>k. ak_token k = split auth sep ! 1) apiKeys = None"
    and "sep = ''Bearer ''"
  shows "\<exists>message. authenticate apiKeys rq = Inl (HTTPException 401 message)"
  using assms(1,2) unfolding authenticate_def assms(3) [symmetric]
  by (auto simp del: split_def)

lemma authenticate_401:
  assumes "unauthorized e rq"
  shows "\<exists>message. authenticate (db_apiKey (env_db e)) rq = Inl (HTTPException 401 message)"
proof (cases "header rq ''Authorization''")
  case None
  then show ?thesis
    by (simp add: authenticate_def)
next
  case (Some auth)
  define sep where "sep = ''Bearer ''"
  then have sep: "sep \<noteq> []"
    by simp
  from assms Some have u: "\<not> str_includes auth sep \<or> auth = sep
      \<or> (startsWith auth sep
          \<and> \<not> list_ex (\<lambda>k. ak_token k = drop (length sep) auth) (db_apiKey (env_db e)))"
    unfolding unauthorized_def sep_def by (simp del: str_includes.simps startsWith_def)
  have "length (split auth sep) \<noteq> 2 \<or> split auth sep ! 1 = []
        \<or> find (\<lambda>k. ak_token k = split auth sep ! 1) (db_apiKey (env_db e)) = None"
  proof (cases "length (split auth sep) = 2")
    case False
    then show ?thesis
      by simp
  next
    case True
    with sep have i: "str_includes auth sep"
      using split_not_included by blast
    show ?thesis
    proof (cases "auth = sep")
      case True
      with \<open>length (split auth sep) = 2\<close> split_token [of sep "[]"] sep
      have "split auth sep ! 1 = []"
        by simp
      then show ?thesis
        by simp
    next
      case False
      with u i have w: "startsWith auth sep"
        and n: "\<not> list_ex (\<lambda>k. ak_token k = drop (length sep) auth) (db_apiKey (env_db e))"
        by blast+
      from w have a: "auth = sep @ drop (length sep) auth"
        by (rule startsWith_append)
      with True split_token [of sep "drop (length sep) auth"] sep
      have "split auth sep ! 1 = drop (length sep) auth"
        by simp
      with n have "find (\<lambda>k. ak_token k = split auth sep ! 1) (db_apiKey (env_db e)) = None"
        by (simp add: find_None_iff list_ex_iff)
      then show ?thesis
        by simp
    qed
  qed
  with Some show ?thesis
    using sep_def by (rule authenticate_cases)
qed

lemma bind_eq_Inl: "bind x f = Inl ex \<longleftrightarrow> x = Inl ex \<or> (\<exists>v. x = Inr v \<and> f v = Inl ex)"
  by (cases x) simp_all

lemma resolve_requested_status:
  "resolve_requested models providers modelInput = Inl ex \<Longrightarrow> \<exists>message. ex = HTTPException 400 message"
  by (auto simp add: resolve_requested_def Let_def split: if_splits option.splits)

lemma check_provider_status:
  "check_provider providers r = Inl ex \<Longrightarrow> \<exists>message. ex = HTTPException 400 message"
  by (auto simp add: check_provider_def split: if_splits option.splits)

lemma find_modelInfo_status:
  "find_modelInfo models r = Inl ex \<Longrightarrow> \<exists>message. ex = HTTPException 400 message"
  by (auto simp add: find_modelInfo_def split: if_splits option.splits)

lemma check_model_status:
  "check_model now rq r modelInfo = Inl ex \<Longrightarrow>
   \<exists>message. ex = HTTPException 400 message \<or> ex = HTTPException 410 message"
  by (auto simp add: check_model_def split: if_splits)

lemma validate_model_status:
  assumes "validate_model e rq = Inl ex"
  shows "\<exists>message. ex = HTTPException 400 message \<or> ex = HTTPException 410 message"
  using assms resolve_requested_status check_provider_status find_modelInfo_status
    check_model_status
  unfolding validate_model_def bind_eq_Inl
  by (elim disjE exE conjE) (blast, blast, blast, blast, simp)

lemma prepare_unauthorized:
  assumes "validate_model e rq = Inr v"
    and "authenticate (db_apiKey (env_db e)) rq = Inl ex"
  shows "prepare e rq = Inl ex"
  using assms by (cases v) (simp add: prepare_def)

lemma handler_prepare_Inl: "prepare e rq = Inl ex \<Longrightarrow> handler e rq = thrown ex"
  by (simp add: handler_def)

lemma prepare_Inr:
  assumes "prepare e rq = Inr cx"
  shows "\<exists>r modelInfo.
           validate_model e rq = Inr (r, modelInfo)
           \<and> authenticate (db_apiKey (env_db e)) rq = Inr (cx_apiKey cx)
           \<and> load_project e r (cx_apiKey cx) = Inr (cx_project cx)
           \<and> route e (cx_project cx) r modelInfo = Inr (cx_usedProvider cx, cx_usedModel cx)
           \<and> resolve_credentials e (cx_project cx) r (cx_usedProvider cx)
               = Inr (cx_providerKey cx, cx_usedToken cx)
           \<and> providerUrl e (cx_usedProvider cx) (cx_usedModel cx) (cx_providerKey cx)
                (cx_usedToken cx) = Inr (cx_url cx)
           \<and> cx_requested cx = r"
  using assms unfolding prepare_def
  by (auto simp add: bind_eq_Inr)

lemma unset_row_base [simp]:
  "lg_usedMode (unset_row b) = lg_usedMode b" "lg_mode (unset_row b) = lg_mode b"
  by (cases b, simp add: unset_row_def log_entry.defs log_row.defs)+

lemma unset_row_flags [simp]:
  "lg_cached (unset_row b) = False" "lg_duration (unset_row b) = 0"
  "lg_cost (unset_row b) = None"
  by (cases b, simp add: unset_row_def log_entry.defs log_row.defs)+

lemma baseLogEntry_usedMode:
  "lg_usedMode (baseLogEntry rq cx)
     = (case cx_providerKey cx of
          None \<Rightarrow> ''credits''
        | Some k \<Rightarrow> (if pk_id k = [] then ''credits'' else ''api-keys''))"
  by (simp add: baseLogEntry_def createLogEntry_def split: option.splits)

lemma baseLogEntry_mode: "lg_mode (baseLogEntry rq cx) = pj_mode (cx_project cx)"
  by (simp add: baseLogEntry_def createLogEntry_def)

lemma streaming_rows:
  "row \<in> set (out_logs (streaming e rq cx)) \<Longrightarrow>
   lg_usedMode row = lg_usedMode (baseLogEntry rq cx) \<and> lg_mode row = lg_mode (baseLogEntry rq cx)"
  by (auto simp add: streaming_def canceled_row_def error_row_def streamed_row_def Let_def
      split: fetch_result.splits option.splits if_splits prod.splits)

lemma unary_rows:
  "row \<in> set (out_logs (unary e rq cx)) \<Longrightarrow>
   lg_usedMode row = lg_usedMode (baseLogEntry rq cx) \<and> lg_mode row = lg_mode (baseLogEntry rq cx)"
  by (auto simp add: unary_def unary_row_def canceled_row_def error_row_def Let_def
      split: fetch_result.splits option.splits if_splits)

lemma handler_rows:
  assumes "prepare e rq = Inr cx" and "row \<in> set (out_logs (handler e rq))"
  shows "lg_usedMode row = lg_usedMode (baseLogEntry rq cx)
         \<and> lg_mode row = lg_mode (baseLogEntry rq cx)"
  using assms streaming_rows [of row e rq cx] unary_rows [of row e rq cx]
  by (auto simp add: handler_def thrown_def cached_row_def
      split: option.splits sum.splits if_splits)

lemma resolve_credentials_Inr:
  assumes "resolve_credentials e project r usedProvider = Inr (providerKey, usedToken)"
  shows "case providerKey of
           Some k \<Rightarrow> usedToken = pk_token k
                     \<and> storedProviderKey e project r usedProvider = Some k
         | None \<Rightarrow> getProviderTokenFromEnv e usedProvider = Inr usedToken"
  using assms unfolding resolve_credentials_def creditsToken_def
  by (auto simp add: bind_eq_Inr split: if_splits option.splits)

lemma parseProviderResponse_Some:
  assumes "json \<noteq> JNull" and "json \<noteq> JUndefined"
  shows "\<exists>p. parseProviderResponse mistral_json usedProvider json = Some p"
  unfolding parseProviderResponse_def using assms by (simp only: if_False simp_thms) blast

lemma handler_dispatch:
  assumes "prepare e rq = Inr cx" and "cachedResponse e rq cx = None"
    and "dispatch_gates e rq cx = Inr u"
  shows "handler e rq = (if rq_stream rq then streaming e rq cx else unary e rq cx)"
  using assms by (simp add: handler_def)

subsection \<open>Log rows per request\<close>

text \<open>
  C1, as stated, fails: a request for an unknown model is answered with 400 and leaves no
  log row (the exception is thrown before any \<open>insertLog\<close>).
\<close>

theorem unknown_model_leaves_no_log_row:
  "out_response (handler sample_env (sample_request\<lparr>rq_model := ''mythical-1''\<rparr>))
     = Thrown (HTTPException 400 ''Requested model mythical-1 not supported'')
   \<and> length (out_logs (handler sample_env (sample_request\<lparr>rq_model := ''mythical-1''\<rparr>))) = 0"
  by code_simp

text \<open>
  C1 (amended): a request that is rejected before dispatch (model checks, authentication,
  project, routing, credential, URL, \<open>max_tokens\<close> or streaming gate) leaves no log row.
  A request that reaches the cache lookup leaves exactly one log row when it is served
  from the cache, when the upstream call is aborted (\<open>canceled\<close>), when the upstream
  answers with a non-2xx status (\<open>hasError\<close>), when a streaming response with a body is
  read (however the reading ends), and when a non-streaming 2xx response has a JSON body
  other than \<open>null\<close>.
\<close>

theorem log_rows_per_request:
  "(prepare e rq = Inl ex \<longrightarrow> out_logs (handler e rq) = [])
   \<and> (prepare e rq = Inr cx \<and> cachedResponse e rq cx = None \<and> dispatch_gates e rq cx = Inl ex
        \<longrightarrow> out_logs (handler e rq) = [])
   \<and> (prepare e rq = Inr cx \<and> cachedResponse e rq cx = Some r
        \<longrightarrow> (\<exists>row. out_logs (handler e rq) = [row] \<and> lg_cached row))
   \<and> (prepare e rq = Inr cx \<and> cachedResponse e rq cx = None \<and> dispatch_gates e rq cx = Inr u
        \<and> env_fetch e (cx_url cx) (cx_usedToken cx) (requestCanBeCanceled e cx) = AbortError
        \<longrightarrow> (\<exists>row. out_logs (handler e rq) = [row] \<and> lg_canceled row \<and> \<not> lg_hasError row))
   \<and> (prepare e rq = Inr cx \<and> cachedResponse e rq cx = None \<and> dispatch_gates e rq cx = Inr u
        \<and> env_fetch e (cx_url cx) (cx_usedToken cx) (requestCanBeCanceled e cx) = Response res
        \<and> \<not> ok res
        \<longrightarrow> (\<exists>row. out_logs (handler e rq) = [row] \<and> lg_hasError row \<and> \<not> lg_canceled row))
   \<and> (prepare e rq = Inr cx \<and> cachedResponse e rq cx = None \<and> dispatch_gates e rq cx = Inr u
        \<and> env_fetch e (cx_url cx) (cx_usedToken cx) (requestCanBeCanceled e cx) = Response res
        \<and> ok res \<and> rq_stream rq \<and> res_body res = Some body
        \<longrightarrow> (\<exists>row. out_logs (handler e rq) = [row] \<and> lg_streamed row \<and> \<not> lg_hasError row))
   \<and> (prepare e rq = Inr cx \<and> cachedResponse e rq cx = None \<and> dispatch_gates e rq cx = Inr u
        \<and> env_fetch e (cx_url cx) (cx_usedToken cx) (requestCanBeCanceled e cx) = Response res
        \<and> ok res \<and> \<not> rq_stream rq \<and> res_json res = Some json \<and> json \<noteq> JNull
        \<and> json \<noteq> JUndefined
        \<longrightarrow> (\<exists>row. out_logs (handler e rq) = [row] \<and> \<not> lg_streamed row \<and> \<not> lg_hasError row))"
proof -
  have a: "out_logs (handler e rq) = []" if "prepare e rq = Inl ex"
    using that by (simp add: handler_def thrown_def)
  have b: "out_logs (handler e rq) = []"
    if "prepare e rq = Inr cx" "cachedResponse e rq cx = None" "dispatch_gates e rq cx = Inl ex"
    using that by (simp add: handler_def thrown_def)
  have c: "\<exists>row. out_logs (handler e rq) = [row] \<and> lg_cached row"
    if "prepare e rq = Inr cx" "cachedResponse e rq cx = Some r"
    using that by (simp add: handler_def cached_row_def)
  have d: "\<exists>row. out_logs (handler e rq) = [row] \<and> lg_canceled row \<and> \<not> lg_hasError row"
    if "prepare e rq = Inr cx" "cachedResponse e rq cx = None" "dispatch_gates e rq cx = Inr u"
      "env_fetch e (cx_url cx) (cx_usedToken cx) (requestCanBeCanceled e cx) = AbortError"
    using that
    by (simp add: handler_dispatch [where u = u] streaming_def unary_def canceled_row_def)
  have f: "\<exists>row. out_logs (handler e rq) = [row] \<and> lg_hasError row \<and> \<not> lg_canceled row"
    if "prepare e rq = Inr cx" "cachedResponse e rq cx = None" "dispatch_gates e rq cx = Inr u"
      "env_fetch e (cx_url cx) (cx_usedToken cx) (requestCanBeCanceled e cx) = Response res"
      "\<not> ok res"
    using that
    by (simp add: handler_dispatch [where u = u] streaming_def unary_def error_row_def)
  have g: "\<exists>row. out_logs (handler e rq) = [row] \<and> lg_streamed row \<and> \<not> lg_hasError row"
    if "prepare e rq = Inr cx" "cachedResponse e rq cx = None" "dispatch_gates e rq cx = Inr u"
      "env_fetch e (cx_url cx) (cx_usedToken cx) (requestCanBeCanceled e cx) = Response res"
      "ok res" "rq_stream rq" "res_body res = Some body"
    using that
    by (cases body)
      (simp add: handler_dispatch [where u = u] streaming_def streamed_row_def Let_def)
  have h: "\<exists>row. out_logs (handler e rq) = [row] \<and> \<not> lg_streamed row \<and> \<not> lg_hasError row"
    if "prepare e rq = Inr cx" "cachedResponse e rq cx = None" "dispatch_gates e rq cx = Inr u"
      "env_fetch e (cx_url cx) (cx_usedToken cx) (requestCanBeCanceled e cx) = Response res"
      "ok res" "\<not> rq_stream rq" "res_json res = Some json" "json \<noteq> JNull" "json \<noteq> JUndefined"
  proof -
    from that(8,9) obtain p
      where "parseProviderResponse (env_mistral_json e) (cx_usedProvider cx) json = Some p"
      using parseProviderResponse_Some by blast
    with that show ?thesis
      by (simp add: handler_dispatch [where u = u] unary_def unary_row_def Let_def
          split: option.splits)
  qed
  from a b c d f g h show ?thesis
    by blast
qed

theorem log_rows_per_request_witness:
  "out_logs (handler sample_env (sample_request\<lparr>rq_headers := []\<rparr>)) = []
   \<and> out_logs (handler sample_env (sample_request\<lparr>rq_max_tokens := Some 20000\<rparr>)) = []
   \<and> (\<exists>row. out_logs (handler cached_env sample_request) = [row] \<and> lg_cached row)
   \<and> (\<exists>row. out_logs (handler (with_fetch AbortError) sample_request) = [row]
          \<and> lg_canceled row \<and> \<not> lg_hasError row)
   \<and> (\<exists>row. out_logs (handler (with_fetch (Response failed_response)) sample_request) = [row]
          \<and> lg_hasError row \<and> \<not> lg_canceled row)
   \<and> (\<exists>row. out_logs (handler anthropic_env anthropic_request) = [row]
          \<and> lg_streamed row \<and> \<not> lg_hasError row)
   \<and> (\<exists>row. out_logs (handler (with_fetch (Response ok_response)) sample_request) = [row]
          \<and> \<not> lg_streamed row \<and> \<not> lg_hasError row)"
proof -
  have "case prepare sample_env (sample_request\<lparr>rq_headers := []\<rparr>) of
          Inl ex \<Rightarrow> True | Inr cx \<Rightarrow> False"
    by code_simp
  then obtain ex where "prepare sample_env (sample_request\<lparr>rq_headers := []\<rparr>) = Inl ex"
    by (auto split: sum.splits)
  with log_rows_per_request [where e = sample_env and rq = "sample_request\<lparr>rq_headers := []\<rparr>"
      and ex = ex]
  have a: "out_logs (handler sample_env (sample_request\<lparr>rq_headers := []\<rparr>)) = []"
    by blast
  have "case prepare sample_env (sample_request\<lparr>rq_max_tokens := Some 20000\<rparr>) of
          Inl ex \<Rightarrow> False
        | Inr cx \<Rightarrow>
            cachedResponse sample_env (sample_request\<lparr>rq_max_tokens := Some 20000\<rparr>) cx = None
            \<and> isl (dispatch_gates sample_env (sample_request\<lparr>rq_max_tokens := Some 20000\<rparr>) cx)"
    by code_simp
  then obtain cx ex where
    "prepare sample_env (sample_request\<lparr>rq_max_tokens := Some 20000\<rparr>) = Inr cx"
    "cachedResponse sample_env (sample_request\<lparr>rq_max_tokens := Some 20000\<rparr>) cx = None"
    "dispatch_gates sample_env (sample_request\<lparr>rq_max_tokens := Some 20000\<rparr>) cx = Inl ex"
    by (auto split: sum.splits simp add: isl_def)
  with log_rows_per_request [where e = sample_env
      and rq = "sample_request\<lparr>rq_max_tokens := Some 20000\<rparr>" and cx = cx and ex = ex]
  have b: "out_logs (handler sample_env (sample_request\<lparr>rq_max_tokens := Some 20000\<rparr>)) = []"
    by blast
  have "case prepare cached_env sample_request of
          Inl ex \<Rightarrow> False
        | Inr cx \<Rightarrow> cachedResponse cached_env sample_request cx = Some cached_json"
    by code_simp
  then obtain cx where "prepare cached_env sample_request = Inr cx"
    "cachedResponse cached_env sample_request cx = Some cached_json"
    by (auto split: sum.splits)
  with log_rows_per_request [where e = cached_env and rq = sample_request and cx = cx
      and r = cached_json]
  have c: "\<exists>row. out_logs (handler cached_env sample_request) = [row] \<and> lg_cached row"
    by blast
  have "case prepare (with_fetch AbortError) sample_request of
          Inl ex \<Rightarrow> False
        | Inr cx \<Rightarrow>
            cachedResponse (with_fetch AbortError) sample_request cx = None
            \<and> dispatch_gates (with_fetch AbortError) sample_request cx = Inr ()
            \<and> env_fetch (with_fetch AbortError) (cx_url cx) (cx_usedToken cx)
                 (requestCanBeCanceled (with_fetch AbortError) cx) = AbortError"
    by code_simp
  then obtain cx where "prepare (with_fetch AbortError) sample_request = Inr cx"
    "cachedResponse (with_fetch AbortError) sample_request cx = None"
    "dispatch_gates (with_fetch AbortError) sample_request cx = Inr ()"
    "env_fetch (with_fetch AbortError) (cx_url cx) (cx_usedToken cx)
       (requestCanBeCanceled (with_fetch AbortError) cx) = AbortError"
    by (auto split: sum.splits)
  with log_rows_per_request [where e = "with_fetch AbortError" and rq = sample_request
      and cx = cx and u = "()"]
  have d: "\<exists>row. out_logs (handler (with_fetch AbortError) sample_request) = [row]
             \<and> lg_canceled row \<and> \<not> lg_hasError row"
    by blast
  have "case prepare (with_fetch (Response failed_response)) sample_request of
          Inl ex \<Rightarrow> False
        | Inr cx \<Rightarrow>
            cachedResponse (with_fetch (Response failed_response)) sample_request cx = None
            \<and> dispatch_gates (with_fetch (Response failed_response)) sample_request cx = Inr ()
            \<and> env_fetch (with_fetch (Response failed_response)) (cx_url cx) (cx_usedToken cx)
                 (requestCanBeCanceled (with_fetch (Response failed_response)) cx)
               = Response failed_response
            \<and> \<not> ok failed_response"
    by code_simp
  then obtain cx where "prepare (with_fetch (Response failed_response)) sample_request = Inr cx"
    "cachedResponse (with_fetch (Response failed_response)) sample_request cx = None"
    "dispatch_gates (with_fetch (Response failed_response)) sample_request cx = Inr ()"
    "env_fetch (with_fetch (Response failed_response)) (cx_url cx) (cx_usedToken cx)
       (requestCanBeCanceled (with_fetch (Response failed_response)) cx)
     = Response failed_response"
    "\<not> ok failed_response"
    by (auto split: sum.splits)
  with log_rows_per_request [where e = "with_fetch (Response failed_response)"
      and rq = sample_request and cx = cx and u = "()" and res = failed_response]
  have f: "\<exists>row. out_logs (handler (with_fetch (Response failed_response)) sample_request) = [row]
             \<and> lg_hasError row \<and> \<not> lg_canceled row"
    by blast
  have "case prepare anthropic_env anthropic_request of
          Inl ex \<Rightarrow> False
        | Inr cx \<Rightarrow>
            cachedResponse anthropic_env anthropic_request cx = None
            \<and> dispatch_gates anthropic_env anthropic_request cx = Inr ()
            \<and> (case env_fetch anthropic_env (cx_url cx) (cx_usedToken cx)
                      (requestCanBeCanceled anthropic_env cx) of
                 Response res \<Rightarrow>
                   ok res \<and> res_body res = Some (anthropic_body, EndOfStream)
                   \<and> rq_stream anthropic_request
               | _ \<Rightarrow> False)"
    by code_simp
  then obtain cx res where "prepare anthropic_env anthropic_request = Inr cx"
    "cachedResponse anthropic_env anthropic_request cx = None"
    "dispatch_gates anthropic_env anthropic_request cx = Inr ()"
    "env_fetch anthropic_env (cx_url cx) (cx_usedToken cx)
       (requestCanBeCanceled anthropic_env cx) = Response res"
    "ok res" "res_body res = Some (anthropic_body, EndOfStream)" "rq_stream anthropic_request"
    by (auto split: sum.splits fetch_result.splits)
  with log_rows_per_request [where e = anthropic_env and rq = anthropic_request and cx = cx
      and u = "()" and res = res and body = "(anthropic_body, EndOfStream)"]
  have g: "\<exists>row. out_logs (handler anthropic_env anthropic_request) = [row]
             \<and> lg_streamed row \<and> \<not> lg_hasError row"
    by blast
  have "case prepare (with_fetch (Response ok_response)) sample_request of
          Inl ex \<Rightarrow> False
        | Inr cx \<Rightarrow>
            cachedResponse (with_fetch (Response ok_response)) sample_request cx = None
            \<and> dispatch_gates (with_fetch (Response ok_response)) sample_request cx = Inr ()
            \<and> env_fetch (with_fetch (Response ok_response)) (cx_url cx) (cx_usedToken cx)
                 (requestCanBeCanceled (with_fetch (Response ok_response)) cx)
               = Response ok_response
            \<and> ok ok_response \<and> \<not> rq_stream sample_request
            \<and> (case res_json ok_response of
                  None \<Rightarrow> False
                | Some json \<Rightarrow> json \<noteq> JNull \<and> json \<noteq> JUndefined)"
    by code_simp
  then obtain cx json where "prepare (with_fetch (Response ok_response)) sample_request = Inr cx"
    "cachedResponse (with_fetch (Response ok_response)) sample_request cx = None"
    "dispatch_gates (with_fetch (Response ok_response)) sample_request cx = Inr ()"
    "env_fetch (with_fetch (Response ok_response)) (cx_url cx) (cx_usedToken cx)
       (requestCanBeCanceled (with_fetch (Response ok_response)) cx) = Response ok_response"
    "ok ok_response" "\<not> rq_stream sample_request" "res_json ok_response = Some json"
    "json \<noteq> JNull" "json \<noteq> JUndefined"
    by (auto split: sum.splits option.splits)
  with log_rows_per_request [where e = "with_fetch (Response ok_response)"
      and rq = sample_request and cx = cx and u = "()" and res = ok_response and json = json]
  have h: "\<exists>row. out_logs (handler (with_fetch (Response ok_response)) sample_request) = [row]
             \<and> \<not> lg_streamed row \<and> \<not> lg_hasError row"
    by blast
  from a b c d f g h show ?thesis
    by blast
qed

subsection \<open>Automatic routing without an available provider\<close>

text \<open>
  C2, as stated, fails: with no environment key and no stored key, no provider is
  available, and routing \<open>auto\<close> still returns \<open>(openai, gpt-4o-mini)\<close>. The request is
  then refused by the credential block, which finds no key for OpenAI.
\<close>

theorem auto_route_is_returned_without_provider:
  "autoAvailableProviders no_keys_env sample_project = []
   \<and> route no_keys_env sample_project auto_requested (hd sample_models)
       = Inr (''openai'', ''gpt-4o-mini'')
   \<and> out_response (handler no_keys_env (sample_request\<lparr>rq_model := ''auto''\<rparr>))
       = Thrown (HTTPException 400 ''No API key set in environment for provider: openai'')"
  by code_simp

text \<open>
  C2 (amended): the model \<open>auto\<close> is resolved to the requested provider \<open>llmgateway\<close>, and
  when no catalog model other than \<open>auto\<close> and \<open>custom\<close> is non-deprecated and has an
  available provider, the router returns the route \<open>(openai, gpt-4o-mini)\<close>; it raises no
  error.
\<close>

theorem auto_falls_back_to_openai:
  "resolve_requested models providers ''auto'' = Inr auto_requested
   \<and> (\<not> list_ex (autoCandidate e project) (env_models e) \<longrightarrow>
        route e project auto_requested modelInfo = Inr (''openai'', ''gpt-4o-mini''))"
proof -
  have "find (autoCandidate e project) (env_models e) = None"
    if "\<not> list_ex (autoCandidate e project) (env_models e)"
    using that by (simp add: find_None_iff list_ex_iff)
  then show ?thesis
    by (simp add: resolve_requested_def auto_requested_def route_def route_auto_def)
qed

theorem auto_falls_back_to_openai_witness:
  "\<not> list_ex (autoCandidate no_keys_env sample_project) (env_models no_keys_env)
   \<and> route no_keys_env sample_project auto_requested (hd sample_models)
       = Inr (''openai'', ''gpt-4o-mini'')"
proof -
  have h: "\<not> list_ex (autoCandidate no_keys_env sample_project) (env_models no_keys_env)"
    by code_simp
  with auto_falls_back_to_openai [of _ _ no_keys_env sample_project "hd sample_models"]
  show ?thesis
    by blast
qed

subsection \<open>Authentication and the model checks\<close>

text \<open>
  C7, as stated, fails: a request without an \<open>Authorization\<close> header whose model is
  unknown is answered with 400, not 401, because the model is checked first.
\<close>

theorem unknown_model_without_token_is_400:
  "header (sample_request\<lparr>rq_model := ''mythical-1'', rq_headers := []\<rparr>) ''Authorization'' = None
   \<and> out_response (handler sample_env (sample_request\<lparr>rq_model := ''mythical-1'', rq_headers := []\<rparr>))
       = Thrown (HTTPException 400 ''Requested model mythical-1 not supported'')"
  by code_simp

text \<open>
  C7 (amended): a request whose model fails the model checks (unknown model or provider,
  deactivated model, JSON mode or reasoning effort not supported) is answered with that
  check's exception, whose status is 400 or 410, whatever its \<open>Authorization\<close> header. A
  request whose model passes them is answered with 401, writes no log row and calls no
  upstream when it has no \<open>Authorization\<close> header, when the header does not contain
  \<open>Bearer\<close> and a space, when it is \<open>Bearer\<close> and a space with nothing after them, and when
  it is \<open>Bearer\<close>, a space and a token that no api key has.
\<close>

theorem unauthorized_after_model_checks:
  "(validate_model e rq = Inl ex \<longrightarrow>
        handler e rq = thrown ex
        \<and> (\<exists>message. ex = HTTPException 400 message \<or> ex = HTTPException 410 message))
   \<and> (validate_model e rq = Inr v \<and> unauthorized e rq \<longrightarrow>
        (\<exists>message. handler e rq = thrown (HTTPException 401 message)))
   \<and> out_response (thrown ex) = Thrown ex \<and> out_logs (thrown ex) = []
   \<and> out_fetches (thrown ex) = 0"
proof -
  have "\<exists>message. handler e rq = thrown (HTTPException 401 message)"
    if "validate_model e rq = Inr v" "unauthorized e rq"
  proof -
    from authenticate_401 [OF that(2)] obtain message
      where "authenticate (db_apiKey (env_db e)) rq = Inl (HTTPException 401 message)" ..
    with that(1) have "prepare e rq = Inl (HTTPException 401 message)"
      by (rule prepare_unauthorized)
    then show ?thesis
      by (auto dest: handler_prepare_Inl)
  qed
  moreover have "handler e rq = thrown ex" if "validate_model e rq = Inl ex"
    using that by (simp add: prepare_validate_Inl handler_prepare_Inl)
  moreover have "\<exists>message. ex = HTTPException 400 message \<or> ex = HTTPException 410 message"
    if "validate_model e rq = Inl ex"
    using that by (rule validate_model_status)
  moreover have "out_response (thrown ex) = Thrown ex \<and> out_logs (thrown ex) = []
      \<and> out_fetches (thrown ex) = 0"
    by (simp add: thrown_def)
  ultimately show ?thesis
    by blast
qed

theorem unauthorized_after_model_checks_witness:
  "handler sample_env (sample_request\<lparr>rq_model := ''mythical-1'', rq_headers := []\<rparr>)
     = thrown (HTTPException 400 ''Requested model mythical-1 not supported'')
   \<and> (\<exists>message. handler sample_env (sample_request\<lparr>rq_headers := []\<rparr>)
                  = thrown (HTTPException 401 message))
   \<and> (\<exists>message.
         handler sample_env (sample_request\<lparr>rq_headers := [(''Authorization'', ''Basic secret'')]\<rparr>)
           = thrown (HTTPException 401 message))
   \<and> (\<exists>message.
         handler sample_env (sample_request\<lparr>rq_headers := [(''Authorization'', ''Bearer '')]\<rparr>)
           = thrown (HTTPException 401 message))
   \<and> (\<exists>message.
         handler sample_env (sample_request\<lparr>rq_headers := [(''Authorization'', ''Bearer wrong'')]\<rparr>)
           = thrown (HTTPException 401 message))"
proof -
  have 1: "validate_model sample_env (sample_request\<lparr>rq_model := ''mythical-1'', rq_headers := []\<rparr>)
             = Inl (HTTPException 400 ''Requested model mythical-1 not supported'')"
    by code_simp
  from 1 unauthorized_after_model_checks
    [of sample_env "sample_request\<lparr>rq_model := ''mythical-1'', rq_headers := []\<rparr>"
      "HTTPException 400 ''Requested model mythical-1 not supported''"]
  have a: "handler sample_env (sample_request\<lparr>rq_model := ''mythical-1'', rq_headers := []\<rparr>)
          = thrown (HTTPException 400 ''Requested model mythical-1 not supported'')"
    by blast
  have b: "\<exists>message. handler sample_env (sample_request\<lparr>rq_headers := hs\<rparr>)
                  = thrown (HTTPException 401 message)"
    if "case validate_model sample_env (sample_request\<lparr>rq_headers := hs\<rparr>) of
          Inl ex \<Rightarrow> False
        | Inr v \<Rightarrow> unauthorized sample_env (sample_request\<lparr>rq_headers := hs\<rparr>)" for hs
  proof -
    from that obtain v where "validate_model sample_env (sample_request\<lparr>rq_headers := hs\<rparr>) = Inr v"
      "unauthorized sample_env (sample_request\<lparr>rq_headers := hs\<rparr>)"
      by (auto split: sum.splits)
    with unauthorized_after_model_checks [of sample_env "sample_request\<lparr>rq_headers := hs\<rparr>" _ v]
    show ?thesis
      by blast
  qed
  have "\<exists>message. handler sample_env (sample_request\<lparr>rq_headers := []\<rparr>)
                  = thrown (HTTPException 401 message)"
    by (rule b) code_simp
  moreover have "\<exists>message.
         handler sample_env (sample_request\<lparr>rq_headers := [(''Authorization'', ''Basic secret'')]\<rparr>)
           = thrown (HTTPException 401 message)"
    by (rule b) code_simp
  moreover have "\<exists>message.
         handler sample_env (sample_request\<lparr>rq_headers := [(''Authorization'', ''Bearer '')]\<rparr>)
           = thrown (HTTPException 401 message)"
    by (rule b) code_simp
  moreover have "\<exists>message.
         handler sample_env (sample_request\<lparr>rq_headers := [(''Authorization'', ''Bearer wrong'')]\<rparr>)
           = thrown (HTTPException 401 message)"
    by (rule b) code_simp
  ultimately show ?thesis
    using a by blast
qed

subsection \<open>Cache hits\<close>

text \<open>
  C6, as stated, fails: the cache is consulted after the credential block. Once the
  organization of a project in \<open>credits\<close> mode has no credit left, a non-streaming request
  whose key is in the cache is answered with 402 and leaves no log row.
\<close>

theorem cached_request_without_credits_is_402:
  "\<not> rq_stream sample_request
   \<and> fst (env_isCachingEnabled broke_cached_env (pj_id sample_project))
   \<and> env_getCache broke_cached_env
       (env_generateCacheKey broke_cached_env
          \<lparr>ci_model = ''gpt-4o-mini'', ci_messages = rq_messages sample_request,
           ci_temperature = None, ci_max_tokens = None, ci_top_p = None,
           ci_frequency_penalty = None, ci_presence_penalty = None,
           ci_response_format = None\<rparr>) = Some cached_json
   \<and> out_response (handler broke_cached_env sample_request)
       = Thrown (HTTPException 402 ''Organization has insufficient credits'')
   \<and> out_logs (handler broke_cached_env sample_request) = []"
  by code_simp

text \<open>
  C6 (amended): a non-streaming request on a project with caching enabled that passes the
  model checks, authentication, routing and the credential and URL blocks, and whose
  cache key is present in the cache, is answered with the cached response; the handler
  writes one log row with \<open>cached = true\<close>, zero duration and zero costs, and makes no
  upstream call. A request that is refused before the cache lookup gets the exception
  instead, and makes no upstream call either.
\<close>

theorem cache_hit_returns_cached_response:
  "(prepare e rq = Inl ex \<longrightarrow> handler e rq = thrown ex \<and> out_fetches (handler e rq) = 0)
   \<and> (prepare e rq = Inr cx \<and> \<not> rq_stream rq
        \<and> fst (env_isCachingEnabled e (pj_id (cx_project cx)))
        \<and> cacheKey e rq cx = Some k \<and> k \<noteq> [] \<and> env_getCache e k = Some r \<and> truthy r \<longrightarrow>
        out_response (handler e rq) = JsonResponse 200 r
        \<and> out_fetches (handler e rq) = 0
        \<and> out_setCache (handler e rq) = []
        \<and> (\<exists>row. out_logs (handler e rq) = [row] \<and> lg_cached row \<and> lg_duration row = 0
               \<and> lg_cost row = Some 0 \<and> lg_inputCost row = Some 0 \<and> lg_outputCost row = Some 0
               \<and> lg_cachedInputCost row = Some 0 \<and> lg_requestCost row = Some 0
               \<and> \<not> lg_hasError row \<and> \<not> lg_streamed row))"
  by (auto simp add: handler_def thrown_def cachedResponse_def cached_row_def)

theorem cache_hit_returns_cached_response_witness:
  "out_response (handler cached_env sample_request) = JsonResponse 200 cached_json
   \<and> out_fetches (handler cached_env sample_request) = 0
   \<and> (\<exists>row. out_logs (handler cached_env sample_request) = [row] \<and> lg_cached row
         \<and> lg_duration row = 0 \<and> lg_cost row = Some 0)
   \<and> out_fetches (handler broke_cached_env sample_request) = 0"
proof -
  have "case prepare cached_env sample_request of
          Inl ex \<Rightarrow> False
        | Inr cx \<Rightarrow>
            \<not> rq_stream sample_request
            \<and> fst (env_isCachingEnabled cached_env (pj_id (cx_project cx)))
            \<and> cacheKey cached_env sample_request cx = Some ''gpt-4o-mini''
            \<and> env_getCache cached_env ''gpt-4o-mini'' = Some cached_json \<and> truthy cached_json"
    by code_simp
  then obtain cx where "prepare cached_env sample_request = Inr cx"
    "\<not> rq_stream sample_request"
    "fst (env_isCachingEnabled cached_env (pj_id (cx_project cx)))"
    "cacheKey cached_env sample_request cx = Some ''gpt-4o-mini''"
    "env_getCache cached_env ''gpt-4o-mini'' = Some cached_json" "truthy cached_json"
    by (auto split: sum.splits)
  with cache_hit_returns_cached_response [where e = cached_env and rq = sample_request
      and cx = cx and k = "''gpt-4o-mini''" and r = cached_json]
  have a: "out_response (handler cached_env sample_request) = JsonResponse 200 cached_json
     \<and> out_fetches (handler cached_env sample_request) = 0
     \<and> (\<exists>row. out_logs (handler cached_env sample_request) = [row] \<and> lg_cached row
           \<and> lg_duration row = 0 \<and> lg_cost row = Some 0)"
    by auto
  have "isl (prepare broke_cached_env sample_request)"
    by code_simp
  then obtain ex where "prepare broke_cached_env sample_request = Inl ex"
    by (auto simp add: isl_def)
  with cache_hit_returns_cached_response [where e = broke_cached_env and rq = sample_request
      and ex = ex]
  have "out_fetches (handler broke_cached_env sample_request) = 0"
    by blast
  with a show ?thesis
    by blast
qed

subsection \<open>The credential path in the log\<close>

text \<open>
  C10: a request that is refused before the cache lookup writes no log row. Otherwise
  every log row of the request has \<open>usedMode = "api-keys"\<close> exactly when a stored provider
  key was found, and then the upstream token is that key's token; with no stored key
  \<open>usedMode\<close> is \<open>"credits"\<close> and the token is the one of the environment. The project's
  configured mode is recorded in \<open>mode\<close>. (Stored provider keys have non-empty ids.)
\<close>

theorem usedMode_records_credential_path:
  "(prepare e rq = Inl ex \<longrightarrow> out_logs (handler e rq) = [])
   \<and> (prepare e rq = Inr cx
        \<and> (case cx_providerKey cx of None \<Rightarrow> True | Some k \<Rightarrow> pk_id k \<noteq> [])
        \<and> row \<in> set (out_logs (handler e rq)) \<longrightarrow>
        (lg_usedMode row = ''api-keys'' \<longleftrightarrow> cx_providerKey cx \<noteq> None)
        \<and> (lg_usedMode row = ''credits'' \<longleftrightarrow> cx_providerKey cx = None)
        \<and> lg_mode row = pj_mode (cx_project cx)
        \<and> (case cx_providerKey cx of
              Some k \<Rightarrow> cx_usedToken cx = pk_token k
            | None \<Rightarrow> getProviderTokenFromEnv e (cx_usedProvider cx) = Inr (cx_usedToken cx)))"
proof -
  have a: "out_logs (handler e rq) = []" if "prepare e rq = Inl ex"
    using that by (simp add: handler_def thrown_def)
  have b: "(lg_usedMode row = ''api-keys'' \<longleftrightarrow> cx_providerKey cx \<noteq> None)
      \<and> (lg_usedMode row = ''credits'' \<longleftrightarrow> cx_providerKey cx = None)
      \<and> lg_mode row = pj_mode (cx_project cx)
      \<and> (case cx_providerKey cx of
            Some k \<Rightarrow> cx_usedToken cx = pk_token k
          | None \<Rightarrow> getProviderTokenFromEnv e (cx_usedProvider cx) = Inr (cx_usedToken cx))"
    if p: "prepare e rq = Inr cx"
      and i: "case cx_providerKey cx of None \<Rightarrow> True | Some k \<Rightarrow> pk_id k \<noteq> []"
      and m: "row \<in> set (out_logs (handler e rq))"
  proof -
    from prepare_Inr [OF p] obtain r where
      "resolve_credentials e (cx_project cx) r (cx_usedProvider cx)
         = Inr (cx_providerKey cx, cx_usedToken cx)"
      by blast
    from resolve_credentials_Inr [OF this]
    have t: "case cx_providerKey cx of
               Some k \<Rightarrow> cx_usedToken cx = pk_token k
             | None \<Rightarrow> getProviderTokenFromEnv e (cx_usedProvider cx) = Inr (cx_usedToken cx)"
      by (simp split: option.splits)
    from handler_rows [OF p m] i t show ?thesis
      by (auto simp add: baseLogEntry_usedMode baseLogEntry_mode split: option.splits)
  qed
  from a b show ?thesis
    by blast
qed

theorem usedMode_records_credential_path_witness:
  "(\<exists>row. out_logs (handler hybrid_env sample_request) = [row]
      \<and> lg_usedMode row = ''api-keys'' \<and> lg_mode row = ''hybrid'')
   \<and> (\<exists>row. out_logs (handler (with_fetch (Response failed_response)) sample_request) = [row]
      \<and> lg_usedMode row = ''credits'' \<and> lg_mode row = ''credits'')"
proof -
  have "case prepare hybrid_env sample_request of
          Inl ex \<Rightarrow> False
        | Inr cx \<Rightarrow>
            cx_providerKey cx = Some stored_key \<and> pk_id stored_key \<noteq> []
            \<and> pj_mode (cx_project cx) = ''hybrid''
            \<and> length (out_logs (handler hybrid_env sample_request)) = 1"
    by code_simp
  then obtain cx row where p: "prepare hybrid_env sample_request = Inr cx"
    and k: "cx_providerKey cx = Some stored_key" "pk_id stored_key \<noteq> []"
    and q: "pj_mode (cx_project cx) = ''hybrid''"
    and l: "out_logs (handler hybrid_env sample_request) = [row]"
    by (auto split: sum.splits simp add: length_Suc_conv)
  from p k l usedMode_records_credential_path [where e = hybrid_env and rq = sample_request
      and cx = cx and row = row]
  have "lg_usedMode row = ''api-keys'' \<and> lg_mode row = pj_mode (cx_project cx)"
    by simp
  with q l have a: "\<exists>row. out_logs (handler hybrid_env sample_request) = [row]
      \<and> lg_usedMode row = ''api-keys'' \<and> lg_mode row = ''hybrid''"
    by simp
  have "case prepare (with_fetch (Response failed_response)) sample_request of
          Inl ex \<Rightarrow> False
        | Inr cx \<Rightarrow>
            cx_providerKey cx = None \<and> pj_mode (cx_project cx) = ''credits''
            \<and> length (out_logs (handler (with_fetch (Response failed_response))
                        sample_request)) = 1"
    by code_simp
  then obtain cx row where p: "prepare (with_fetch (Response failed_response)) sample_request = Inr cx"
    and k: "cx_providerKey cx = None"
    and q: "pj_mode (cx_project cx) = ''credits''"
    and l: "out_logs (handler (with_fetch (Response failed_response)) sample_request) = [row]"
    by (auto split: sum.splits simp add: length_Suc_conv)
  from p k l usedMode_records_credential_path
    [where e = "with_fetch (Response failed_response)" and rq = sample_request
      and cx = cx and row = row]
  have "lg_usedMode row = ''credits'' \<and> lg_mode row = pj_mode (cx_project cx)"
    by simp
  with q l have "\<exists>row. out_logs (handler (with_fetch (Response failed_response)) sample_request)
        = [row] \<and> lg_usedMode row = ''credits'' \<and> lg_mode row = ''credits''"
    by simp
  with a show ?thesis
    by blast
qed

subsection \<open>The end of an event stream\<close>

text \<open>
  C4 at a usual Anthropic stream: the handler forwards four chunks and ends the stream
  without a \<open>done\<close> event, because the counters were completed when the stop reason
  arrived and the \<open>finally\<close> block sends \<open>done\<close> only together with a last usage chunk.
  The one log row is written all the same.
\<close>

theorem anthropic_stream_ends_without_done:
  "map sse_event (events_of (out_response (handler anthropic_env anthropic_request)))
     = [None, None, None, None]
   \<and> map sse_id (events_of (out_response (handler anthropic_env anthropic_request)))
     = [0, 1, 2, 3]
   \<and> map lg_finishReason (out_logs (handler anthropic_env anthropic_request))
     = [JStr ''end_turn'']"
  by code_simp

section \<open>Properties of the worker\<close>

subsection \<open>Recovery of a batch\<close>

lemma persist_threw_queues:
  "persist parse flt st messages = (st', True) \<Longrightarrow> ws_queues st' = ws_queues st"
  by (auto simp add: persist_def Let_def split: if_splits fault.splits)

lemma persist_insert_throws:
  "List.map_filter parse messages \<noteq> [] \<Longrightarrow>
   persist parse InsertThrows st messages = (st, True)"
  by (simp add: persist_def Let_def)

lemma find_map_same:
  assumes "\<And>x. P (g x) = P x"
  shows "find P (map g xs) = map_option g (find P xs)"
  using assms by (induction xs) simp_all

lemma applyRetention_debit: "applyRetention (debit db u) = applyRetention db"
proof
  fix data
  have "getOrganization (debit db u) i
        = map_option (\<lambda>organization.
            if org_id organization = fst u
            then organization\<lparr>org_credits := org_credits organization - snd u\<rparr>
            else organization) (getOrganization db i)" for i
    unfolding getOrganization_def debit_def by (simp add: find_map_same)
  then show "applyRetention (debit db u) data = applyRetention db data"
    by (cases "getOrganization db (lg_organizationId data)") (simp_all add: applyRetention_def)
qed

lemma applyRetention_debits: "applyRetention (foldl debit db us) = applyRetention db"
  by (induction us arbitrary: db) (simp_all add: applyRetention_debit)

lemma db_log_debits: "db_log (foldl debit db us) = db_log db"
  by (induction us arbitrary: db) (simp_all add: debit_def)

lemma applyRetention_cong:
  "db_organization db' = db_organization db \<Longrightarrow> applyRetention db' = applyRetention db"
  by (rule ext) (simp add: applyRetention_def getOrganization_def)

lemma topUpOrganization_keeps:
  "db_log (topUpOrganization env db org) = db_log db
   \<and> db_organization (topUpOrganization env db org) = db_organization db"
  by (simp add: topUpOrganization_def update_transaction_def Let_def
      split: option.splits js_result.splits prod.splits)

lemma topUp_loop_keeps:
  "db_log (foldl (topUpOrganization env) db orgs) = db_log db
   \<and> db_organization (foldl (topUpOrganization env) db orgs) = db_organization db"
  by (induction orgs arbitrary: db) (simp_all add: topUpOrganization_keeps)

lemma processAutoTopUp_keeps:
  "db_log (processAutoTopUp env db) = db_log db
   \<and> db_organization (processAutoTopUp env db) = db_organization db"
  by (auto simp add: processAutoTopUp_def acquireLock_def releaseLock_def Let_def
      topUp_loop_keeps split: prod.splits if_splits)

lemma map_filter_member:
  "m \<in> set messages \<Longrightarrow> parse m = Some row \<Longrightarrow> row \<in> set (List.map_filter parse messages)"
  by (force simp add: List.map_filter_def)

text \<open>
  What the \<open>try\<close> block does to the worker: rows are only added to the log, the retention
  levels stay, the queues change only when it does not throw, and then the batch is taken
  from the processing queue and the row of every message that parses is in the log.
\<close>

lemma persist_effect:
  assumes "persist parse flt st messages = (st', threw)"
  shows "set (db_log (ws_db st)) \<subseteq> set (db_log (ws_db st'))"
    and "applyRetention (ws_db st') = applyRetention (ws_db st)"
    and "threw \<Longrightarrow> ws_queues st' = ws_queues st"
    and "\<not> threw \<Longrightarrow>
           ws_queues st' = removeFromProcessingQueue (length messages) (ws_queues st)"
    and "\<not> threw \<Longrightarrow> m \<in> set messages \<Longrightarrow> parse m = Some row \<Longrightarrow>
           applyRetention (ws_db st) row \<in> set (db_log (ws_db st'))"
proof -
  define logData where "logData = List.map_filter parse messages"
  define db1 where
    "db1 = (ws_db st)\<lparr>db_log := db_log (ws_db st) @ map (applyRetention (ws_db st)) logData\<rparr>"
  have l1: "db_log (foldl debit db1 us)
            = db_log (ws_db st) @ map (applyRetention (ws_db st)) logData" for us
    by (simp add: db_log_debits db1_def)
  have "applyRetention db1 = applyRetention (ws_db st)"
    by (rule applyRetention_cong) (simp add: db1_def)
  then have r1: "applyRetention (foldl debit db1 us) = applyRetention (ws_db st)" for us
    by (simp add: applyRetention_debits)
  note p = assms [unfolded persist_def, folded logData_def, unfolded Let_def, folded db1_def]
  have l0: "db_log db1 = db_log (ws_db st) @ map (applyRetention (ws_db st)) logData"
    and r0: "applyRetention db1 = applyRetention (ws_db st)"
    using l1 [of "[]"] r1 [of "[]"] by simp_all
  show "set (db_log (ws_db st)) \<subseteq> set (db_log (ws_db st'))"
    using p by (cases flt) (auto simp add: l0 l1 split: if_splits)
  show "applyRetention (ws_db st') = applyRetention (ws_db st)"
    using p by (cases flt) (auto simp add: r0 r1 split: if_splits)
  show "ws_queues st' = ws_queues st" if threw
    using p that by (cases flt) (auto split: if_splits)
  show "ws_queues st' = removeFromProcessingQueue (length messages) (ws_queues st)" if "\<not> threw"
    using p that by (cases flt) (auto split: if_splits)
  show "applyRetention (ws_db st) row \<in> set (db_log (ws_db st'))"
    if "\<not> threw" "m \<in> set messages" "parse m = Some row"
  proof -
    from that(2,3) have row: "row \<in> set logData"
      unfolding logData_def by (rule map_filter_member)
    then have "logData \<noteq> []"
      by auto
    with p that(1) row show ?thesis
      by (cases flt) (auto simp add: l0 l1 split: if_splits)
  qed
qed

text \<open>
  One pass, whatever throws in it: rows are only added to the log, the retention levels
  stay, and a message that was in a queue is still in one or is persisted.
\<close>

lemma pass_effect:
  assumes "processLogQueue parse f st = Completed st' \<or> processLogQueue parse f st = Failed st'"
  shows "set (db_log (ws_db st)) \<subseteq> set (db_log (ws_db st'))"
    and "applyRetention (ws_db st') = applyRetention (ws_db st)"
    and "m \<in> set (queued st) \<Longrightarrow> kept parse (ws_db st) st' m"
proof -
  consider (same) "st' = st"
    | (claimed) messages q st1 threw where
        "moveToProcessingQueue 10 (ws_queues st) = Some (messages, q)"
        "persist parse (f_fault f) (st\<lparr>ws_queues := q\<rparr>) messages = (st1, threw)"
        "st' = (if threw \<and> \<not> f_recover_throws f
                then st1\<lparr>ws_queues := recoverProcessingQueue (ws_queues st1)\<rparr> else st1)"
    using assms unfolding processLogQueue_def
    by (cases "moveToProcessingQueue 10 (ws_queues st)")
      (auto split: if_splits prod.splits bool.splits)
  then have "set (db_log (ws_db st)) \<subseteq> set (db_log (ws_db st'))
      \<and> applyRetention (ws_db st') = applyRetention (ws_db st)
      \<and> (m \<in> set (queued st) \<longrightarrow> kept parse (ws_db st) st' m)"
  proof cases
    case same
    then show ?thesis
      by (simp add: kept_def)
  next
    case claimed
    note e = persist_effect [OF claimed(2)]
    from claimed(1) have m: "messages = take 10 (q_main (ws_queues st))"
      and q: "q = \<lparr>q_main = drop 10 (q_main (ws_queues st)),
                   q_processing = q_processing (ws_queues st) @ messages\<rparr>"
      by (auto simp add: moveToProcessingQueue_def split: if_splits)
    have k: "kept parse (ws_db st) st' m" if i: "m \<in> set (queued st)"
    proof (cases threw)
      case True
      with e(3) q have "ws_queues st1 = q"
        by simp
      with True claimed(3) q have "set (queued st')
          = set (drop 10 (q_main (ws_queues st))) \<union> set (q_processing (ws_queues st))
            \<union> set messages"
        by (auto simp add: queued_def recoverProcessingQueue_def)
      moreover have "set (q_main (ws_queues st))
          = set messages \<union> set (drop 10 (q_main (ws_queues st)))"
        unfolding m by (metis append_take_drop_id set_append)
      ultimately show ?thesis
        using i by (auto simp add: kept_def queued_def)
    next
      case False
      with e(4) q have "ws_queues st1
          = \<lparr>q_main = drop 10 (q_main (ws_queues st)),
             q_processing = q_processing (ws_queues st)\<rparr>"
        by (simp add: removeFromProcessingQueue_def)
      with False claimed(3) have s: "set (queued st')
          = set (drop 10 (q_main (ws_queues st))) \<union> set (q_processing (ws_queues st))"
        by (simp add: queued_def)
      have "set (q_main (ws_queues st)) = set messages \<union> set (drop 10 (q_main (ws_queues st)))"
        unfolding m by (metis append_take_drop_id set_append)
      with i consider "m \<in> set (queued st')" | "m \<in> set messages"
        using s by (auto simp add: queued_def)
      then show ?thesis
      proof cases
        case 1
        then show ?thesis
          by (simp add: kept_def)
      next
        case 2
        with False e(5) [of m] claimed(3) show ?thesis
          by (auto simp add: kept_def persisted_def split: option.splits)
      qed
    qed
    from e(1,2) claimed(3) k show ?thesis
      by simp
  qed
  then show "set (db_log (ws_db st)) \<subseteq> set (db_log (ws_db st'))"
    and "applyRetention (ws_db st') = applyRetention (ws_db st)"
    and "m \<in> set (queued st) \<Longrightarrow> kept parse (ws_db st) st' m"
    by simp_all
qed

lemma persisted_mono:
  assumes "persisted parse db w m"
    and "set (db_log (ws_db w)) \<subseteq> set (db_log (ws_db w'))"
  shows "persisted parse db w' m"
  using assms by (auto simp add: persisted_def split: option.splits)

lemma persisted_cong:
  "applyRetention db' = applyRetention db \<Longrightarrow> persisted parse db' w m = persisted parse db w m"
  by (simp add: persisted_def split: option.splits)

text \<open>The same for the run of the worker through any number of passes.\<close>

lemma loop_effect:
  "set (db_log (ws_db st)) \<subseteq> set (db_log (ws_db (worker_loop parse env interval c fs st)))
   \<and> applyRetention (ws_db (worker_loop parse env interval c fs st)) = applyRetention (ws_db st)
   \<and> (\<forall>m \<in> set (queued st). kept parse (ws_db st) (worker_loop parse env interval c fs st) m)"
proof (induction fs arbitrary: st c)
  case Nil
  then show ?case
    by (simp add: kept_def)
next
  case (Cons f fs)
  obtain st1 where p: "processLogQueue parse f st = Completed st1
      \<or> processLogQueue parse f st = Failed st1"
    by (cases "processLogQueue parse f st") auto
  note e = pass_effect [OF p]
  obtain st2 c' where w: "worker_loop parse env interval c (f # fs) st
        = worker_loop parse env interval c' fs st2"
    and q2: "ws_queues st2 = ws_queues st1"
    and l2: "db_log (ws_db st2) = db_log (ws_db st1)"
    and r2: "applyRetention (ws_db st2) = applyRetention (ws_db st1)"
  proof (cases "processLogQueue parse f st = Completed st1 \<and> Suc c \<ge> interval")
    case True
    have "applyRetention (processAutoTopUp env (ws_db st1)) = applyRetention (ws_db st1)"
      by (rule applyRetention_cong) (simp add: processAutoTopUp_keeps)
    with True that [of 0 "st1\<lparr>ws_db := processAutoTopUp env (ws_db st1)\<rparr>"] show ?thesis
      by (simp add: processAutoTopUp_keeps)
  next
    case False
    with p consider "processLogQueue parse f st = Failed st1"
      | "processLogQueue parse f st = Completed st1" "\<not> Suc c \<ge> interval"
      by auto
    then show ?thesis
    proof cases
      case 1
      with that [of c st1] show ?thesis
        by simp
    next
      case 2
      with that [of "Suc c" st1] show ?thesis
        by simp
    qed
  qed
  define w where "w = worker_loop parse env interval c' fs st2"
  from Cons.IH [of st2 c'] have ih:
    "set (db_log (ws_db st2)) \<subseteq> set (db_log (ws_db w))"
    "applyRetention (ws_db w) = applyRetention (ws_db st2)"
    "\<And>m. m \<in> set (queued st2) \<Longrightarrow> kept parse (ws_db st2) w m"
    by (simp_all add: w_def)
  have "kept parse (ws_db st) w m" if "m \<in> set (queued st)" for m
  proof -
    from e(3) [OF that] consider "m \<in> set (queued st1)" | "persisted parse (ws_db st) st1 m"
      by (auto simp add: kept_def)
    then show ?thesis
    proof cases
      case 1
      with q2 have "m \<in> set (queued st2)"
        by (simp add: queued_def)
      then have "kept parse (ws_db st2) w m"
        by (rule ih(3))
      moreover from r2 e(2) have "applyRetention (ws_db st2) = applyRetention (ws_db st)"
        by simp
      ultimately show ?thesis
        using persisted_cong [of "ws_db st2" "ws_db st" parse w m] by (simp add: kept_def)
    next
      case 2
      with l2 ih(1) have "persisted parse (ws_db st) w m"
        by (auto intro: persisted_mono)
      then show ?thesis
        by (simp add: kept_def)
    qed
  qed
  with e(1,2) ih(1,2) l2 r2 show ?case
    unfolding w w_def [symmetric] by auto
qed

lemma persist_no_fault: "\<not> snd (persist parse NoFault st messages)"
  by (simp add: persist_def Let_def)

lemma no_fault_pass:
  assumes "q_processing (ws_queues st) = []"
  shows "\<exists>st'. processLogQueue parse no_fault st = Completed st'
           \<and> q_main (ws_queues st') = drop 10 (q_main (ws_queues st))
           \<and> q_processing (ws_queues st') = []"
proof (cases "moveToProcessingQueue 10 (ws_queues st)")
  case None
  then show ?thesis
    using assms by (auto simp add: processLogQueue_def no_fault_def moveToProcessingQueue_def
        split: if_splits)
next
  case (Some a)
  then obtain messages q where c: "moveToProcessingQueue 10 (ws_queues st) = Some (messages, q)"
    by (cases a) auto
  with assms have q: "q = \<lparr>q_main = drop 10 (q_main (ws_queues st)), q_processing = messages\<rparr>"
    by (auto simp add: moveToProcessingQueue_def split: if_splits)
  obtain st1 where p: "persist parse NoFault (st\<lparr>ws_queues := q\<rparr>) messages = (st1, False)"
    using persist_no_fault [of parse "st\<lparr>ws_queues := q\<rparr>" messages]
    by (cases "persist parse NoFault (st\<lparr>ws_queues := q\<rparr>) messages") auto
  from persist_effect(4) [OF p] q have "ws_queues st1
      = \<lparr>q_main = drop 10 (q_main (ws_queues st)), q_processing = []\<rparr>"
    by (simp add: removeFromProcessingQueue_def)
  with c p show ?thesis
    by (simp add: processLogQueue_def no_fault_def)
qed

text \<open>Enough passes without a fault empty the queues.\<close>

lemma drain:
  assumes "q_processing (ws_queues st) = []" and "length (q_main (ws_queues st)) \<le> 10 * n"
  shows "queued (worker_loop parse env interval c (replicate n no_fault) st) = []"
  using assms
proof (induction n arbitrary: st c)
  case 0
  then show ?case
    by (simp add: queued_def)
next
  case (Suc n)
  from no_fault_pass [OF Suc.prems(1)] obtain st' where
    p: "processLogQueue parse no_fault st = Completed st'"
    and m: "q_main (ws_queues st') = drop 10 (q_main (ws_queues st))"
    and q: "q_processing (ws_queues st') = []"
    by blast
  from m Suc.prems(2) have l: "length (q_main (ws_queues st')) \<le> 10 * n"
    by simp
  show ?case
  proof (cases "Suc c \<ge> interval")
    case True
    with p Suc.IH [of "st'\<lparr>ws_db := processAutoTopUp env (ws_db st')\<rparr>" 0] q l show ?thesis
      by simp
  next
    case False
    with p Suc.IH [of st' "Suc c"] q l show ?thesis
      by simp
  qed
qed

lemma kept_trans:
  assumes "kept parse db st1 m"
    and "set (db_log (ws_db st1)) \<subseteq> set (db_log (ws_db w))"
    and "\<And>m. m \<in> set (queued st1) \<Longrightarrow> kept parse db1 w m"
    and "applyRetention db1 = applyRetention db"
  shows "kept parse db w m"
proof -
  from assms(1) consider "m \<in> set (queued st1)" | "persisted parse db st1 m"
    by (auto simp add: kept_def)
  then show ?thesis
  proof cases
    case 1
    then have "kept parse db1 w m"
      by (rule assms(3))
    with persisted_cong [OF assms(4), of parse w m] show ?thesis
      by (simp add: kept_def)
  next
    case 2
    with assms(2) have "persisted parse db w m"
      by (auto intro: persisted_mono)
    then show ?thesis
      by (simp add: kept_def)
  qed
qed

text \<open>A start of the worker, whether or not the recovery at startup throws.\<close>

lemma start_effect:
  "set (db_log (ws_db st)) \<subseteq> set (db_log (ws_db (startWorker parse env interval r fs st)))
   \<and> (\<forall>m \<in> set (queued st). kept parse (ws_db st) (startWorker parse env interval r fs st) m)"
proof -
  have "set (queued (startup_recovery r st)) = set (queued st)"
    and "ws_db (startup_recovery r st) = ws_db st"
    by (auto simp add: startup_recovery_def queued_def recoverProcessingQueue_def)
  with loop_effect [of "startup_recovery r st" parse env interval 0 fs] show ?thesis
    by (simp add: startWorker_def)
qed

lemma start_drains:
  assumes "length (queued st) \<le> 10 * n"
  shows "queued (startWorker parse env interval False (replicate n no_fault) st) = []"
proof -
  have "q_processing (ws_queues (startup_recovery False st)) = []"
    and "q_main (ws_queues (startup_recovery False st)) = queued st"
    by (simp_all add: startup_recovery_def queued_def recoverProcessingQueue_def)
  with assms show ?thesis
    unfolding startWorker_def by (intro drain) simp_all
qed

lemma kept_persisted: "kept parse db w m \<Longrightarrow> queued w = [] \<Longrightarrow> persisted parse db w m"
  by (simp add: kept_def)

text \<open>
  C9: when the \<open>try\<close> block throws on a claimed batch, the pass returns, and the two
  queues together hold the same messages as before the pass.
  \<^item> If the recovery succeeds, the processing queue is empty and the main queue holds its
    remaining messages followed by everything that was in the processing queue, the whole
    batch included. The loop goes on: with enough further passes in which nothing throws,
    the queues are empty and every message is persisted.
  \<^item> If the recovery throws, the queues stay as they were after the claim, the batch at
    the end of the processing queue. A later start of the worker moves it to the main
    queue: with enough passes in which nothing throws, that worker ends with empty queues
    and every message persisted.
  \<^item> Whatever throws in the further passes of the loop, and in a later start of the worker
    and its passes, every message that was in a queue is kept: it is still in a queue, or
    it is persisted.
\<close>

theorem failed_batch_is_recovered:
  assumes "f_fault f \<noteq> ClaimThrows"
    and "moveToProcessingQueue 10 (ws_queues st) = Some (messages, q)"
    and "snd (persist parse (f_fault f) (st\<lparr>ws_queues := q\<rparr>) messages)"
  shows "\<exists>st'. processLogQueue parse f st = Completed st'
           \<and> mset (queued st') = mset (queued st)
           \<and> (\<not> f_recover_throws f \<longrightarrow>
                q_processing (ws_queues st') = []
                \<and> q_main (ws_queues st')
                    = drop 10 (q_main (ws_queues st)) @ q_processing (ws_queues st) @ messages
                \<and> (length (queued st) \<le> 10 * n \<longrightarrow>
                     queued (worker_loop parse env interval c (f # replicate n no_fault) st) = []
                     \<and> (\<forall>m \<in> set (queued st).
                           persisted parse (ws_db st)
                             (worker_loop parse env interval c (f # replicate n no_fault) st) m)))
           \<and> (f_recover_throws f \<longrightarrow>
                q_main (ws_queues st') = drop 10 (q_main (ws_queues st))
                \<and> q_processing (ws_queues st') = q_processing (ws_queues st) @ messages
                \<and> (length (queued st) \<le> 10 * n \<longrightarrow>
                     queued (startWorker parse env interval False (replicate n no_fault) st') = []
                     \<and> (\<forall>m \<in> set (queued st).
                           persisted parse (ws_db st)
                             (startWorker parse env interval False (replicate n no_fault) st') m)))
           \<and> (\<forall>m \<in> set (queued st).
                 kept parse (ws_db st) (worker_loop parse env interval c (f # fs) st) m)
           \<and> (\<forall>m \<in> set (queued st).
                 kept parse (ws_db st) (startWorker parse env interval r fs st') m)"
proof -
  obtain st1 where p: "persist parse (f_fault f) (st\<lparr>ws_queues := q\<rparr>) messages = (st1, True)"
    using assms(3) by (cases "persist parse (f_fault f) (st\<lparr>ws_queues := q\<rparr>) messages") auto
  from persist_threw_queues [OF p] have q1: "ws_queues st1 = q"
    by simp
  from assms(2) have m: "messages = take 10 (q_main (ws_queues st))"
    and q: "q = \<lparr>q_main = drop 10 (q_main (ws_queues st)),
                 q_processing = q_processing (ws_queues st) @ take 10 (q_main (ws_queues st))\<rparr>"
    by (auto simp add: moveToProcessingQueue_def split: if_splits)
  define st' where "st' = (if f_recover_throws f then st1
                           else st1\<lparr>ws_queues := recoverProcessingQueue (ws_queues st1)\<rparr>)"
  have r: "processLogQueue parse f st = Completed st'"
    using assms(1,2) p by (simp add: processLogQueue_def st'_def)
  note e = pass_effect [OF disjI1, OF r]
  have ms: "mset (drop 10 xs) + mset (take 10 xs) = mset xs" for xs :: "string list"
    by (metis append_take_drop_id mset_append union_commute)
  have c: "mset (queued st') = mset (queued st)"
    using q1 q ms [of "q_main (ws_queues st)"]
    by (simp add: st'_def queued_def recoverProcessingQueue_def add.commute add.left_commute)
  then have len: "length (queued st') = length (queued st)"
    by (rule mset_eq_length)
  have loop: "kept parse (ws_db st) (worker_loop parse env interval c (f # fs) st) m"
    if "m \<in> set (queued st)" for m c fs
    using loop_effect [of st parse env interval c "f # fs"] that by blast
  have start: "kept parse (ws_db st) (startWorker parse env interval r fs st') m"
    if "m \<in> set (queued st)" for m r fs
    using e(3) [OF that]
  proof (rule kept_trans)
    show "set (db_log (ws_db st')) \<subseteq> set (db_log (ws_db (startWorker parse env interval r fs st')))"
      using start_effect [of st' parse env interval r fs] by blast
    show "kept parse (ws_db st') (startWorker parse env interval r fs st') m"
      if "m \<in> set (queued st')" for m
      using start_effect [of st' parse env interval r fs] that by blast
    show "applyRetention (ws_db st') = applyRetention (ws_db st)"
      by (rule e(2))
  qed
  have retry: "queued (worker_loop parse env interval c (f # replicate n no_fault) st) = []"
    if "\<not> f_recover_throws f" "length (queued st) \<le> 10 * n"
  proof -
    from that(1) have p': "q_processing (ws_queues st') = []"
      by (simp add: st'_def recoverProcessingQueue_def)
    with len that(2) have l': "length (q_main (ws_queues st')) \<le> 10 * n"
      by (simp add: queued_def)
    show ?thesis
    proof (cases "Suc c \<ge> interval")
      case True
      with r drain [of "st'\<lparr>ws_db := processAutoTopUp env (ws_db st')\<rparr>" n parse env interval 0]
        p' l' show ?thesis
        by simp
    next
      case False
      with r drain [of st' n parse env interval "Suc c"] p' l' show ?thesis
        by simp
    qed
  qed
  show ?thesis
  proof (intro exI [of _ st'] conjI impI ballI)
    show "processLogQueue parse f st = Completed st'"
      by (rule r)
    show "mset (queued st') = mset (queued st)"
      by (rule c)
    show "q_processing (ws_queues st') = []" if "\<not> f_recover_throws f"
      using that by (simp add: st'_def recoverProcessingQueue_def)
    show "q_main (ws_queues st')
            = drop 10 (q_main (ws_queues st)) @ q_processing (ws_queues st) @ messages"
      if "\<not> f_recover_throws f"
      using that q1 q m by (simp add: st'_def recoverProcessingQueue_def)
    show "queued (worker_loop parse env interval c (f # replicate n no_fault) st) = []"
      if "\<not> f_recover_throws f" "length (queued st) \<le> 10 * n"
      using that by (rule retry)
    show "persisted parse (ws_db st)
            (worker_loop parse env interval c (f # replicate n no_fault) st) m"
      if "\<not> f_recover_throws f" "length (queued st) \<le> 10 * n" "m \<in> set (queued st)" for m
      using loop [OF that(3)] retry [OF that(1,2)] by (rule kept_persisted)
    show "q_main (ws_queues st') = drop 10 (q_main (ws_queues st))" if "f_recover_throws f"
      using that q1 q by (simp add: st'_def)
    show "q_processing (ws_queues st') = q_processing (ws_queues st) @ messages"
      if "f_recover_throws f"
      using that q1 q m by (simp add: st'_def)
    show "queued (startWorker parse env interval False (replicate n no_fault) st') = []"
      if "length (queued st) \<le> 10 * n"
      using that len by (intro start_drains) simp
    show "persisted parse (ws_db st)
            (startWorker parse env interval False (replicate n no_fault) st') m"
      if "length (queued st) \<le> 10 * n" "m \<in> set (queued st)" for m
    proof -
      from that(1) len
      have "queued (startWorker parse env interval False (replicate n no_fault) st') = []"
        by (intro start_drains) simp
      with start [OF that(2)] show ?thesis
        by (rule kept_persisted)
    qed
    show "kept parse (ws_db st) (worker_loop parse env interval c (f # fs) st) m"
      if "m \<in> set (queued st)" for m
      using that by (rule loop)
    show "kept parse (ws_db st) (startWorker parse env interval r fs st') m"
      if "m \<in> set (queued st)" for m
      using that by (rule start)
  qed
qed

theorem failed_batch_is_recovered_witness:
  "queued (worker_loop sample_parse sample_topup_env 5 0
             [\<lparr>f_fault = InsertThrows, f_recover_throws = False\<rparr>, no_fault] sample_worker) = []
   \<and> persisted sample_parse sample_db
       (worker_loop sample_parse sample_topup_env 5 0
          [\<lparr>f_fault = InsertThrows, f_recover_throws = False\<rparr>, no_fault] sample_worker)
       ''message 1''
   \<and> persisted sample_parse sample_db
       (worker_loop sample_parse sample_topup_env 5 0
          [\<lparr>f_fault = InsertThrows, f_recover_throws = False\<rparr>, no_fault] sample_worker)
       ''message 2''
   \<and> (\<exists>st'. processLogQueue sample_parse \<lparr>f_fault = InsertThrows, f_recover_throws = True\<rparr>
            sample_worker = Completed st'
          \<and> q_main (ws_queues st') = []
          \<and> q_processing (ws_queues st') = [''message 1'', ''message 2'']
          \<and> queued (startWorker sample_parse sample_topup_env 5 False [no_fault] st') = []
          \<and> persisted sample_parse sample_db
              (startWorker sample_parse sample_topup_env 5 False [no_fault] st') ''message 1''
          \<and> persisted sample_parse sample_db
              (startWorker sample_parse sample_topup_env 5 False [no_fault] st') ''message 2'')"
proof -
  have m: "moveToProcessingQueue 10 (ws_queues sample_worker)
             = Some ([''message 1'', ''message 2''],
                     \<lparr>q_main = [], q_processing = [''message 1'', ''message 2'']\<rparr>)"
    by code_simp
  have p: "snd (persist sample_parse InsertThrows
                  (sample_worker\<lparr>ws_queues :=
                     \<lparr>q_main = [], q_processing = [''message 1'', ''message 2'']\<rparr>\<rparr>)
                  [''message 1'', ''message 2''])"
    by code_simp
  have q: "q_main (ws_queues sample_worker) = [''message 1'', ''message 2'']"
    "q_processing (ws_queues sample_worker) = []"
    "queued sample_worker = [''message 1'', ''message 2'']"
    "ws_db sample_worker = sample_db"
    by (simp_all add: sample_worker_def queued_def)
  from failed_batch_is_recovered
    [of "\<lparr>f_fault = InsertThrows, f_recover_throws = False\<rparr>" sample_worker
       "[''message 1'', ''message 2'']"
       "\<lparr>q_main = [], q_processing = [''message 1'', ''message 2'']\<rparr>" sample_parse
       1 sample_topup_env 5 0]
    m p q
  have a: "queued (worker_loop sample_parse sample_topup_env 5 0
             [\<lparr>f_fault = InsertThrows, f_recover_throws = False\<rparr>, no_fault] sample_worker) = []
   \<and> persisted sample_parse sample_db
       (worker_loop sample_parse sample_topup_env 5 0
          [\<lparr>f_fault = InsertThrows, f_recover_throws = False\<rparr>, no_fault] sample_worker)
       ''message 1''
   \<and> persisted sample_parse sample_db
       (worker_loop sample_parse sample_topup_env 5 0
          [\<lparr>f_fault = InsertThrows, f_recover_throws = False\<rparr>, no_fault] sample_worker)
       ''message 2''"
    by (simp del: worker_loop.simps) blast
  from failed_batch_is_recovered
    [of "\<lparr>f_fault = InsertThrows, f_recover_throws = True\<rparr>" sample_worker
       "[''message 1'', ''message 2'']"
       "\<lparr>q_main = [], q_processing = [''message 1'', ''message 2'']\<rparr>" sample_parse
       1 sample_topup_env 5]
    m p q
  have "\<exists>st'. processLogQueue sample_parse \<lparr>f_fault = InsertThrows, f_recover_throws = True\<rparr>
            sample_worker = Completed st'
          \<and> q_main (ws_queues st') = []
          \<and> q_processing (ws_queues st') = [''message 1'', ''message 2'']
          \<and> queued (startWorker sample_parse sample_topup_env 5 False [no_fault] st') = []
          \<and> persisted sample_parse sample_db
              (startWorker sample_parse sample_topup_env 5 False [no_fault] st') ''message 1''
          \<and> persisted sample_parse sample_db
              (startWorker sample_parse sample_topup_env 5 False [no_fault] st') ''message 2''"
    by simp blast
  with a show ?thesis
    by blast
qed

subsection \<open>Auto top-up after a recent transaction\<close>

lemma fresh_id_greater: "t \<in> set txs \<Longrightarrow> tx_id t < fresh_id txs"
  by (induction txs) (auto simp add: fresh_id_def)

lemma recentTransaction_cong:
  assumes "transactions_of db organizationId = transactions_of db' organizationId"
  shows "recentTransaction db organizationId = recentTransaction db' organizationId"
proof -
  have "filter (\<lambda>t. tx_organizationId t = organizationId \<and> tx_type t = ''credit_topup'')
          (db_transaction d)
        = filter (\<lambda>t. tx_type t = ''credit_topup'') (transactions_of d organizationId)" for d
    by (simp add: transactions_of_def conj_commute)
  with assms show ?thesis
    by (simp add: recentTransaction_def)
qed

lemma filter_map_unchanged:
  assumes "\<And>x. x \<in> set xs \<Longrightarrow> P x \<Longrightarrow> g x = x"
    and "\<And>x. x \<in> set xs \<Longrightarrow> \<not> P x \<Longrightarrow> \<not> P (g x)"
  shows "filter P (map g xs) = filter P xs"
  using assms by (induction xs) auto

lemma update_new_transaction:
  assumes "tx_organizationId new \<noteq> organizationId" and "tx_id new = fresh_id (db_transaction db)"
    and "\<And>t. tx_organizationId (f t) = tx_organizationId t"
    and "transactions_of d organizationId = transactions_of db organizationId"
    and "\<And>t. t \<in> set (db_transaction d) \<Longrightarrow> tx_organizationId t = organizationId
           \<Longrightarrow> t \<in> set (db_transaction db)"
  shows "transactions_of (update_transaction (tx_id new) f d) organizationId
         = transactions_of db organizationId"
proof -
  have "filter (\<lambda>t. tx_organizationId t = organizationId)
          (map (\<lambda>t. if tx_id t = tx_id new then f t else t) (db_transaction d))
        = filter (\<lambda>t. tx_organizationId t = organizationId) (db_transaction d)"
  proof (rule filter_map_unchanged)
    fix x assume "x \<in> set (db_transaction d)" "tx_organizationId x = organizationId"
    then have "x \<in> set (db_transaction db)"
      by (rule assms(5))
    then have "tx_id x \<noteq> tx_id new"
      using fresh_id_greater [of x "db_transaction db"] assms(2) by simp
    then show "(if tx_id x = tx_id new then f x else x) = x"
      by simp
  next
    fix x assume "x \<in> set (db_transaction d)" "tx_organizationId x \<noteq> organizationId"
    then show "tx_organizationId (if tx_id x = tx_id new then f x else x) \<noteq> organizationId"
      using assms(3) by simp
  qed
  with assms(4) show ?thesis
    by (simp add: transactions_of_def update_transaction_def)
qed

lemma update_transaction_members:
  assumes "\<And>t. tx_organizationId (f t) = tx_organizationId t"
    and "t \<in> set (db_transaction (update_transaction i f d))"
    and "tx_organizationId t = organizationId"
    and "\<And>u. u \<in> set (db_transaction d) \<Longrightarrow> tx_organizationId u = organizationId \<Longrightarrow> tx_id u \<noteq> i"
  shows "t \<in> set (db_transaction d)"
proof -
  from assms(2) obtain u where u: "u \<in> set (db_transaction d)"
    "t = (if tx_id u = i then f u else u)"
    by (auto simp add: update_transaction_def)
  show ?thesis
  proof (cases "tx_id u = i")
    case True
    with u assms(1) [of u] assms(3) have "tx_organizationId u = organizationId"
      by simp
    with u(1) have "tx_id u \<noteq> i"
      by (rule assms(4))
    with True show ?thesis
      by simp
  next
    case False
    with u show ?thesis
      by simp
  qed
qed

lemma added_transaction:
  assumes "tx_organizationId new \<noteq> organizationId"
    and "tx_id new = fresh_id (db_transaction db)"
    and "\<And>t. tx_organizationId (f t) = tx_organizationId t"
    and "\<And>t. tx_organizationId (g t) = tx_organizationId t"
  shows "transactions_of (update_transaction (fresh_id (db_transaction db)) f
           (db\<lparr>db_transaction := db_transaction db @ [new]\<rparr>)) organizationId
         = transactions_of db organizationId"
    and "transactions_of (update_transaction (fresh_id (db_transaction db)) g
           (update_transaction (fresh_id (db_transaction db)) f
              (db\<lparr>db_transaction := db_transaction db @ [new]\<rparr>))) organizationId
         = transactions_of db organizationId"
proof -
  define db1 where "db1 = db\<lparr>db_transaction := db_transaction db @ [new]\<rparr>"
  have t1: "transactions_of db1 organizationId = transactions_of db organizationId"
    using assms(1) by (simp add: db1_def transactions_of_def)
  have m1: "t \<in> set (db_transaction db)"
    if "t \<in> set (db_transaction db1)" "tx_organizationId t = organizationId" for t
    using that assms(1) by (auto simp add: db1_def)
  have u1: "transactions_of (update_transaction (tx_id new) f db1) organizationId
            = transactions_of db organizationId"
    using assms(1,2,3) t1 m1 by (rule update_new_transaction)
  have m2: "t \<in> set (db_transaction db)"
    if "t \<in> set (db_transaction (update_transaction (tx_id new) f db1))"
      "tx_organizationId t = organizationId" for t
  proof -
    have "t \<in> set (db_transaction db1)"
      using assms(3) that
    proof (rule update_transaction_members)
      fix u assume "u \<in> set (db_transaction db1)" "tx_organizationId u = organizationId"
      then have "u \<in> set (db_transaction db)"
        by (rule m1)
      then show "tx_id u \<noteq> tx_id new"
        using fresh_id_greater [of u "db_transaction db"] assms(2) by simp
    qed
    then show ?thesis
      using that(2) by (rule m1)
  qed
  have u2: "transactions_of (update_transaction (tx_id new) g
              (update_transaction (tx_id new) f db1)) organizationId
            = transactions_of db organizationId"
    using assms(1,2,4) u1 m2 by (rule update_new_transaction)
  from u1 assms(2) show "transactions_of (update_transaction (fresh_id (db_transaction db)) f
           (db\<lparr>db_transaction := db_transaction db @ [new]\<rparr>)) organizationId
         = transactions_of db organizationId"
    by (simp add: db1_def)
  from u2 assms(2) show "transactions_of (update_transaction (fresh_id (db_transaction db)) g
           (update_transaction (fresh_id (db_transaction db)) f
              (db\<lparr>db_transaction := db_transaction db @ [new]\<rparr>))) organizationId
         = transactions_of db organizationId"
    by (simp add: db1_def)
qed

lemma topUpOrganization_other:
  assumes "org_id org \<noteq> organizationId"
  shows "transactions_of (topUpOrganization env db org) organizationId
         = transactions_of db organizationId"
  using assms unfolding topUpOrganization_def
  by (auto simp add: Let_def added_transaction
      split: option.splits js_result.splits prod.splits)

lemma topUpOrganization_skips:
  "skipsForRecent (te_now env) (recentTransaction db (org_id org)) \<Longrightarrow>
   topUpOrganization env db org = db"
  by (simp add: topUpOrganization_def)

lemma topUp_loop_skips:
  assumes "skipsForRecent (te_now env) (recentTransaction db organizationId)"
  shows "transactions_of (foldl (topUpOrganization env) db orgs) organizationId
         = transactions_of db organizationId"
  using assms
proof (induction orgs arbitrary: db)
  case Nil
  then show ?case by simp
next
  case (Cons org orgs)
  show ?case
  proof (cases "org_id org = organizationId")
    case True
    with Cons.prems have "topUpOrganization env db org = db"
      by (simp add: topUpOrganization_skips)
    with Cons show ?thesis
      by simp
  next
    case False
    then have t: "transactions_of (topUpOrganization env db org) organizationId
                  = transactions_of db organizationId"
      by (rule topUpOrganization_other)
    then have "recentTransaction (topUpOrganization env db org) organizationId
               = recentTransaction db organizationId"
      by (rule recentTransaction_cong)
    with Cons.prems Cons.IH [of "topUpOrganization env db org"] t show ?thesis
      by simp
  qed
qed

text \<open>
  C5, as stated, fails: the pass skips an organization after a recent \<open>pending\<close> or
  \<open>failed\<close> transaction, not after a \<open>succeeded\<close> one. Five minutes after a top-up has
  succeeded, with the credits still under the threshold, the pass creates another
  transaction: the organization then has a succeeded and a pending transaction that are
  five minutes apart.
\<close>

theorem topup_repeats_after_success:
  "map tx_status (transactions_of topped_up_db ''org-1'') = [''succeeded'']
   \<and> map tx_status (transactions_of (processAutoTopUp sample_topup_env topped_up_db) ''org-1'')
       = [''succeeded'', ''pending'']
   \<and> map (\<lambda>t. (int (te_now sample_topup_env) - int (tx_createdAt t)) div (60 * 1000))
        (transactions_of (processAutoTopUp sample_topup_env topped_up_db) ''org-1'')
       = [5, 0]"
  by code_simp

text \<open>
  C5 (amended): the auto top-up pass skips an organization whose most recent
  \<open>credit_topup\<close> transaction is less than one hour old and is \<open>pending\<close> or \<open>failed\<close>: the
  pass leaves the transactions of that organization as they are.
\<close>

theorem topup_skips_after_pending_or_failed:
  assumes "recentTransaction db organizationId = Some t"
    and "int (tx_createdAt t) > int (te_now env) - 60 * 60 * 1000"
    and "tx_status t = ''pending'' \<or> tx_status t = ''failed''"
  shows "transactions_of (processAutoTopUp env db) organizationId
         = transactions_of db organizationId"
proof -
  obtain b db1 where a: "acquireLock AUTO_TOPUP_LOCK_KEY (te_now env) db = (b, db1)"
    by (cases "acquireLock AUTO_TOPUP_LOCK_KEY (te_now env) db")
  then have d: "db_transaction db1 = db_transaction db"
    by (auto simp add: acquireLock_def Let_def split: if_splits)
  then have t: "transactions_of db1 organizationId = transactions_of db organizationId"
    by (simp add: transactions_of_def)
  then have "recentTransaction db1 organizationId = recentTransaction db organizationId"
    by (rule recentTransaction_cong)
  with assms have "skipsForRecent (te_now env) (recentTransaction db1 organizationId)"
    by (simp add: skipsForRecent_def)
  from topUp_loop_skips [OF this] t
  have "transactions_of (foldl (topUpOrganization env) db1 orgs) organizationId
        = transactions_of db organizationId" for orgs
    by simp
  with a t show ?thesis
    by (cases b) (simp_all add: processAutoTopUp_def releaseLock_def transactions_of_def)
qed

theorem topup_skips_after_pending_or_failed_witness:
  "map tx_status (transactions_of (processAutoTopUp sample_topup_env pending_db) ''org-1'')
     = [''pending'']"
proof -
  have "case recentTransaction pending_db ''org-1'' of
          None \<Rightarrow> False
        | Some t \<Rightarrow>
            int (tx_createdAt t) > int (te_now sample_topup_env) - 60 * 60 * 1000
            \<and> tx_status t = ''pending''"
    by code_simp
  then obtain t where "recentTransaction pending_db ''org-1'' = Some t"
    "int (tx_createdAt t) > int (te_now sample_topup_env) - 60 * 60 * 1000"
    "tx_status t = ''pending'' \<or> tx_status t = ''failed''"
    by (auto split: option.splits)
  then have "transactions_of (processAutoTopUp sample_topup_env pending_db) ''org-1''
             = transactions_of pending_db ''org-1''"
    by (rule topup_skips_after_pending_or_failed)
  moreover have "map tx_status (transactions_of pending_db ''org-1'') = [''pending'']"
    by code_simp
  ultimately show ?thesis
    by simp
qed

end
